theory Spec2Isabelle
  imports Complex_Main
begin

section \<open>JavaScript numbers\<close>

text \<open>
  A JavaScript number is an IEEE-754 double. The model keeps its three special values
  (\<open>NaN\<close>, \<open>+Infinity\<close>, \<open>-Infinity\<close>) and represents a finite double by the real it
  denotes. The result of an arithmetic operation on finite numbers is the exact result
  rounded to the nearest double, \<open>toDouble\<close>: with 53 significant bits above the exponent
  \<open>-1022\<close>, in steps of \<open>2 powi (- 1074)\<close> below it, a tie going to the even significand,
  and a result that reaches \<open>2 ^ 1024\<close> becoming an infinity. \<open>binade x\<close> is the exponent
  \<open>e\<close> with \<open>2 powi e \<le> \<bar>x\<bar> < 2 powi (e + 1)\<close> and \<open>quantum x\<close> the distance between
  neighbouring doubles there. The sign of zero is not represented: a zero divisor is taken
  to be \<open>+0\<close> (every divisor of the engine that can be zero is a duration produced by
  \<open>parseTime\<close>, which is never \<open>-0\<close>). A numeric literal \<open>c\<close> of the source is
  \<open>toDouble c\<close>; the literals 0 and 1 are written \<open>0\<close> and \<open>1\<close>.
\<close>

datatype jsnum = Fin real | PInf | NInf | NaN

definition roundHalfEven :: "real \<Rightarrow> int" where
  "roundHalfEven x =
     (let f = \<lfloor>x\<rfloor>; d = x - of_int f
      in if d < 1 / 2 then f
         else if 1 / 2 < d then f + 1
         else if even f then f else f + 1)"

definition binade :: "real \<Rightarrow> int" where
  "binade x = \<lfloor>log 2 \<bar>x\<bar>\<rfloor>"

definition quantum :: "real \<Rightarrow> real" where
  "quantum x = 2 powi (max (binade x) (- 1022) - 52)"

definition toDouble :: "real \<Rightarrow> jsnum" where
  "toDouble x =
     (if x = 0 then Fin 0
      else let y = of_int (roundHalfEven (x / quantum x)) * quantum x
           in if 2 ^ 1024 \<le> \<bar>y\<bar> then (if 0 < x then PInf else NInf) else Fin y)"

text \<open>The reals that are doubles, and the numbers of the model that are values of JavaScript.\<close>

definition isDouble :: "real \<Rightarrow> bool" where
  "isDouble x = (toDouble x = Fin x)"

fun isNumber :: "jsnum \<Rightarrow> bool" where
  "isNumber (Fin a) = isDouble a"
| "isNumber x = True"

instantiation jsnum :: "{zero, one, plus, minus, uminus, times, inverse, abs, ord, modulo}"
begin

definition zero_jsnum :: jsnum where
  "zero_jsnum = Fin 0"

definition one_jsnum :: jsnum where
  "one_jsnum = Fin 1"

fun plus_jsnum :: "jsnum \<Rightarrow> jsnum \<Rightarrow> jsnum" where
  "plus_jsnum NaN y = NaN"
| "plus_jsnum x NaN = NaN"
| "plus_jsnum (Fin a) (Fin b) = toDouble (a + b)"
| "plus_jsnum (Fin a) y = y"
| "plus_jsnum x (Fin b) = x"
| "plus_jsnum PInf PInf = PInf"
| "plus_jsnum NInf NInf = NInf"
| "plus_jsnum PInf NInf = NaN"
| "plus_jsnum NInf PInf = NaN"

fun uminus_jsnum :: "jsnum \<Rightarrow> jsnum" where
  "uminus_jsnum (Fin a) = Fin (- a)"
| "uminus_jsnum PInf = NInf"
| "uminus_jsnum NInf = PInf"
| "uminus_jsnum NaN = NaN"

definition minus_jsnum :: "jsnum \<Rightarrow> jsnum \<Rightarrow> jsnum" where
  "minus_jsnum (x :: jsnum) y = x + (- y)"

fun times_jsnum :: "jsnum \<Rightarrow> jsnum \<Rightarrow> jsnum" where
  "times_jsnum NaN y = NaN"
| "times_jsnum x NaN = NaN"
| "times_jsnum (Fin a) (Fin b) = toDouble (a * b)"
| "times_jsnum (Fin a) PInf = (if a = 0 then NaN else if 0 < a then PInf else NInf)"
| "times_jsnum (Fin a) NInf = (if a = 0 then NaN else if 0 < a then NInf else PInf)"
| "times_jsnum PInf (Fin b) = (if b = 0 then NaN else if 0 < b then PInf else NInf)"
| "times_jsnum NInf (Fin b) = (if b = 0 then NaN else if 0 < b then NInf else PInf)"
| "times_jsnum PInf PInf = PInf"
| "times_jsnum NInf NInf = PInf"
| "times_jsnum PInf NInf = NInf"
| "times_jsnum NInf PInf = NInf"

fun divide_jsnum :: "jsnum \<Rightarrow> jsnum \<Rightarrow> jsnum" where
  "divide_jsnum NaN y = NaN"
| "divide_jsnum x NaN = NaN"
| "divide_jsnum (Fin a) (Fin b) =
     (if b = 0 then (if a = 0 then NaN else if 0 < a then PInf else NInf)
      else toDouble (a / b))"
| "divide_jsnum (Fin a) y = Fin 0"
| "divide_jsnum PInf (Fin b) = (if 0 \<le> b then PInf else NInf)"
| "divide_jsnum NInf (Fin b) = (if 0 \<le> b then NInf else PInf)"
| "divide_jsnum x y = NaN"

definition inverse_jsnum :: "jsnum \<Rightarrow> jsnum" where
  "inverse_jsnum (x :: jsnum) = Fin 1 div x"

fun abs_jsnum :: "jsnum \<Rightarrow> jsnum" where
  "abs_jsnum (Fin a) = Fin \<bar>a\<bar>"
| "abs_jsnum PInf = PInf"
| "abs_jsnum NInf = PInf"
| "abs_jsnum NaN = NaN"

text \<open>The relational operators: every comparison with \<open>NaN\<close> is false.\<close>

fun less_jsnum :: "jsnum \<Rightarrow> jsnum \<Rightarrow> bool" where
  "less_jsnum NaN y = False"
| "less_jsnum x NaN = False"
| "less_jsnum (Fin a) (Fin b) = (a < b)"
| "less_jsnum (Fin a) PInf = True"
| "less_jsnum NInf (Fin b) = True"
| "less_jsnum NInf PInf = True"
| "less_jsnum x y = False"

fun less_eq_jsnum :: "jsnum \<Rightarrow> jsnum \<Rightarrow> bool" where
  "less_eq_jsnum NaN y = False"
| "less_eq_jsnum x NaN = False"
| "less_eq_jsnum (Fin a) (Fin b) = (a \<le> b)"
| "less_eq_jsnum x PInf = True"
| "less_eq_jsnum NInf y = True"
| "less_eq_jsnum x y = False"

text \<open>
  The remainder operator \<open>%\<close>: the result takes the sign of the dividend (the quotient is
  truncated towards zero); it is \<open>NaN\<close> for an infinite dividend or a zero divisor, and
  the dividend itself for an infinite divisor. The remainder of two doubles is a double,
  so it is not rounded.
\<close>

fun modulo_jsnum :: "jsnum \<Rightarrow> jsnum \<Rightarrow> jsnum" where
  "modulo_jsnum NaN y = NaN"
| "modulo_jsnum x NaN = NaN"
| "modulo_jsnum (Fin a) (Fin b) =
     (if b = 0 then NaN
      else Fin (a - b * real_of_int (if 0 \<le> a / b then \<lfloor>a / b\<rfloor> else \<lceil>a / b\<rceil>)))"
| "modulo_jsnum (Fin a) y = Fin a"
| "modulo_jsnum x y = NaN"

instance ..

end

text \<open>
  \<open>Math.floor\<close> and \<open>Math.round\<close> give the integer exactly (it is a double whenever the
  argument is one); \<open>Math.round\<close> takes a tie upwards.
\<close>

fun Math_floor :: "jsnum \<Rightarrow> jsnum" where
  "Math_floor (Fin a) = Fin (real_of_int \<lfloor>a\<rfloor>)"
| "Math_floor x = x"

fun Math_round :: "jsnum \<Rightarrow> jsnum" where
  "Math_round (Fin a) = Fin (real_of_int \<lfloor>a + 1 / 2\<rfloor>)"
| "Math_round x = x"

fun Math_max :: "jsnum \<Rightarrow> jsnum \<Rightarrow> jsnum" where
  "Math_max NaN y = NaN"
| "Math_max x NaN = NaN"
| "Math_max x y = (if x < y then y else x)"

fun Math_min :: "jsnum \<Rightarrow> jsnum \<Rightarrow> jsnum" where
  "Math_min NaN y = NaN"
| "Math_min x NaN = NaN"
| "Math_min x y = (if y < x then y else x)"

text \<open>Truthiness of a number (\<open>0\<close> and \<open>NaN\<close> are falsy) and the operator \<open>||\<close> on numbers.\<close>

definition truthy_num :: "jsnum \<Rightarrow> bool" where
  "truthy_num x = (x \<noteq> NaN \<and> x \<noteq> Fin 0)"

definition or_num :: "jsnum \<Rightarrow> jsnum \<Rightarrow> jsnum" where
  "or_num x y = (if truthy_num x then x else y)"

section \<open>Values, exceptions and strings\<close>

text \<open>
  The JavaScript values that flow through the engine. \<open>NumberObject\<close> is a boxed number
  (the result of \<open>Object(t)\<close>) and \<open>EasingsObject\<close> is the object literal \<open>easings\<close> of
  \<open>applyEasing\<close>, which some inherited methods return.
\<close>

datatype jsval =
    Undefined
  | Null
  | Boolean bool
  | Number jsnum
  | String string
  | NumberObject jsnum
  | EasingsObject

datatype exn = TypeError string | DOMException string

text \<open>
  The message of the \<open>TypeError\<close> that reading the property \<open>name\<close> of \<open>null\<close> raises, in
  the wording of V8; the character 39 is the single quote.
\<close>

definition readingNull :: "string \<Rightarrow> string" where
  "readingNull name =
     ''Cannot read properties of null (reading '' @ [char_of (39 :: nat)] @ name
       @ [char_of (39 :: nat)] @ '')''"

text \<open>
  Strings are lists of 8-bit characters; the source's strings are UTF-16, so the model
  covers the inputs whose characters are below 256. \<open>isWhiteSpace\<close> is the class \<open>\s\<close>
  of regular expressions and the white space that \<open>parseFloat\<close>, \<open>parseInt\<close> and
  \<open>Number\<close> trim (TAB, LF, VT, FF, CR, SP, NBSP in this range); \<open>isDigit\<close> is \<open>\d\<close>.
\<close>

definition isWhiteSpace :: "char \<Rightarrow> bool" where
  "isWhiteSpace c = ((of_char c :: nat) \<in> set [9, 10, 11, 12, 13, 32, 160])"

definition isDigit :: "char \<Rightarrow> bool" where
  "isDigit c = (48 \<le> (of_char c :: nat) \<and> (of_char c :: nat) \<le> 57)"

definition isDigitOrDot :: "char \<Rightarrow> bool" where
  "isDigitOrDot c = (isDigit c \<or> c = CHR ''.'')"

definition digitVal :: "char \<Rightarrow> nat" where
  "digitVal c = of_char c - 48"

definition digitsVal :: "string \<Rightarrow> nat" where
  "digitsVal ds = foldl (\<lambda>a c. 10 * a + digitVal c) 0 ds"

definition isHexDigit :: "char \<Rightarrow> bool" where
  "isHexDigit c = (isDigit c \<or> (97 \<le> (of_char c :: nat) \<and> (of_char c :: nat) \<le> 102)
     \<or> (65 \<le> (of_char c :: nat) \<and> (of_char c :: nat) \<le> 70))"

definition hexVal :: "char \<Rightarrow> nat" where
  "hexVal c = (if isDigit c then of_char c - 48
               else if 97 \<le> (of_char c :: nat) then of_char c - 87 else of_char c - 55)"

definition radixVal :: "nat \<Rightarrow> string \<Rightarrow> nat" where
  "radixVal r ds = foldl (\<lambda>a c. r * a + hexVal c) 0 ds"

text \<open>
  \<open>toLowerCase\<close> on the characters below 256: the letters A to Z and the accented capitals
  192 to 222 (but not the multiplication sign 215) move up by 32.
\<close>

definition isUpperCase :: "char \<Rightarrow> bool" where
  "isUpperCase c =
     ((65 \<le> (of_char c :: nat) \<and> (of_char c :: nat) \<le> 90)
      \<or> (192 \<le> (of_char c :: nat) \<and> (of_char c :: nat) \<le> 222 \<and> (of_char c :: nat) \<noteq> 215))"

definition toLowerCase :: "string \<Rightarrow> string" where
  "toLowerCase s = map (\<lambda>c. if isUpperCase c then char_of ((of_char c :: nat) + 32) else c) s"

definition startsWith :: "string \<Rightarrow> string \<Rightarrow> bool" where
  "startsWith s p = (take (length p) s = p)"

text \<open>An optional sign: \<open>True\<close> for a leading minus.\<close>

fun signSplit :: "string \<Rightarrow> bool \<times> string" where
  "signSplit [] = (False, [])"
| "signSplit (c # r) =
     (if c = CHR ''-'' then (True, r) else if c = CHR ''+'' then (False, r) else (False, c # r))"

definition scale10 :: "real \<Rightarrow> bool \<Rightarrow> nat \<Rightarrow> real" where
  "scale10 m neg e = (if neg then m / 10 ^ e else m * 10 ^ e)"

text \<open>
  The exponent part of a decimal literal, if a complete one is there: the sign of the
  exponent, its value and the rest of the string.
\<close>

fun exponentPart :: "string \<Rightarrow> bool \<times> nat \<times> string" where
  "exponentPart [] = (False, 0, [])"
| "exponentPart (c # r) =
     (if c = CHR ''e'' \<or> c = CHR ''E''
      then (let (neg, r') = signSplit r; ds = takeWhile isDigit r'
            in if ds = [] then (False, 0, c # r)
               else (neg, digitsVal ds, dropWhile isDigit r'))
      else (False, 0, c # r))"

text \<open>
  The longest prefix that is an unsigned \<open>StrDecimalLiteral\<close> (\<open>Infinity\<close>, or digits with an
  optional fraction and exponent), with its value and the rest; \<open>None\<close> when no prefix is
  one. The value is the double nearest to the decimal.
\<close>

definition unsignedDecimal :: "string \<Rightarrow> (jsnum \<times> string) option" where
  "unsignedDecimal s =
     (if startsWith s ''Infinity'' then Some (PInf, drop 8 s)
      else
        let ip = takeWhile isDigit s;
            r1 = dropWhile isDigit s;
            hasDot = (r1 \<noteq> [] \<and> hd r1 = CHR ''.'');
            fp = (if hasDot then takeWhile isDigit (tl r1) else []);
            r2 = (if hasDot then dropWhile isDigit (tl r1) else r1)
        in if ip = [] \<and> fp = [] then None
           else
             let mant = real (digitsVal ip) + real (digitsVal fp) / 10 ^ length fp;
                 (neg, e, r3) = exponentPart r2
             in Some (toDouble (scale10 mant neg e), r3))"

definition parseFloat :: "string \<Rightarrow> jsnum" where
  "parseFloat s =
     (let (neg, s') = signSplit (dropWhile isWhiteSpace s)
      in case unsignedDecimal s' of
           None \<Rightarrow> NaN
         | Some (v, r) \<Rightarrow> (if neg then - v else v))"

text \<open>
  \<open>parseInt\<close> without a radix: decimal, or hexadecimal after \<open>0x\<close>; the integer that the
  digits denote is rounded to a double.
\<close>

definition parseInt :: "string \<Rightarrow> jsnum" where
  "parseInt s =
     (let (neg, s') = signSplit (dropWhile isWhiteSpace s);
          hex = (startsWith s' ''0x'' \<or> startsWith s' ''0X'');
          ds = (if hex then takeWhile isHexDigit (drop 2 s') else takeWhile isDigit s');
          v = real (if hex then radixVal 16 ds else digitsVal ds)
      in if ds = [] then NaN else toDouble (if neg then - v else v))"

text \<open>\<open>Number(s)\<close>, the conversion a string undergoes in arithmetic and comparisons.\<close>

definition isRadixDigit :: "nat \<Rightarrow> char \<Rightarrow> bool" where
  "isRadixDigit r c = (isHexDigit c \<and> hexVal c < r)"

definition StringToNumber :: "string \<Rightarrow> jsnum" where
  "StringToNumber s =
     (let t = rev (dropWhile isWhiteSpace (rev (dropWhile isWhiteSpace s)));
          r = (if startsWith t ''0x'' \<or> startsWith t ''0X'' then 16
               else if startsWith t ''0o'' \<or> startsWith t ''0O'' then 8
               else if startsWith t ''0b'' \<or> startsWith t ''0B'' then 2 else (10 :: nat))
      in if t = [] then Fin 0
         else if r \<noteq> 10
         then (if drop 2 t \<noteq> [] \<and> list_all (isRadixDigit r) (drop 2 t)
               then toDouble (real (radixVal r (drop 2 t))) else NaN)
         else
           let (neg, t') = signSplit t
           in case unsignedDecimal t' of
                None \<Rightarrow> NaN
              | Some (v, rest) \<Rightarrow> (if rest = [] then (if neg then - v else v) else NaN))"

text \<open>
  \<open>parseTime\<close>: the pattern \<open>^([\d.]+)(ms|s|m)?$\<close> has one way to match, since the
  characters of the number and of the unit are disjoint.
\<close>

definition parseTime :: "string \<Rightarrow> jsnum" where
  "parseTime timeStr =
     (if timeStr = [] then 0
      else
        let num = takeWhile isDigitOrDot timeStr;
            unit = dropWhile isDigitOrDot timeStr
        in if num = [] \<or> unit \<notin> set [[], ''ms'', ''s'', ''m''] then 0
           else
             let val = parseFloat num
             in if unit = ''ms'' then val / toDouble 1000
                else if unit = ''m'' then val * toDouble 60
                else val)"


section \<open>Easing\<close>

text \<open>
  \<open>cubicBezier(x1, y1, x2, y2, t)\<close>. The \<open>for\<close> loop of the Newton-Raphson iteration is the
  function \<open>newtonLoop\<close>, whose argument \<open>i\<close> is the loop counter; each \<open>break\<close> returns the
  current \<open>x\<close>.
\<close>

definition sampleCurve :: "jsnum \<Rightarrow> jsnum \<Rightarrow> jsnum \<Rightarrow> jsnum \<Rightarrow> jsnum" where
  "sampleCurve a b c t = ((a * t + b) * t + c) * t"

function newtonLoop :: "jsnum \<Rightarrow> jsnum \<Rightarrow> jsnum \<Rightarrow> jsnum \<Rightarrow> nat \<Rightarrow> jsnum \<Rightarrow> jsnum" where
  "newtonLoop ax bx cx t i x =
     (if i < 4 then
        (let currentX = sampleCurve ax bx cx x - t in
         if \<bar>currentX\<bar> < toDouble 0.001 then x
         else
           let currentSlope = (toDouble 3 * ax * x + toDouble 2 * bx) * x + cx in
           if \<bar>currentSlope\<bar> < toDouble 0.00001 then x
           else newtonLoop ax bx cx t (i + 1) (x - currentX / currentSlope))
      else x)"
  by pat_completeness auto
termination
  by (relation "measure (\<lambda>(ax, bx, cx, t, i, x). 4 - i)") auto

declare newtonLoop.simps [simp del]

definition cubicBezier :: "jsnum \<Rightarrow> jsnum \<Rightarrow> jsnum \<Rightarrow> jsnum \<Rightarrow> jsnum \<Rightarrow> jsnum" where
  "cubicBezier x1 y1 x2 y2 t =
     (let cx = toDouble 3 * x1;
          bx = toDouble 3 * (x2 - x1) - cx;
          ax = 1 - cx - bx;
          cy = toDouble 3 * y1;
          b_y = toDouble 3 * (y2 - y1) - cy;
          ay = 1 - cy - b_y
      in sampleCurve ay b_y cy (newtonLoop ax bx cx t 0 t))"

text \<open>
  The \<open>bounce\<close> curve. Each \<open>t -= c\<close> inside a product updates \<open>t\<close> before the second
  factor reads it, so both factors are the shifted value.
\<close>

definition bounce :: "jsnum \<Rightarrow> jsnum" where
  "bounce t =
     (let n1 = toDouble 7.5625; d1 = toDouble 2.75 in
      if t < 1 / d1 then n1 * t * t
      else if t < toDouble 2 / d1
        then (let t' = t - toDouble 1.5 / d1 in n1 * t' * t' + toDouble 0.75)
      else if t < toDouble 2.5 / d1
        then (let t' = t - toDouble 2.25 / d1 in n1 * t' * t' + toDouble 0.9375)
      else (let t' = t - toDouble 2.625 / d1 in n1 * t' * t' + toDouble 0.984375))"

text \<open>
  \<open>Math.pow(2, y)\<close>, \<open>Math.sin\<close> and \<open>Math.PI\<close>, for the \<open>elastic\<close> curve. The language leaves
  the accuracy of \<open>Math.pow\<close> and \<open>Math.sin\<close> to the implementation; they are taken here to
  return the double nearest to the exact value.
\<close>

fun Math_pow2 :: "jsnum \<Rightarrow> jsnum" where
  "Math_pow2 (Fin y) = toDouble (2 powr y)"
| "Math_pow2 PInf = PInf"
| "Math_pow2 NInf = Fin 0"
| "Math_pow2 NaN = NaN"

fun Math_sin :: "jsnum \<Rightarrow> jsnum" where
  "Math_sin (Fin a) = toDouble (sin a)"
| "Math_sin x = NaN"

definition Math_PI :: jsnum where
  "Math_PI = toDouble pi"

definition elastic :: "jsnum \<Rightarrow> jsnum" where
  "elastic t =
     (let c4 = (toDouble 2 * Math_PI) / toDouble 3 in
      if t = 0 then 0 else if t = 1 then 1
      else Math_pow2 (- toDouble 10 * t) * Math_sin ((t * toDouble 10 - toDouble 0.75) * c4) + 1)"

text \<open>
  The lookup \<open>easings[easing]\<close> reads a property of an ordinary object, so a name that is
  not one of the seven own properties is looked up in \<open>Object.prototype\<close>. Every standard
  property there is truthy, so the engine calls it with the object \<open>easings\<close> as \<open>this\<close> and
  the number \<open>t\<close> as argument. \<open>callInherited\<close> is the outcome of that call, \<open>None\<close> for
  a name that \<open>Object.prototype\<close> does not have.
\<close>

definition callInherited :: "string \<Rightarrow> jsnum \<Rightarrow> (exn + jsval) option" where
  "callInherited name t =
     (if name = ''constructor'' then Some (Inr (NumberObject t))
      else if name = ''toString'' \<or> name = ''toLocaleString''
        then Some (Inr (String ''[object Object]''))
      else if name = ''valueOf'' then Some (Inr EasingsObject)
      else if name = ''hasOwnProperty'' \<or> name = ''isPrototypeOf''
           \<or> name = ''propertyIsEnumerable'' then Some (Inr (Boolean False))
      else if name = ''__lookupGetter__'' \<or> name = ''__lookupSetter__''
        then Some (Inr Undefined)
      else if name = ''__defineGetter__'' \<or> name = ''__defineSetter__''
        then Some (Inl (TypeError (''Object.prototype.'' @ name @ '': Expecting function'')))
      else if name = ''__proto__''
        then Some (Inl (TypeError ''easings[easing] is not a function''))
      else None)"

text \<open>
  The search for \<open>cubic-bezier\((\<dots>),\s*(\<dots>),\s*(\<dots>),\s*(\<dots>)\)\<close> with groups \<open>[\d.]+\<close>: the
  pattern is not anchored, so \<open>bezierMatch\<close> tries every position from the left;
  \<open>bezierAt\<close> matches at the start of its argument. The character classes that follow one
  another are disjoint, so the greedy match is the only one.
\<close>

definition matchNumber :: "string \<Rightarrow> (string \<times> string) option" where
  "matchNumber s =
     (if takeWhile isDigitOrDot s = [] then None
      else Some (takeWhile isDigitOrDot s, dropWhile isDigitOrDot s))"

definition commaNumber :: "string \<Rightarrow> (string \<times> string) option" where
  "commaNumber s =
     (case s of
        [] \<Rightarrow> None
      | c # r \<Rightarrow> (if c = CHR '','' then matchNumber (dropWhile isWhiteSpace r) else None))"

definition bezierAt :: "string \<Rightarrow> (string \<times> string \<times> string \<times> string) option" where
  "bezierAt s =
     (if startsWith s ''cubic-bezier('' then
        (case matchNumber (drop 13 s) of
           None \<Rightarrow> None
         | Some (g1, r1) \<Rightarrow>
             (case commaNumber r1 of
                None \<Rightarrow> None
              | Some (g2, r2) \<Rightarrow>
                  (case commaNumber r2 of
                     None \<Rightarrow> None
                   | Some (g3, r3) \<Rightarrow>
                       (case commaNumber r3 of
                          None \<Rightarrow> None
                        | Some (g4, r4) \<Rightarrow>
                            (if startsWith r4 '')'' then Some (g1, g2, g3, g4) else None)))))
      else None)"

fun bezierMatch :: "string \<Rightarrow> (string \<times> string \<times> string \<times> string) option" where
  "bezierMatch [] = None"
| "bezierMatch (c # s) =
     (case bezierAt (c # s) of
        Some m \<Rightarrow> Some m
      | None \<Rightarrow> bezierMatch s)"

definition applyEasing :: "jsnum \<Rightarrow> string \<Rightarrow> exn + jsval" where
  "applyEasing t easing =
     (if easing = ''linear'' then Inr (Number t)
      else if easing = ''ease''
        then Inr (Number (cubicBezier (toDouble 0.25) (toDouble 0.1) (toDouble 0.25) 1 t))
      else if easing = ''ease-in''
        then Inr (Number (cubicBezier (toDouble 0.42) 0 1 1 t))
      else if easing = ''ease-out''
        then Inr (Number (cubicBezier 0 0 (toDouble 0.58) 1 t))
      else if easing = ''ease-in-out''
        then Inr (Number (cubicBezier (toDouble 0.42) 0 (toDouble 0.58) 1 t))
      else if easing = ''bounce'' then Inr (Number (bounce t))
      else if easing = ''elastic'' then Inr (Number (elastic t))
      else
        (case callInherited easing t of
           Some r \<Rightarrow> r
         | None \<Rightarrow>
             (case bezierMatch easing of
                Some (g1, g2, g3, g4) \<Rightarrow>
                  Inr (Number (cubicBezier (parseFloat g1) (parseFloat g2)
                                 (parseFloat g3) (parseFloat g4) t))
              | None \<Rightarrow> Inr (Number t))))"

text \<open>The conversion of a value to a number in arithmetic.\<close>

fun ToNumber :: "jsval \<Rightarrow> jsnum" where
  "ToNumber Undefined = NaN"
| "ToNumber Null = 0"
| "ToNumber (Boolean b) = (if b then 1 else 0)"
| "ToNumber (Number n) = n"
| "ToNumber (String s) = StringToNumber s"
| "ToNumber (NumberObject n) = n"
| "ToNumber EasingsObject = NaN"

fun truthy :: "jsval \<Rightarrow> bool" where
  "truthy Undefined = False"
| "truthy Null = False"
| "truthy (Boolean b) = b"
| "truthy (Number n) = truthy_num n"
| "truthy (String s) = (s \<noteq> [])"
| "truthy (NumberObject n) = True"
| "truthy EasingsObject = True"


section \<open>The animation tree\<close>

text \<open>
  The objects that the \<open>parse\<dots>\<close> methods build. Every leaf has the properties of
  \<open>leaf\<close>; \<open>repeat\<close> and \<open>reverse\<close> are \<open>Undefined\<close> on the kinds whose parser does not set
  them. A property read from an XML attribute is \<open>None\<close> (JavaScript \<open>null\<close>) when the
  attribute is missing. The field \<open>ident\<close> is the property \<open>id\<close>, and \<open>from_value\<close>,
  \<open>to_value\<close>, \<open>by_value\<close> are \<open>from\<close>, \<open>to\<close>, \<open>by\<close>.
\<close>

record leaf =
  target :: "string option"
  start :: jsnum
  duration :: jsnum
  easing :: string
  repeat :: jsval
  reverse :: jsval
  ident :: "string option"

record animate = leaf +
  attribute :: "string option"
  from_value :: "string option"
  to_value :: "string option"
  by_value :: "string option"
  fill :: string

record animateTransform = leaf +
  transformType :: "string option"
  transform_from :: "string option"
  transform_to :: "string option"
  additive :: string

record animatePath = leaf +
  path :: "string option"
  rotate :: string
  anchor :: string

record animateColor = leaf +
  color_attribute :: "string option"
  color_from :: "string option"
  color_to :: "string option"
  colorSpace :: string

record morph = leaf +
  morph_to :: "string option"
  preserveCorners :: bool

text \<open>
  A group carries its children, its \<open>id\<close> and its computed \<open>duration\<close>; a sequence also
  its \<open>repeat\<close> attribute, an animate-set its \<open>target\<close>.
\<close>

datatype anim =
    Animate animate
  | AnimateTransform animateTransform
  | AnimatePath animatePath
  | AnimateColor animateColor
  | Morph morph
  | Sequence "anim list" string "string option" jsnum
  | Parallel "anim list" "string option" jsnum
  | AnimateSet "anim list" "string option" "string option" jsnum

fun anim_duration :: "anim \<Rightarrow> jsnum" where
  "anim_duration (Animate a) = duration a"
| "anim_duration (AnimateTransform a) = duration a"
| "anim_duration (AnimatePath a) = duration a"
| "anim_duration (AnimateColor a) = duration a"
| "anim_duration (Morph a) = duration a"
| "anim_duration (Sequence as r i d) = d"
| "anim_duration (Parallel as i d) = d"
| "anim_duration (AnimateSet as t i d) = d"

text \<open>
  The assignment \<open>anim.target = target\<close> of \<open>parseAnimateSet\<close>. On a sequence or a parallel
  group it adds a property that nothing reads, so the model leaves those unchanged.
\<close>

fun set_target :: "string option \<Rightarrow> anim \<Rightarrow> anim" where
  "set_target t (Animate a) = Animate (a\<lparr>target := t\<rparr>)"
| "set_target t (AnimateTransform a) = AnimateTransform (a\<lparr>target := t\<rparr>)"
| "set_target t (AnimatePath a) = AnimatePath (a\<lparr>target := t\<rparr>)"
| "set_target t (AnimateColor a) = AnimateColor (a\<lparr>target := t\<rparr>)"
| "set_target t (Morph a) = Morph (a\<lparr>target := t\<rparr>)"
| "set_target t (Sequence as r i d) = Sequence as r i d"
| "set_target t (Parallel as i d) = Parallel as i d"
| "set_target t (AnimateSet as t' i d) = AnimateSet as t i d"

section \<open>Parsing the timeline\<close>

text \<open>An XML element: its tag name, its attributes and its child elements.\<close>

datatype element =
  Element (tagName: string) (attributes: "(string \<times> string) list") (children: "element list")

definition getAttribute :: "element \<Rightarrow> string \<Rightarrow> string option" where
  "getAttribute el name = map_of (attributes el) name"

text \<open>\<open>el.getAttribute(name) || d\<close>: the default replaces a missing or empty attribute.\<close>

definition attrOr :: "element \<Rightarrow> string \<Rightarrow> string \<Rightarrow> string" where
  "attrOr el name d =
     (case getAttribute el name of
        None \<Rightarrow> d
      | Some v \<Rightarrow> (if v = [] then d else v))"

definition parseAnimate :: "element \<Rightarrow> jsnum \<Rightarrow> animate" where
  "parseAnimate el parentStart =
     \<lparr> target = getAttribute el ''target'',
       start = parentStart + parseTime (attrOr el ''start'' ''0s''),
       duration = parseTime (attrOr el ''duration'' ''0s''),
       easing = attrOr el ''easing'' ''linear'',
       repeat = (if attrOr el ''repeat'' ''1'' = ''infinite'' then Number PInf
                 else Number (parseInt (attrOr el ''repeat'' ''1''))),
       reverse = Boolean (getAttribute el ''reverse'' = Some ''true''),
       ident = getAttribute el ''id'',
       attribute = getAttribute el ''attribute'',
       from_value = getAttribute el ''from'',
       to_value = getAttribute el ''to'',
       by_value = getAttribute el ''by'',
       fill = attrOr el ''fill'' ''none'' \<rparr>"

definition parseAnimateTransform :: "element \<Rightarrow> jsnum \<Rightarrow> animateTransform" where
  "parseAnimateTransform el parentStart =
     \<lparr> target = getAttribute el ''target'',
       start = parentStart + parseTime (attrOr el ''start'' ''0s''),
       duration = parseTime (attrOr el ''duration'' ''0s''),
       easing = attrOr el ''easing'' ''linear'',
       repeat = String (attrOr el ''repeat'' ''1''),
       reverse = Boolean (getAttribute el ''reverse'' = Some ''true''),
       ident = getAttribute el ''id'',
       transformType = getAttribute el ''type'',
       transform_from = getAttribute el ''from'',
       transform_to = getAttribute el ''to'',
       additive = attrOr el ''additive'' ''replace'' \<rparr>"

definition parseAnimatePath :: "element \<Rightarrow> jsnum \<Rightarrow> animatePath" where
  "parseAnimatePath el parentStart =
     \<lparr> target = getAttribute el ''target'',
       start = parentStart + parseTime (attrOr el ''start'' ''0s''),
       duration = parseTime (attrOr el ''duration'' ''0s''),
       easing = attrOr el ''easing'' ''linear'',
       repeat = Undefined,
       reverse = Undefined,
       ident = getAttribute el ''id'',
       path = getAttribute el ''path'',
       rotate = attrOr el ''rotate'' ''none'',
       anchor = attrOr el ''anchor'' ''center'' \<rparr>"

definition parseAnimateColor :: "element \<Rightarrow> jsnum \<Rightarrow> animateColor" where
  "parseAnimateColor el parentStart =
     \<lparr> target = getAttribute el ''target'',
       start = parentStart + parseTime (attrOr el ''start'' ''0s''),
       duration = parseTime (attrOr el ''duration'' ''0s''),
       easing = attrOr el ''easing'' ''linear'',
       repeat = Undefined,
       reverse = Undefined,
       ident = getAttribute el ''id'',
       color_attribute = getAttribute el ''attribute'',
       color_from = getAttribute el ''from'',
       color_to = getAttribute el ''to'',
       colorSpace = attrOr el ''color-space'' ''srgb'' \<rparr>"

definition parseMorph :: "element \<Rightarrow> jsnum \<Rightarrow> morph" where
  "parseMorph el parentStart =
     \<lparr> target = getAttribute el ''target'',
       start = parentStart + parseTime (attrOr el ''start'' ''0s''),
       duration = parseTime (attrOr el ''duration'' ''0s''),
       easing = attrOr el ''easing'' ''linear'',
       repeat = Undefined,
       reverse = Undefined,
       ident = getAttribute el ''id'',
       morph_to = getAttribute el ''to'',
       preserveCorners = (getAttribute el ''preserve-corners'' = Some ''true'') \<rparr>"

text \<open>
  \<open>parseAnimation\<close> dispatches on the lower-cased tag name: \<open>parseLeaf\<close> holds the five
  cases of the \<open>switch\<close> that build a leaf, \<open>isSequence\<close>, \<open>isParallel\<close> and \<open>isAnimateSet\<close>
  are the three group cases. The \<open>for\<close> loops over the children of a group are the three
  loop functions; their last two arguments are the list \<open>animations\<close> built so far and the
  running \<open>currentStart\<close> or \<open>maxDuration\<close>.
\<close>

definition parseLeaf :: "element \<Rightarrow> jsnum \<Rightarrow> anim option" where
  "parseLeaf el parentStart =
     (let type = toLowerCase (tagName el) in
      if type = ''animate'' then Some (Animate (parseAnimate el parentStart))
      else if type = ''animate-transform''
        then Some (AnimateTransform (parseAnimateTransform el parentStart))
      else if type = ''animate-path'' then Some (AnimatePath (parseAnimatePath el parentStart))
      else if type = ''animate-color''
        then Some (AnimateColor (parseAnimateColor el parentStart))
      else if type = ''morph'' then Some (Morph (parseMorph el parentStart))
      else None)"

definition isSequence :: "string \<Rightarrow> bool" where
  "isSequence tag = (toLowerCase tag = ''sequence'')"

definition isParallel :: "string \<Rightarrow> bool" where
  "isParallel tag = (toLowerCase tag = ''parallel'')"

definition isAnimateSet :: "string \<Rightarrow> bool" where
  "isAnimateSet tag = (toLowerCase tag = ''animate-set'')"

definition mkSequence :: "element \<Rightarrow> jsnum \<Rightarrow> anim list \<times> jsnum \<Rightarrow> anim" where
  "mkSequence el parentStart r =
     (case r of (animations, currentStart) \<Rightarrow>
        Sequence animations (attrOr el ''repeat'' ''1'') (getAttribute el ''id'')
          (currentStart - parentStart))"

definition mkParallel :: "element \<Rightarrow> anim list \<times> jsnum \<Rightarrow> anim" where
  "mkParallel el r =
     (case r of (animations, maxDuration) \<Rightarrow>
        Parallel animations (getAttribute el ''id'') maxDuration)"

definition mkAnimateSet :: "element \<Rightarrow> anim list \<times> jsnum \<Rightarrow> anim" where
  "mkAnimateSet el r =
     (case r of (animations, maxDuration) \<Rightarrow>
        AnimateSet animations (getAttribute el ''target'') (getAttribute el ''id'') maxDuration)"

fun parseAnimation :: "element \<Rightarrow> jsnum \<Rightarrow> anim option"
  and sequenceLoop :: "element list \<Rightarrow> anim list \<Rightarrow> jsnum \<Rightarrow> anim list \<times> jsnum"
  and parallelLoop :: "element list \<Rightarrow> jsnum \<Rightarrow> anim list \<Rightarrow> jsnum \<Rightarrow> anim list \<times> jsnum"
  and setLoop :: "element list \<Rightarrow> jsnum \<Rightarrow> string option \<Rightarrow> anim list \<Rightarrow> jsnum
                    \<Rightarrow> anim list \<times> jsnum"
where
  "parseAnimation (Element tag atts cs) parentStart =
     (if isSequence tag
        then Some (mkSequence (Element tag atts cs) parentStart (sequenceLoop cs [] parentStart))
      else if isParallel tag
        then Some (mkParallel (Element tag atts cs) (parallelLoop cs parentStart [] 0))
      else if isAnimateSet tag
        then Some (mkAnimateSet (Element tag atts cs)
                     (setLoop cs parentStart (map_of atts ''target'') [] 0))
      else parseLeaf (Element tag atts cs) parentStart)"
| "sequenceLoop [] animations currentStart = (animations, currentStart)"
| "sequenceLoop (child # rest) animations currentStart =
     (case parseAnimation child currentStart of
        None \<Rightarrow> sequenceLoop rest animations currentStart
      | Some anim \<Rightarrow>
          sequenceLoop rest (animations @ [anim]) (currentStart + anim_duration anim))"
| "parallelLoop [] parentStart animations maxDuration = (animations, maxDuration)"
| "parallelLoop (child # rest) parentStart animations maxDuration =
     (case parseAnimation child parentStart of
        None \<Rightarrow> parallelLoop rest parentStart animations maxDuration
      | Some anim \<Rightarrow>
          parallelLoop rest parentStart (animations @ [anim])
            (Math_max maxDuration (anim_duration anim)))"
| "setLoop [] parentStart tgt animations maxDuration = (animations, maxDuration)"
| "setLoop (child # rest) parentStart tgt animations maxDuration =
     (case parseAnimation child parentStart of
        None \<Rightarrow> setLoop rest parentStart tgt animations maxDuration
      | Some anim \<Rightarrow>
          setLoop rest parentStart tgt (animations @ [set_target tgt anim])
            (Math_max maxDuration (anim_duration anim)))"



section \<open>The host and the engine state\<close>

text \<open>
  What the engine takes from its host. \<open>fractionToString\<close> gives the decimal text of a
  number that is not a small integer (the shortest digits that round-trip, which depend
  on the binary rounding); \<open>validSelector\<close> and \<open>validName\<close> say when
  \<open>querySelectorAll\<close> and \<open>setAttribute\<close> accept their argument instead of throwing;
  \<open>getTotalLength\<close> and \<open>getPointAtLength\<close> are the geometry of an SVG path given by
  its path data (taken as total: a browser that rejects a length that is not finite is
  not modelled); \<open>cloneSvg\<close> is \<open>element.querySelector('svg')\<close> followed by
  \<open>cloneNode(true)\<close>, \<open>None\<close> when there is no such element.
\<close>

type_synonym handle = nat

record document =
  docRoot :: handle
  matching :: "string \<Rightarrow> handle list"

record host =
  fractionToString :: "real \<Rightarrow> string"
  validSelector :: "string \<Rightarrow> bool"
  validName :: "string \<Rightarrow> bool"
  Math_atan2 :: "jsnum \<Rightarrow> jsnum \<Rightarrow> jsnum"
  getTotalLength :: "string \<Rightarrow> jsnum"
  getPointAtLength :: "string \<Rightarrow> jsnum \<Rightarrow> jsnum \<times> jsnum"
  cloneSvg :: "element \<Rightarrow> document option"

text \<open>
  \<open>String(x)\<close> for a number: the digits of an integer below \<open>2 ^ 53\<close> in magnitude, the
  names of the special values, and the host's digits otherwise (for a fraction, and for a
  larger integer, whose text ends in zeros that are not its digits).
\<close>

fun natToString :: "nat \<Rightarrow> string" where
  "natToString n =
     (if n < 10 then [char_of (48 + n)]
      else natToString (n div 10) @ [char_of (48 + n mod 10)])"

declare natToString.simps [simp del]

definition numToString :: "host \<Rightarrow> jsnum \<Rightarrow> string" where
  "numToString h x =
     (case x of
        NaN \<Rightarrow> ''NaN''
      | PInf \<Rightarrow> ''Infinity''
      | NInf \<Rightarrow> ''-Infinity''
      | Fin r \<Rightarrow>
          (if r = real_of_int \<lfloor>r\<rfloor> \<and> \<bar>r\<bar> < 2 ^ 53
           then (if r < 0 then CHR ''-'' # natToString (nat (- \<lfloor>r\<rfloor>))
                 else natToString (nat \<lfloor>r\<rfloor>))
           else fractionToString h r))"

fun ToString :: "host \<Rightarrow> jsval \<Rightarrow> string" where
  "ToString h Undefined = ''undefined''"
| "ToString h Null = ''null''"
| "ToString h (Boolean b) = (if b then ''true'' else ''false'')"
| "ToString h (Number n) = numToString h n"
| "ToString h (String s) = s"
| "ToString h (NumberObject n) = numToString h n"
| "ToString h EasingsObject = ''[object Object]''"

text \<open>A property that holds an attribute of the source: \<open>null\<close> reads as the text \<open>null\<close>.\<close>

definition nullable :: "string option \<Rightarrow> string" where
  "nullable a = (case a of None \<Rightarrow> ''null'' | Some v \<Rightarrow> v)"

text \<open>
  The engine. The fields \<open>options_\<dots>\<close> are \<open>this.options\<close>; \<open>playing\<close>, \<open>currentTime\<close>,
  \<open>state_duration\<close>, \<open>playbackRate\<close> and \<open>currentState\<close> are \<open>this.state\<close>; \<open>animationFrame\<close>,
  \<open>lastFrameTime\<close> and \<open>startTime\<close> are the fields with a leading underscore. Three fields
  stand for the world around the engine: \<open>elements\<close> is the attribute store of the DOM
  elements (an element is shared by every list and document that holds its handle),
  \<open>frameCounter\<close> is the last handle that \<open>requestAnimationFrame\<close> returned, and
  \<open>pendingFrames\<close> holds the handles of the callbacks that the browser has still to run. \<open>events\<close>
  records what \<open>emit\<close> dispatched, in order; the handlers that a page registers with
  \<open>on\<close> are code of the page and are not modelled. The map \<open>variables\<close> is not modelled
  either: its values come from \<open>new Function\<close>, and nothing in the engine reads them.
\<close>

datatype detail = NoDetail | TimeDetail jsnum | StateDetail string | ErrorDetail exn

record engine =
  options_autoplay :: bool
  options_loop :: bool
  options_fps :: jsnum
  options_width :: jsnum
  options_height :: jsnum
  options_duration :: jsnum
  playing :: bool
  currentTime :: jsnum
  state_duration :: jsnum
  playbackRate :: jsnum
  currentState :: "string option"
  timeline :: "anim list option"
  svgContent :: "document option"
  states :: "string \<Rightarrow> element option"
  triggers :: "(string option \<times> string option \<times> string option) list"
  targetCache :: "string \<Rightarrow> handle list option"
  animationFrame :: "nat option"
  lastFrameTime :: jsnum
  startTime :: jsnum
  elements :: "handle \<Rightarrow> string \<Rightarrow> string option"
  frameCounter :: nat
  pendingFrames :: "nat list"
  events :: "(string \<times> detail) list"

text \<open>
  A method that can throw returns the exception, if any, and the engine as it is when the
  method returns or throws: what was written before a \<open>throw\<close> stays written.
\<close>

type_synonym outcome = "exn option \<times> engine"

definition emit :: "string \<Rightarrow> detail \<Rightarrow> engine \<Rightarrow> engine" where
  "emit event data s = s\<lparr>events := events s @ [(event, data)]\<rparr>"

section \<open>Durations\<close>

text \<open>
  \<open>calculateDuration\<close>. The closure \<open>calcAnimDuration\<close> updates the variable \<open>maxEnd\<close> of
  the enclosing method, so the model passes \<open>maxEnd\<close> in and returns it next to the
  result. \<open>childrenLoop\<close> is the \<open>forEach\<close> over the children of a group, its flag telling
  whether the group is a sequence.
\<close>

definition iterationsOf :: "host \<Rightarrow> jsval \<Rightarrow> jsnum" where
  "iterationsOf h r =
     (if r = Number PInf \<or> r = String ''infinite'' then 1
      else or_num (parseInt (ToString h r)) 1)"

definition leafDuration :: "host \<Rightarrow> 'a leaf_scheme \<Rightarrow> jsnum \<Rightarrow> jsnum \<times> jsnum" where
  "leafDuration h anim maxEnd =
     (let iterations = iterationsOf h (repeat anim);
          animDuration = duration anim * iterations
      in (animDuration, Math_max maxEnd (start anim + animDuration)))"

fun calcAnimDuration :: "host \<Rightarrow> anim \<Rightarrow> jsnum \<Rightarrow> jsnum \<times> jsnum"
  and childrenLoop :: "host \<Rightarrow> bool \<Rightarrow> anim list \<Rightarrow> jsnum \<Rightarrow> jsnum \<Rightarrow> jsnum \<times> jsnum"
where
  "calcAnimDuration h (Sequence as r i d) maxEnd = childrenLoop h True as 0 maxEnd"
| "calcAnimDuration h (Parallel as i d) maxEnd = childrenLoop h False as 0 maxEnd"
| "calcAnimDuration h (AnimateSet as t i d) maxEnd = childrenLoop h False as 0 maxEnd"
| "calcAnimDuration h (Animate a) maxEnd = leafDuration h a maxEnd"
| "calcAnimDuration h (AnimateTransform a) maxEnd = leafDuration h a maxEnd"
| "calcAnimDuration h (AnimatePath a) maxEnd = leafDuration h a maxEnd"
| "calcAnimDuration h (AnimateColor a) maxEnd = leafDuration h a maxEnd"
| "calcAnimDuration h (Morph a) maxEnd = leafDuration h a maxEnd"
| "childrenLoop h sq [] seqDuration maxEnd = (seqDuration, maxEnd)"
| "childrenLoop h sq (child # rest) seqDuration maxEnd =
     (case calcAnimDuration h child maxEnd of
        (childDur, maxEnd') \<Rightarrow>
          childrenLoop h sq rest
            (if sq then seqDuration + childDur else Math_max seqDuration childDur) maxEnd')"

definition calculateDuration :: "host \<Rightarrow> engine \<Rightarrow> jsnum" where
  "calculateDuration h s =
     (let maxEnd =
            (case timeline s of
               None \<Rightarrow> 0
             | Some anims \<Rightarrow> fold (\<lambda>anim m. snd (calcAnimDuration h anim m)) anims 0)
      in or_num (options_duration s) maxEnd)"

section \<open>Progress and targets\<close>

text \<open>
  \<open>calculateProgress\<close>. The comparison \<open>iterations >= anim.repeat\<close> converts \<open>repeat\<close> to a
  number; the sentinels are \<open>-1\<close> (not started) and \<open>2\<close> (finished).
\<close>

definition calculateProgress :: "'a leaf_scheme \<Rightarrow> jsnum \<Rightarrow> jsnum" where
  "calculateProgress anim time =
     (let relativeTime = time - start anim in
      if relativeTime < 0 then - 1
      else
        let iterations = Math_floor (relativeTime / duration anim) in
        if ToNumber (repeat anim) \<le> iterations then toDouble 2
        else
          let progress = (relativeTime mod duration anim) / duration anim in
          if truthy (reverse anim) \<and> iterations mod toDouble 2 = 1 then 1 - progress
          else progress)"

definition querySelectorAll :: "host \<Rightarrow> document \<Rightarrow> string \<Rightarrow> exn + handle list" where
  "querySelectorAll h d selector =
     (if validSelector h selector then Inr (matching d selector)
      else Inl (DOMException ''SyntaxError''))"

definition querySelector :: "host \<Rightarrow> document \<Rightarrow> string \<Rightarrow> exn + handle option" where
  "querySelector h d selector =
     (case querySelectorAll h d selector of
        Inl e \<Rightarrow> Inl e
      | Inr [] \<Rightarrow> Inr None
      | Inr (x # xs) \<Rightarrow> Inr (Some x))"

definition getTargets :: "host \<Rightarrow> string option \<Rightarrow> engine \<Rightarrow> (exn + handle list) \<times> engine" where
  "getTargets h selector s =
     (case (selector, svgContent s) of
        (Some sel, Some d) \<Rightarrow>
          (if sel = [] then (Inr [], s)
           else
             (case targetCache s sel of
                Some cached \<Rightarrow> (Inr cached, s)
              | None \<Rightarrow>
                  (case querySelectorAll h d sel of
                     Inl e \<Rightarrow> (Inl e, s)
                   | Inr targets \<Rightarrow>
                       (Inr targets, s\<lparr>targetCache := (targetCache s)(sel \<mapsto> targets)\<rparr>))))
      | _ \<Rightarrow> (Inr [], s))"

definition setAttribute :: "host \<Rightarrow> handle \<Rightarrow> string \<Rightarrow> string \<Rightarrow> engine \<Rightarrow> outcome" where
  "setAttribute h node name val s =
     (if validName h name
      then (None, s\<lparr>elements := (elements s)(node := (elements s node)(name \<mapsto> val))\<rparr>)
      else (Some (DOMException ''InvalidCharacterError''), s))"

text \<open>\<open>targets.forEach(f)\<close>: the callback runs on each target in turn; a throw ends it.\<close>

fun forEach :: "('a \<Rightarrow> engine \<Rightarrow> outcome) \<Rightarrow> 'a list \<Rightarrow> engine \<Rightarrow> outcome" where
  "forEach f [] s = (None, s)"
| "forEach f (x # xs) s =
     (case f x s of
        (None, s') \<Rightarrow> forEach f xs s'
      | (Some e, s') \<Rightarrow> (Some e, s'))"

text \<open>
  The head that the five \<open>update\<dots>\<close> methods share: resolve the targets, return without
  effect when there are none, compute the progress, return without effect when it is
  below 0 or above 1, and apply the easing. \<open>withProgress\<close> passes the targets and the
  eased progress to the rest of the method.
\<close>

definition withProgress ::
  "host \<Rightarrow> 'a leaf_scheme \<Rightarrow> jsnum \<Rightarrow> (handle list \<Rightarrow> jsval \<Rightarrow> engine \<Rightarrow> outcome)
     \<Rightarrow> engine \<Rightarrow> outcome" where
  "withProgress h anim time body s =
     (case getTargets h (target anim) s of
        (Inl e, s1) \<Rightarrow> (Some e, s1)
      | (Inr targets, s1) \<Rightarrow>
          (if targets = [] then (None, s1)
           else
             let progress = calculateProgress anim time in
             if progress < 0 \<or> 1 < progress then (None, s1)
             else
               (case applyEasing progress (easing anim) of
                  Inl e \<Rightarrow> (Some e, s1)
                | Inr easedProgress \<Rightarrow> body targets easedProgress s1)))"

text \<open>\<open>a || b\<close> on an attribute text that may be \<open>null\<close>: the first one that is not empty.\<close>

definition nonEmpty :: "string option \<Rightarrow> bool" where
  "nonEmpty a = (case a of None \<Rightarrow> False | Some v \<Rightarrow> v \<noteq> [])"

definition updateAnimate :: "host \<Rightarrow> animate \<Rightarrow> jsnum \<Rightarrow> engine \<Rightarrow> outcome" where
  "updateAnimate h anim time s =
     withProgress h anim time
       (\<lambda>targets easedProgress.
          forEach
            (\<lambda>node s'.
               let current = elements s' node (nullable (attribute anim));
                   from = parseFloat
                     (if nonEmpty (from_value anim) then the (from_value anim)
                      else if nonEmpty current then the current
                      else numToString h 0);
                   to = parseFloat
                     (if nonEmpty (to_value anim) then the (to_value anim)
                      else numToString h from);
                   val = from + (to - from) * ToNumber easedProgress
               in setAttribute h node (nullable (attribute anim)) (numToString h val) s')
            targets)
       s"


section \<open>The other leaf updates\<close>

text \<open>
  \<open>s.split(/\s+/)\<close>: the pieces between the runs of white space; a run at either end
  leaves an empty piece there.
\<close>

function splitWhiteSpace :: "string \<Rightarrow> string list" where
  "splitWhiteSpace s =
     (if dropWhile (\<lambda>c. \<not> isWhiteSpace c) s = []
      then [takeWhile (\<lambda>c. \<not> isWhiteSpace c) s]
      else takeWhile (\<lambda>c. \<not> isWhiteSpace c) s
             # splitWhiteSpace (dropWhile isWhiteSpace (dropWhile (\<lambda>c. \<not> isWhiteSpace c) s)))"
  by pat_completeness auto
termination
proof (relation "measure length")
  show "wf (measure length)"
    by simp
next
  fix s :: string
  assume ne: "dropWhile (\<lambda>c. \<not> isWhiteSpace c) s \<noteq> []"
  then obtain c r where r: "dropWhile (\<lambda>c. \<not> isWhiteSpace c) s = c # r"
    by (cases "dropWhile (\<lambda>c. \<not> isWhiteSpace c) s") auto
  then have "isWhiteSpace c"
    using hd_dropWhile [OF ne] by simp
  then have "length (dropWhile isWhiteSpace (c # r)) \<le> length r"
    by (simp add: length_dropWhile_le)
  moreover have "length (c # r) \<le> length s"
    using length_dropWhile_le [of "\<lambda>c. \<not> isWhiteSpace c" s] r by simp
  ultimately show
    "(dropWhile isWhiteSpace (dropWhile (\<lambda>c. \<not> isWhiteSpace c) s), s) \<in> measure length"
    using r by simp
qed

declare splitWhiteSpace.simps [simp del]

fun joinWith :: "string \<Rightarrow> string list \<Rightarrow> string" where
  "joinWith sep [] = []"
| "joinWith sep [x] = x"
| "joinWith sep (x # y # ys) = x @ sep @ joinWith sep (y # ys)"

text \<open>
  \<open>interpolateTransform\<close>. \<open>from.split\<close> and \<open>to.split\<close> throw on \<open>null\<close>; \<open>toParts[i]\<close>
  beyond the end is \<open>undefined\<close>, which is \<open>NaN\<close> in the subtraction.
\<close>

definition interpolateTransform ::
  "host \<Rightarrow> string option \<Rightarrow> string option \<Rightarrow> string option \<Rightarrow> jsval \<Rightarrow> exn + string" where
  "interpolateTransform h type from to progress =
     (case from of
        None \<Rightarrow> Inl (TypeError (readingNull ''split''))
      | Some f \<Rightarrow>
          (case to of
             None \<Rightarrow> Inl (TypeError (readingNull ''split''))
           | Some t \<Rightarrow>
               (let fromParts = map parseFloat (splitWhiteSpace f);
                    toParts = map parseFloat (splitWhiteSpace t);
                    interpolated =
                      map (\<lambda>(v, i). v + ((if i < length toParts then toParts ! i else NaN) - v)
                                          * ToNumber progress)
                        (zip fromParts [0..<length fromParts]);
                    joined = joinWith '' '' (map (numToString h) interpolated);
                    first = (case interpolated of [] \<Rightarrow> ''undefined'' | x # xs \<Rightarrow> numToString h x)
                in Inr (if type = Some ''translate'' then ''translate('' @ joined @ '')''
                        else if type = Some ''scale'' then ''scale('' @ joined @ '')''
                        else if type = Some ''rotate'' then ''rotate('' @ joined @ '')''
                        else if type = Some ''skewX'' then ''skewX('' @ first @ '')''
                        else if type = Some ''skewY'' then ''skewY('' @ first @ '')''
                        else []))))"

definition updateAnimateTransform :: "host \<Rightarrow> animateTransform \<Rightarrow> jsnum \<Rightarrow> engine \<Rightarrow> outcome" where
  "updateAnimateTransform h anim time s =
     withProgress h anim time
       (\<lambda>targets easedProgress.
          forEach
            (\<lambda>node s'.
               case interpolateTransform h (transformType anim) (transform_from anim)
                      (transform_to anim) easedProgress of
                 Inl e \<Rightarrow> (Some e, s')
               | Inr transform \<Rightarrow>
                   (if additive anim = ''sum''
                    then
                      (let existing =
                             (if nonEmpty (elements s' node ''transform'')
                              then the (elements s' node ''transform'') else [])
                       in setAttribute h node ''transform'' (existing @ '' '' @ transform) s')
                    else setAttribute h node ''transform'' transform s'))
            targets)
       s"

text \<open>
  \<open>getPointOnPath\<close>: the path data goes through \<open>setAttribute('d', pathData)\<close>, where
  \<open>null\<close> becomes text.
\<close>

definition getPointOnPath :: "host \<Rightarrow> string option \<Rightarrow> jsnum \<Rightarrow> jsnum \<times> jsnum \<times> jsnum" where
  "getPointOnPath h pathData progress =
     (let d = nullable pathData;
          len = getTotalLength h d;
          point = getPointAtLength h d (len * progress);
          point1 = getPointAtLength h d (len * progress - 1);
          point2 = getPointAtLength h d (len * progress + 1);
          angle = Math_atan2 h (snd point2 - snd point1) (fst point2 - fst point1)
                    * toDouble 180 / Math_PI
      in (fst point, snd point, angle))"

definition updateAnimatePath :: "host \<Rightarrow> animatePath \<Rightarrow> jsnum \<Rightarrow> engine \<Rightarrow> outcome" where
  "updateAnimatePath h anim time s =
     withProgress h anim time
       (\<lambda>targets easedProgress s1.
          case path anim of
            None \<Rightarrow> (Some (TypeError (readingNull ''startsWith'')), s1)
          | Some p \<Rightarrow>
              (case (if startsWith p ''#''
                     then (case svgContent s1 of
                             None \<Rightarrow> Inl (TypeError (readingNull ''querySelector''))
                           | Some d \<Rightarrow> querySelector h d p)
                     else Inr None) of
                 Inl e \<Rightarrow> (Some e, s1)
               | Inr pathEl \<Rightarrow>
                   (let pathData = (case pathEl of Some el \<Rightarrow> elements s1 el ''d'' | None \<Rightarrow> Some p);
                        point = getPointOnPath h pathData (ToNumber easedProgress);
                        x = fst point; y = fst (snd point); angle = snd (snd point);
                        transform =
                          ''translate('' @ numToString h x @ '', '' @ numToString h y @ '')''
                          @ (if rotate anim = ''auto'' \<or> rotate anim = ''auto-reverse''
                             then '' rotate(''
                               @ numToString h
                                   (angle + (if rotate anim = ''auto-reverse'' then toDouble 180
                                             else 0))
                               @ '')''
                             else [])
                    in forEach (\<lambda>node. setAttribute h node ''transform'' transform) targets s1)))
       s"

text \<open>
  \<open>parseColor\<close>: six hexadecimal digits after \<open>#\<close>, or \<open>rgb(r, g, b)\<close> with decimal
  digits; anything else is black. \<open>color.match\<close> throws on \<open>null\<close>.
\<close>

definition rgbDigits :: "string \<Rightarrow> (string \<times> string) option" where
  "rgbDigits s =
     (if takeWhile isDigit s = [] then None
      else Some (takeWhile isDigit s, dropWhile isDigit s))"

definition rgbNext :: "string \<Rightarrow> (string \<times> string) option" where
  "rgbNext s =
     (case s of
        [] \<Rightarrow> None
      | c # r \<Rightarrow> (if c = CHR '','' then rgbDigits (dropWhile isWhiteSpace r) else None))"

definition parseColor :: "string option \<Rightarrow> exn + jsnum \<times> jsnum \<times> jsnum" where
  "parseColor color =
     (case color of
        None \<Rightarrow> Inl (TypeError (readingNull ''match''))
      | Some c \<Rightarrow>
          (if startsWith c ''#'' \<and> length c = 7 \<and> list_all isHexDigit (drop 1 c)
           then Inr (toDouble (real (radixVal 16 (take 2 (drop 1 c)))),
                     toDouble (real (radixVal 16 (take 2 (drop 3 c)))),
                     toDouble (real (radixVal 16 (take 2 (drop 5 c)))))
           else
             (case (if startsWith c ''rgb('' then rgbDigits (drop 4 c) else None) of
                None \<Rightarrow> Inr (0, 0, 0)
              | Some (r, r1) \<Rightarrow>
                  (case rgbNext r1 of
                     None \<Rightarrow> Inr (0, 0, 0)
                   | Some (g, r2) \<Rightarrow>
                       (case rgbNext r2 of
                          None \<Rightarrow> Inr (0, 0, 0)
                        | Some (b, r3) \<Rightarrow>
                            (if r3 = '')''
                             then Inr (toDouble (real (digitsVal r)),
                                       toDouble (real (digitsVal g)),
                                       toDouble (real (digitsVal b)))
                             else Inr (0, 0, 0)))))))"

definition interpolateColor ::
  "host \<Rightarrow> string option \<Rightarrow> string option \<Rightarrow> jsval \<Rightarrow> string \<Rightarrow> exn + string" where
  "interpolateColor h from to progress space =
     (case parseColor from of
        Inl e \<Rightarrow> Inl e
      | Inr (fr, fg, fb) \<Rightarrow>
          (case parseColor to of
             Inl e \<Rightarrow> Inl e
           | Inr (tr, tg, tb) \<Rightarrow>
               (let r = Math_round (fr + (tr - fr) * ToNumber progress);
                    g = Math_round (fg + (tg - fg) * ToNumber progress);
                    b = Math_round (fb + (tb - fb) * ToNumber progress)
                in Inr (''rgb('' @ numToString h r @ '', '' @ numToString h g @ '', ''
                          @ numToString h b @ '')''))))"

definition updateAnimateColor :: "host \<Rightarrow> animateColor \<Rightarrow> jsnum \<Rightarrow> engine \<Rightarrow> outcome" where
  "updateAnimateColor h anim time s =
     withProgress h anim time
       (\<lambda>targets easedProgress s1.
          case interpolateColor h (color_from anim) (color_to anim) easedProgress
                 (colorSpace anim) of
            Inl e \<Rightarrow> (Some e, s1)
          | Inr color \<Rightarrow>
              forEach (\<lambda>node. setAttribute h node (nullable (color_attribute anim)) color)
                targets s1)
       s"

definition interpolatePath :: "string \<Rightarrow> string \<Rightarrow> jsval \<Rightarrow> string" where
  "interpolatePath fromPath toPath progress =
     (if ToNumber progress < toDouble 0.5 then fromPath else toPath)"

definition updateMorph :: "host \<Rightarrow> morph \<Rightarrow> jsnum \<Rightarrow> engine \<Rightarrow> outcome" where
  "updateMorph h anim time s =
     withProgress h anim time
       (\<lambda>targets easedProgress s1.
          case (case svgContent s1 of
                  None \<Rightarrow> Inl (TypeError (readingNull ''querySelector''))
                | Some d \<Rightarrow> querySelector h d (nullable (morph_to anim))) of
            Inl e \<Rightarrow> (Some e, s1)
          | Inr None \<Rightarrow> (None, s1)
          | Inr (Some toEl) \<Rightarrow>
              forEach
                (\<lambda>node s'.
                   let fromPath = elements s' node ''d'';
                       toPath = elements s' toEl ''d''
                   in if nonEmpty fromPath \<and> nonEmpty toPath
                      then setAttribute h node ''d''
                             (interpolatePath (the fromPath) (the toPath) easedProgress) s'
                      else (None, s'))
                targets s1)
       s"

section \<open>Sampling and playback\<close>

text \<open>
  \<open>updateAnimations\<close>: the closure \<open>updateAnim\<close> and the \<open>forEach\<close> over the children of a
  group (and over the timeline), which is \<open>updateList\<close>.
\<close>

fun updateAnim :: "host \<Rightarrow> jsnum \<Rightarrow> anim \<Rightarrow> jsnum \<Rightarrow> engine \<Rightarrow> outcome"
  and updateList :: "host \<Rightarrow> jsnum \<Rightarrow> anim list \<Rightarrow> jsnum \<Rightarrow> engine \<Rightarrow> outcome"
where
  "updateAnim h time (Animate a) parentTime s = updateAnimate h a (time - parentTime) s"
| "updateAnim h time (AnimateTransform a) parentTime s =
     updateAnimateTransform h a (time - parentTime) s"
| "updateAnim h time (AnimatePath a) parentTime s = updateAnimatePath h a (time - parentTime) s"
| "updateAnim h time (AnimateColor a) parentTime s = updateAnimateColor h a (time - parentTime) s"
| "updateAnim h time (Morph a) parentTime s = updateMorph h a (time - parentTime) s"
| "updateAnim h time (Sequence as r i d) parentTime s = updateList h time as parentTime s"
| "updateAnim h time (Parallel as i d) parentTime s = updateList h time as parentTime s"
| "updateAnim h time (AnimateSet as t i d) parentTime s = updateList h time as parentTime s"
| "updateList h time [] parentTime s = (None, s)"
| "updateList h time (child # rest) parentTime s =
     (case updateAnim h time child parentTime s of
        (None, s') \<Rightarrow> updateList h time rest parentTime s'
      | (Some e, s') \<Rightarrow> (Some e, s'))"

definition updateAnimations :: "host \<Rightarrow> jsnum \<Rightarrow> engine \<Rightarrow> outcome" where
  "updateAnimations h time s =
     (case (timeline s, svgContent s) of
        (Some anims, Some d) \<Rightarrow> updateList h time anims 0 s
      | _ \<Rightarrow> (None, s))"

text \<open>
  The browser's frame queue. \<open>requestAnimationFrame\<close> returns a fresh handle, which the
  engine stores in \<open>_animationFrame\<close>, and the callback is pending until the browser runs
  it (\<open>tick\<close>, below) or \<open>cancelAnimationFrame\<close> removes it.
\<close>

definition requestAnimationFrame :: "engine \<Rightarrow> engine" where
  "requestAnimationFrame s =
     s\<lparr>frameCounter := frameCounter s + 1,
       pendingFrames := pendingFrames s @ [frameCounter s + 1],
       animationFrame := Some (frameCounter s + 1)\<rparr>"

definition cancelAnimationFrame :: "nat \<Rightarrow> engine \<Rightarrow> engine" where
  "cancelAnimationFrame k s = s\<lparr>pendingFrames := removeAll k (pendingFrames s)\<rparr>"

definition pause :: "engine \<Rightarrow> engine" where
  "pause s =
     (if \<not> playing s then s
      else
        emit ''pause'' NoDetail
          (case animationFrame s of
             Some k \<Rightarrow> (cancelAnimationFrame k (s\<lparr>playing := False\<rparr>))\<lparr>animationFrame := None\<rparr>
           | None \<Rightarrow> s\<lparr>playing := False\<rparr>))"

text \<open>
  \<open>animate\<close>, one run of the frame callback; \<open>now\<close> is the value that
  \<open>performance.now()\<close> returns in it. \<open>sampleAndSchedule\<close> is the end of the method, from
  the call of \<open>updateAnimations\<close> on.
\<close>

definition sampleAndSchedule :: "host \<Rightarrow> engine \<Rightarrow> outcome" where
  "sampleAndSchedule h s =
     (case updateAnimations h (currentTime s) s of
        (Some e, s') \<Rightarrow> (Some e, s')
      | (None, s') \<Rightarrow>
          (None, requestAnimationFrame (emit ''update'' (TimeDetail (currentTime s')) s')))"

definition animate :: "host \<Rightarrow> jsnum \<Rightarrow> engine \<Rightarrow> outcome" where
  "animate h now s =
     (if \<not> playing s then (None, s)
      else
        let elapsed = (now - startTime s) / toDouble 1000 * playbackRate s;
            s1 = s\<lparr>currentTime := elapsed\<rparr>
        in if state_duration s1 \<le> currentTime s1
           then (if options_loop s1
                 then sampleAndSchedule h (s1\<lparr>currentTime := 0, startTime := now\<rparr>)
                 else (None, emit ''end'' NoDetail (pause (s1\<lparr>currentTime := state_duration s1\<rparr>))))
           else sampleAndSchedule h s1)"

text \<open>The browser runs the oldest pending frame callback.\<close>

definition tick :: "host \<Rightarrow> jsnum \<Rightarrow> engine \<Rightarrow> outcome" where
  "tick h now s =
     (case pendingFrames s of
        [] \<Rightarrow> (None, s)
      | k # ks \<Rightarrow> animate h now (s\<lparr>pendingFrames := ks\<rparr>))"



definition seek :: "host \<Rightarrow> jsnum \<Rightarrow> jsnum \<Rightarrow> engine \<Rightarrow> outcome" where
  "seek h now time s =
     (let s1 = s\<lparr>currentTime := Math_max 0 (Math_min time (state_duration s))\<rparr>;
          s2 = s1\<lparr>startTime := now - currentTime s1 * toDouble 1000\<rparr>
      in case updateAnimations h (currentTime s2) s2 of
           (Some e, s3) \<Rightarrow> (Some e, s3)
         | (None, s3) \<Rightarrow> (None, emit ''seek'' (TimeDetail (currentTime s3)) s3))"

definition set_playbackRate :: "jsnum \<Rightarrow> engine \<Rightarrow> engine" where
  "set_playbackRate rate s = s\<lparr>playbackRate := rate\<rparr>"

definition set_loop :: "bool \<Rightarrow> engine \<Rightarrow> engine" where
  "set_loop v s = s\<lparr>options_loop := v\<rparr>"


section \<open>Loading a document\<close>











section \<open>Definitions for the properties\<close>

text \<open>
  What a leaf update does when it goes no further than resolving its targets: it returns,
  or rethrows what \<open>querySelectorAll\<close> threw, and the engine is as \<open>getTargets\<close> left it.
\<close>

definition resolveOnly :: "host \<Rightarrow> string option \<Rightarrow> engine \<Rightarrow> outcome" where
  "resolveOnly h selector s =
     (case getTargets h selector s of
        (Inl e, s1) \<Rightarrow> (Some e, s1)
      | (Inr targets, s1) \<Rightarrow> (None, s1))"

text \<open>
  \<open>sampled s s'\<close>: the engine \<open>s'\<close> is \<open>s\<close> except for the attribute store and the target
  cache, and the cache has kept every entry it had.
\<close>

definition sampled :: "engine \<Rightarrow> engine \<Rightarrow> bool" where
  "sampled s s' =
     (\<exists>c e. s' = s\<lparr>targetCache := c, elements := e\<rparr> \<and> targetCache s \<subseteq>\<^sub>m c)"

text \<open>
  The cubic-bezier solver in the words of the specification. The coordinate at the
  parameter \<open>u\<close> of the cubic Bezier curve whose end coordinates are 0 and 1 and whose
  control coordinates are \<open>p1\<close> and \<open>p2\<close> is \<open>bezier p1 p2 u\<close> in Bernstein form, over the
  reals. \<open>curve_poly\<close> is that coordinate as the polynomial \<open>((a u + b) u + c) u\<close> with
  \<open>c = 3 p1\<close>, \<open>b = 3 (p2 - p1) - c\<close>, \<open>a = 1 - c - b\<close>, and \<open>slope_poly\<close> is its
  derivative \<open>(3 a u + 2 b) u + c\<close>; both are written for any arithmetic, with the
  numbers 2 and 3 of that arithmetic as arguments. \<open>spec_curve\<close> and \<open>spec_slope\<close> are the
  two polynomials in double arithmetic. The solver takes Newton-Raphson steps on the X
  coordinate from the seed \<open>x = t\<close>; an iterate stops the iteration when it has converged
  (\<open>|sampleX(x) - t| < 0.001\<close>) or when the slope there is flat (magnitude below
  \<open>0.00001\<close>); \<open>spec_stopIndex\<close> is the number of steps taken, the first of the iterates
  0 to 3 that stops, or 4. The result is the Y coordinate at the iterate reached.
\<close>

definition bezier :: "real \<Rightarrow> real \<Rightarrow> real \<Rightarrow> real" where
  "bezier p1 p2 u = 3 * (1 - u) ^ 2 * u * p1 + 3 * (1 - u) * u ^ 2 * p2 + u ^ 3"

definition curve_poly :: "'a \<Rightarrow> 'a \<Rightarrow> 'a \<Rightarrow> 'a \<Rightarrow> 'a :: {one, plus, minus, times}" where
  "curve_poly three p1 p2 u =
     (((1 - three * p1 - (three * (p2 - p1) - three * p1)) * u
       + (three * (p2 - p1) - three * p1)) * u
      + three * p1) * u"

definition slope_poly ::
  "'a \<Rightarrow> 'a \<Rightarrow> 'a \<Rightarrow> 'a \<Rightarrow> 'a \<Rightarrow> 'a :: {one, plus, minus, times}" where
  "slope_poly two three p1 p2 u =
     (three * (1 - three * p1 - (three * (p2 - p1) - three * p1)) * u
      + two * (three * (p2 - p1) - three * p1)) * u
     + three * p1"

definition spec_curve :: "jsnum \<Rightarrow> jsnum \<Rightarrow> jsnum \<Rightarrow> jsnum" where
  "spec_curve p1 p2 u = curve_poly (toDouble 3) p1 p2 u"

definition spec_slope :: "jsnum \<Rightarrow> jsnum \<Rightarrow> jsnum \<Rightarrow> jsnum" where
  "spec_slope p1 p2 u = slope_poly (toDouble 2) (toDouble 3) p1 p2 u"

definition spec_step :: "jsnum \<Rightarrow> jsnum \<Rightarrow> jsnum \<Rightarrow> jsnum \<Rightarrow> jsnum" where
  "spec_step x1 x2 t x = x - (spec_curve x1 x2 x - t) / spec_slope x1 x2 x"

definition spec_stops :: "jsnum \<Rightarrow> jsnum \<Rightarrow> jsnum \<Rightarrow> jsnum \<Rightarrow> bool" where
  "spec_stops x1 x2 t x =
     (\<bar>spec_curve x1 x2 x - t\<bar> < toDouble 0.001 \<or> \<bar>spec_slope x1 x2 x\<bar> < toDouble 0.00001)"

definition spec_iterate :: "jsnum \<Rightarrow> jsnum \<Rightarrow> jsnum \<Rightarrow> nat \<Rightarrow> jsnum" where
  "spec_iterate x1 x2 t k = (spec_step x1 x2 t ^^ k) t"

definition spec_stopIndex :: "jsnum \<Rightarrow> jsnum \<Rightarrow> jsnum \<Rightarrow> nat" where
  "spec_stopIndex x1 x2 t =
     length (takeWhile (\<lambda>k. \<not> spec_stops x1 x2 t (spec_iterate x1 x2 t k)) [0, 1, 2, 3])"

definition spec_cubicBezier :: "jsnum \<Rightarrow> jsnum \<Rightarrow> jsnum \<Rightarrow> jsnum \<Rightarrow> jsnum \<Rightarrow> jsnum" where
  "spec_cubicBezier x1 y1 x2 y2 t =
     spec_curve y1 y2 (spec_iterate x1 x2 t (spec_stopIndex x1 x2 t))"

text \<open>
  The durations in the words of the specification. \<open>spec_sum\<close> is the sum of a list of
  durations, added in order from 0, and \<open>spec_max\<close> the maximum of a list of durations,
  0 for the empty list (\<open>Math.max(0, d1, \<dots>, dn)\<close>). \<open>leafEnd\<close> is
  \<open>start + duration * iterations\<close> of a leaf, \<open>leafEnds\<close> lists it for the leaves of a tree
  from left to right, and the total duration is the override when it is given (a number
  other than 0 and \<open>NaN\<close>), else the maximum of the leaf ends.
\<close>

definition spec_sum :: "jsnum list \<Rightarrow> jsnum" where
  "spec_sum ds = foldl (+) 0 ds"

definition spec_max :: "jsnum list \<Rightarrow> jsnum" where
  "spec_max ds = foldl Math_max 0 ds"

definition leafEnd :: "host \<Rightarrow> 'a leaf_scheme \<Rightarrow> jsnum" where
  "leafEnd h a = start a + duration a * iterationsOf h (repeat a)"

fun leafEnds :: "host \<Rightarrow> anim \<Rightarrow> jsnum list" where
  "leafEnds h (Animate a) = [leafEnd h a]"
| "leafEnds h (AnimateTransform a) = [leafEnd h a]"
| "leafEnds h (AnimatePath a) = [leafEnd h a]"
| "leafEnds h (AnimateColor a) = [leafEnd h a]"
| "leafEnds h (Morph a) = [leafEnd h a]"
| "leafEnds h (Sequence as r i d) = concat (map (leafEnds h) as)"
| "leafEnds h (Parallel as i d) = concat (map (leafEnds h) as)"
| "leafEnds h (AnimateSet as t i d) = concat (map (leafEnds h) as)"

definition spec_totalDuration :: "host \<Rightarrow> jsnum \<Rightarrow> anim list option \<Rightarrow> jsnum" where
  "spec_totalDuration h override roots =
     (if truthy_num override then override
      else spec_max (concat (map (leafEnds h)
                       (case roots of None \<Rightarrow> [] | Some anims \<Rightarrow> anims))))"

text \<open>
  A host, a drawing with one circle and an engine on it, for the concrete instances: the
  selector \<open>#circle\<close> matches the element 1, whose radius \<open>r\<close> is 20. \<open>radiusElement\<close> is an
  \<open>animate\<close> element of the timeline that drives the radius from 20 to 80, with further
  attributes as given.
\<close>

definition demoHost :: host where
  "demoHost =
     \<lparr> fractionToString = (\<lambda>r. ''0.5''),
       validSelector = (\<lambda>sel. True),
       validName = (\<lambda>n. n \<noteq> []),
       Math_atan2 = (\<lambda>y x. 0),
       getTotalLength = (\<lambda>d. 0),
       getPointAtLength = (\<lambda>d l. (0, 0)),
       cloneSvg = (\<lambda>e. None) \<rparr>"

definition demoDocument :: document where
  "demoDocument = \<lparr> docRoot = 0, matching = (\<lambda>sel. if sel = ''#circle'' then [1] else []) \<rparr>"

definition demoEngine :: engine where
  "demoEngine =
     \<lparr> options_autoplay = False, options_loop = False, options_fps = Fin 60,
       options_width = Fin 800, options_height = Fin 600, options_duration = 0,
       playing = False, currentTime = 0, state_duration = Fin 10, playbackRate = 1,
       currentState = None, timeline = None, svgContent = Some demoDocument,
       states = Map.empty, triggers = [], targetCache = Map.empty,
       animationFrame = None, lastFrameTime = 0, startTime = 0,
       elements = (\<lambda>node. if node = 1 then [''r'' \<mapsto> ''20''] else Map.empty),
       frameCounter = 0, pendingFrames = [], events = [] \<rparr>"

definition radiusElement :: "(string \<times> string) list \<Rightarrow> element" where
  "radiusElement extra =
     Element ''animate''
       ([(''target'', ''#circle''), (''attribute'', ''r''), (''from'', ''20''), (''to'', ''80'')]
        @ extra) []"

text \<open>The radius animation with a duration of one second.\<close>

definition radiusLeaf :: animate where
  "radiusLeaf = parseAnimate (radiusElement [(''duration'', ''1s'')]) 0"

text \<open>Three animations of 1, 2 and 3 seconds, as the children of a group element.\<close>

definition groupElement :: "string \<Rightarrow> element" where
  "groupElement tag =
     Element tag []
       [radiusElement [(''duration'', ''1s'')], radiusElement [(''duration'', ''2s'')],
        radiusElement [(''duration'', ''3s'')]]"

text \<open>
  A rotation of the circle whose \<open>from\<close> attribute is missing, and the demo engine while
  it plays a given timeline.
\<close>

definition spinElement :: element where
  "spinElement =
     Element ''animate-transform''
       [(''target'', ''#circle''), (''type'', ''rotate''), (''to'', ''360''), (''duration'', ''1s'')] []"

definition playingEngine :: "anim list \<Rightarrow> engine" where
  "playingEngine anims = demoEngine\<lparr>playing := True, timeline := Some anims\<rparr>"

text \<open>The radius animation as parsed, with duration \<open>d\<close> and start \<open>st\<close>.\<close>

definition radiusAt :: "real \<Rightarrow> real \<Rightarrow> anim" where
  "radiusAt d st =
     Animate \<lparr> target = Some ''#circle'', start = Fin st, duration = Fin d, easing = ''linear'',
       repeat = Number (Fin 1), reverse = Boolean False, ident = None,
       attribute = Some ''r'', from_value = Some ''20'', to_value = Some ''80'',
       by_value = None, fill = ''none'' \<rparr>"





text \<open>
  Further instances: the radius animation with a duration of 0.1 s and 3 repetitions,
  and with a duration of 0.7 s from the start 0.7 s on; a
  sequence whose second child is a sequence, which therefore starts at 0.1 s; the same
  with a first child whose duration \<open>.\<close> is read as \<open>NaN\<close>; and a host whose
  \<open>querySelectorAll\<close> rejects every selector.
\<close>

definition tenthLeaf :: animate where
  "tenthLeaf = parseAnimate (radiusElement [(''duration'', ''0.1s''), (''repeat'', ''3'')]) 0"

definition lateLeaf :: animate where
  "lateLeaf =
     parseAnimate
       (radiusElement [(''start'', ''0.7s''), (''duration'', ''0.7s''), (''repeat'', ''3'')]) 0"

definition nestedElement :: element where
  "nestedElement =
     Element ''sequence'' []
       [radiusElement [(''duration'', ''0.1s'')],
        Element ''sequence'' [] [radiusElement [(''duration'', ''0.2s'')]]]"

definition nanElement :: element where
  "nanElement =
     Element ''sequence'' []
       [radiusElement [(''duration'', ''.'')],
        Element ''sequence'' [] [radiusElement [(''duration'', ''1s'')]]]"

definition strictHost :: host where
  "strictHost = demoHost\<lparr>validSelector := (\<lambda>sel. False)\<rparr>"

section \<open>Rounding to a double\<close>

text \<open>
  The rounding is symmetric, it is determined by the binade of its argument, and it leaves
  the doubles where they are: integers below \<open>2 ^ 53\<close>, and more generally every
  \<open>k * 2 powi j\<close> with \<open>\<bar>k\<bar> < 2 ^ 53\<close> and \<open>j \<ge> - 1074\<close> below \<open>2 ^ 1024\<close>. Every result of
  a rounding is a double, a positive real from \<open>2 powi (- 1074)\<close> on does not round to 0,
  and the unit interval rounds into itself.
\<close>

lemma roundHalfEven_of_int: "roundHalfEven (of_int m) = m"
  by (simp add: roundHalfEven_def)

lemma roundHalfEven_minus: "roundHalfEven (- x) = - roundHalfEven x"
proof (cases "x = of_int \<lfloor>x\<rfloor>")
  case True
  then obtain m where "x = of_int m" by metis
  then show ?thesis using roundHalfEven_of_int[of "- m"] roundHalfEven_of_int[of m] by simp
next
  case False
  then have lt: "of_int \<lfloor>x\<rfloor> < x" using of_int_floor_le[of x] by linarith
  have fl: "\<lfloor>- x\<rfloor> = - \<lfloor>x\<rfloor> - 1"
    using lt by (intro floor_unique) (auto, linarith)
  show ?thesis
    unfolding roundHalfEven_def Let_def fl using lt
    by (auto simp: algebra_simps)
qed

lemma binade_eq:
  assumes "2 powi e \<le> \<bar>x\<bar>" "\<bar>x\<bar> < 2 powi (e + 1)"
  shows "binade x = e"
proof -
  have "(0::real) < 2 powi e" by simp
  then have pos: "0 < \<bar>x\<bar>" using assms(1) by linarith
  have a: "real_of_int e \<le> log 2 \<bar>x\<bar>"
    using assms(1) pos by (simp add: le_log_iff powr_real_of_int')
  have c: "2 powi (e + 1) = 2 powr (real_of_int e + 1)"
    using powr_real_of_int'[of 2 "e + 1"] by simp
  have b: "log 2 \<bar>x\<bar> < real_of_int (e + 1)"
    using assms(2) pos by (simp add: log_less_iff c)
  show ?thesis unfolding binade_def using a b by (intro floor_unique) auto
qed

lemma binade_bounds:
  assumes "x \<noteq> 0"
  shows "2 powi (binade x) \<le> \<bar>x\<bar>" "\<bar>x\<bar> < 2 powi (binade x + 1)"
proof -
  have pos: "0 < \<bar>x\<bar>" using assms by simp
  have "real_of_int (binade x) \<le> log 2 \<bar>x\<bar>" unfolding binade_def by simp
  then show "2 powi (binade x) \<le> \<bar>x\<bar>"
    using pos by (simp add: le_log_iff powr_real_of_int')
  have c: "2 powi (binade x + 1) = 2 powr (real_of_int (binade x) + 1)"
    using powr_real_of_int'[of 2 "binade x + 1"] by simp
  have "log 2 \<bar>x\<bar> < real_of_int (binade x + 1)" unfolding binade_def by linarith
  then show "\<bar>x\<bar> < 2 powi (binade x + 1)"
    using pos by (simp add: log_less_iff c)
qed

lemma powi_less_cancel: "(2::real) powi a < 2 powi b \<Longrightarrow> a < b"
  using power_int_increasing[of b a "2::real"] by (cases "a < b") auto

lemma powi_le_cancel: "(2::real) powi a \<le> 2 powi b \<Longrightarrow> a \<le> b"
  using power_int_strict_increasing[of b a "2::real"] by (cases "a \<le> b") auto

lemma roundHalfEven_le: "z \<le> of_int m \<Longrightarrow> roundHalfEven z \<le> m"
proof -
  assume a: "z \<le> of_int m"
  have f: "\<lfloor>z\<rfloor> \<le> m" using a by (simp add: floor_le_iff)
  show ?thesis
  proof (cases "z = of_int \<lfloor>z\<rfloor>")
    case True
    then have "roundHalfEven z = \<lfloor>z\<rfloor>"
      using roundHalfEven_of_int[of "\<lfloor>z\<rfloor>"] by simp
    then show ?thesis using f by simp
  next
    case False
    then have "of_int \<lfloor>z\<rfloor> < z" using of_int_floor_le[of z] by linarith
    then have "real_of_int \<lfloor>z\<rfloor> < of_int m" using a by linarith
    then have "\<lfloor>z\<rfloor> < m" by simp
    then show ?thesis unfolding roundHalfEven_def Let_def by auto
  qed
qed

lemma roundHalfEven_ge: "of_int m \<le> z \<Longrightarrow> m \<le> roundHalfEven z"
proof -
  assume a: "of_int m \<le> z"
  have f: "m \<le> \<lfloor>z\<rfloor>" using a by (simp add: le_floor_iff)
  show ?thesis unfolding roundHalfEven_def Let_def using f by auto
qed

lemma binade_minus: "binade (- x) = binade x"
  by (simp add: binade_def)

lemma quantum_minus: "quantum (- x) = quantum x"
  by (simp add: quantum_def binade_minus)

lemma quantum_pos: "0 < quantum x"
  by (simp add: quantum_def)

lemma toDouble_minus: "toDouble (- x) = - toDouble x"
  by (simp add: toDouble_def Let_def quantum_minus roundHalfEven_minus)

text \<open>The shape of every rounding.\<close>

lemma toDouble_shape:
  assumes "x \<noteq> 0"
  defines "q \<equiv> max (binade x) (- 1022) - 52"
  defines "n \<equiv> roundHalfEven (x / 2 powi q)"
  shows "- 1074 \<le> q" "\<bar>x\<bar> < 2 powi (q + 53)" "\<bar>n\<bar> \<le> 2 ^ 53"
    and "toDouble x = (if 2 ^ 1024 \<le> \<bar>real_of_int n * 2 powi q\<bar>
                       then (if 0 < x then PInf else NInf) else Fin (of_int n * 2 powi q))"
proof -
  show "- 1074 \<le> q" unfolding q_def by simp
  have "binade x + 1 \<le> q + 53" unfolding q_def by simp
  then have "(2::real) powi (binade x + 1) \<le> 2 powi (q + 53)"
    by (intro power_int_increasing) auto
  then show lt: "\<bar>x\<bar> < 2 powi (q + 53)" using binade_bounds(2)[OF assms(1)] by linarith
  have split: "(2::real) powi (q + 53) = 2 powi q * 2 ^ 53"
    by (simp add: power_int_add)
  define B :: int where "B = 2 ^ 53"
  have B: "real_of_int B = 2 ^ 53" by (simp add: B_def)
  have "\<bar>x\<bar> / 2 powi q < 2 ^ 53"
    using lt unfolding split by (simp add: field_simps)
  then have "\<bar>x / 2 powi q\<bar> < real_of_int B"
    unfolding B by simp
  then have "x / 2 powi q \<le> of_int B" "of_int (- B) \<le> x / 2 powi q"
    unfolding of_int_minus by linarith+
  then have "n \<le> B" "- B \<le> n"
    unfolding n_def using roundHalfEven_le roundHalfEven_ge by blast+
  then show "\<bar>n\<bar> \<le> 2 ^ 53" unfolding B_def by linarith
  have "quantum x = 2 powi q" unfolding quantum_def q_def by simp
  then show "toDouble x = (if 2 ^ 1024 \<le> \<bar>real_of_int n * 2 powi q\<bar>
                       then (if 0 < x then PInf else NInf) else Fin (of_int n * 2 powi q))"
    unfolding toDouble_def Let_def n_def using assms(1) by simp
qed

lemma toDouble_0: "toDouble 0 = Fin 0"
  by (simp add: toDouble_def)

text \<open>A number with at most 53 significant bits above the least exponent is a double.\<close>

lemma toDouble_exact:
  assumes "x = of_int k * 2 powi j" "\<bar>k\<bar> < 2 ^ 53" "- 1074 \<le> j" "\<bar>x\<bar> < 2 ^ 1024"
  shows "toDouble x = Fin x"
proof (cases "x = 0")
  case True
  then show ?thesis by (simp add: toDouble_0)
next
  case False
  define q where "q = max (binade x) (- 1022) - 52"
  have "\<bar>x\<bar> = of_int \<bar>k\<bar> * 2 powi j" using assms(1) by (simp add: abs_mult)
  also have "\<dots> < 2 ^ 53 * 2 powi j"
  proof -
    have "real_of_int \<bar>k\<bar> < 2 ^ 53" using assms(2) by (metis of_int_less_iff of_int_numeral of_int_power)
    then show ?thesis by (intro mult_strict_right_mono) auto
  qed
  also have "\<dots> = 2 powi (j + 53)" by (simp add: power_int_add)
  finally have "\<bar>x\<bar> < 2 powi (j + 53)" .
  then have "(2::real) powi (binade x) < 2 powi (j + 53)"
    using binade_bounds(1)[OF False] by linarith
  then have "binade x < j + 53" by (rule powi_less_cancel)
  then have qj: "q \<le> j" unfolding q_def using assms(3) by simp
  have "(2::real) powi j = 2 powi q * 2 powi (j - q)"
    by (simp flip: power_int_add)
  also have "\<dots> = 2 powi q * 2 ^ nat (j - q)"
    using qj by (simp add: power_int_nonneg_exp)
  finally have pj: "(2::real) powi j = 2 powi q * 2 ^ nat (j - q)" .
  have "x / 2 powi q = of_int (k * 2 ^ nat (j - q))"
    unfolding assms(1) pj by simp
  then have r: "roundHalfEven (x / 2 powi q) = k * 2 ^ nat (j - q)"
    by (metis roundHalfEven_of_int)
  have "of_int (k * 2 ^ nat (j - q)) * 2 powi q = x"
    unfolding assms(1) pj by simp
  then show ?thesis
    using toDouble_shape(4)[OF False] assms(4) unfolding q_def[symmetric] r by simp
qed

lemma toDouble_idem:
  assumes "toDouble x = Fin y"
  shows "toDouble y = Fin y"
proof (cases "x = 0")
  case True
  then show ?thesis using assms by (auto simp: toDouble_0)
next
  case False
  define q where "q = max (binade x) (- 1022) - 52"
  define n where "n = roundHalfEven (x / 2 powi q)"
  note sh = toDouble_shape[OF False, folded q_def, folded n_def]
  have y: "y = of_int n * 2 powi q" and small: "\<bar>y\<bar> < 2 ^ 1024"
    using sh(4) assms by (auto split: if_splits)
  show ?thesis
  proof (cases "\<bar>n\<bar> < 2 ^ 53")
    case True
    then show ?thesis using toDouble_exact[OF y True sh(1) small] by simp
  next
    case False
    then have "n = 2 ^ 53 \<or> n = - (2 ^ 53)" using sh(3) by linarith
    then have "y = of_int (if 0 < n then 1 else - 1) * 2 powi (q + 53)"
      unfolding y by (auto simp: power_int_add)
    then show ?thesis using toDouble_exact[of y "if 0 < n then 1 else - 1" "q + 53"] sh(1) small
      by auto
  qed
qed

lemma isDouble_toDouble: "toDouble x = Fin y \<Longrightarrow> isDouble y"
  unfolding isDouble_def by (rule toDouble_idem)

lemma toDouble_normal:
  assumes "2 powi e \<le> \<bar>x\<bar>" "\<bar>x\<bar> < 2 powi (e + 1)" "- 1022 \<le> e" "e \<le> 1022"
    and "roundHalfEven (x / 2 powi (e - 52)) = n"
  shows "toDouble x = Fin (of_int n * 2 powi (e - 52))"
proof -
  have "(0::real) < 2 powi e" by simp
  then have "0 < \<bar>x\<bar>" using assms(1) by linarith
  then have nz: "x \<noteq> 0" by simp
  have b: "binade x = e" using assms(1,2) by (rule binade_eq)
  have q: "max (binade x) (- 1022) - 52 = e - 52" using assms(3) b by simp
  note sh = toDouble_shape[OF nz, unfolded q, unfolded assms(5)]
  have "\<bar>real_of_int n * 2 powi (e - 52)\<bar> = real_of_int \<bar>n\<bar> * 2 powi (e - 52)"
    by (simp add: abs_mult)
  also have "\<dots> \<le> 2 ^ 53 * 2 powi (e - 52)"
  proof -
    have "real_of_int \<bar>n\<bar> \<le> 2 ^ 53" using sh(3) by (metis of_int_le_iff of_int_numeral of_int_power)
    then show ?thesis by (intro mult_right_mono) auto
  qed
  also have "\<dots> = 2 powi (e + 1)" using power_int_add[of "2::real" 53 "e - 52"] by (simp add: add.commute)
  also have "\<dots> \<le> 2 powi 1023" using assms(4) by (intro power_int_increasing) auto
  also have "\<dots> < 2 ^ 1024" by simp
  finally show ?thesis using sh(4) by simp
qed

lemma toDouble_of_int: "\<bar>k\<bar> < 2 ^ 53 \<Longrightarrow> toDouble (of_int k) = Fin (of_int k)"
proof -
  assume a: "\<bar>k\<bar> < 2 ^ 53"
  have "\<bar>k\<bar> < 2 ^ 1024" using a by (rule less_trans) simp
  then have "\<bar>real_of_int k\<bar> < 2 ^ 1024"
    by (metis of_int_abs of_int_less_iff of_int_numeral of_int_power)
  then show ?thesis using toDouble_exact[of "of_int k" k 0] a by simp
qed

lemma toDouble_numeral:
  "numeral k < (2::int) ^ 53 \<Longrightarrow> toDouble (numeral k) = Fin (numeral k)"
  using toDouble_of_int[of "numeral k"] by simp

lemma toDouble_1: "toDouble 1 = Fin 1"
  using toDouble_of_int[of 1] by simp

lemma toDouble_dyadic:
  assumes "\<bar>k\<bar> < 2 ^ 53" "m \<le> 1074"
  shows "toDouble (of_int k / 2 ^ m) = Fin (of_int k / 2 ^ m)"
proof -
  have e: "real_of_int k / 2 ^ m = of_int k * 2 powi (- int m)"
    by (simp add: power_int_minus field_simps)
  have "\<bar>real_of_int k / 2 ^ m\<bar> \<le> \<bar>real_of_int k\<bar>"
    by (simp add: field_simps mult_le_cancel_left1)
  also have "\<dots> < 2 ^ 53" using assms(1)
    by (metis of_int_abs of_int_less_iff of_int_numeral of_int_power)
  also have "\<dots> < (2::real) ^ 1024" by simp
  finally show ?thesis
    using toDouble_exact[OF e assms(1)] assms(2) by simp
qed

lemma toDouble_finite_or_inf: "toDouble x \<noteq> NaN"
  by (simp add: toDouble_def Let_def)

lemma toDouble_pos:
  assumes "2 powi (- 1074) \<le> x"
  shows "toDouble x = PInf \<or> (\<exists>y. toDouble x = Fin y \<and> 2 powi (- 1074) \<le> y)"
proof -
  have "(0::real) < 2 powi (- 1074)" by (rule zero_less_power_int) simp
  then have pos: "0 < x" using assms by linarith
  then have nz: "x \<noteq> 0" by simp
  define q where "q = max (binade x) (- 1022) - 52"
  define n where "n = roundHalfEven (x / 2 powi q)"
  note sh = toDouble_shape[OF nz, folded q_def, folded n_def]
  have "2 powi q \<le> x"
  proof (cases "- 1022 \<le> binade x")
    case True
    then have "q \<le> binade x" unfolding q_def by simp
    then have "(2::real) powi q \<le> 2 powi (binade x)" by (intro power_int_increasing) auto
    then show ?thesis using binade_bounds(1)[OF nz] pos by simp
  next
    case False
    then have "q = - 1074" unfolding q_def by simp
    then show ?thesis using assms by simp
  qed
  then have "real_of_int 1 \<le> x / 2 powi q" by (simp add: field_simps)
  then have n1: "1 \<le> n" unfolding n_def by (rule roundHalfEven_ge)
  have "(2::real) powi (- 1074) \<le> 2 powi q" using sh(1) by (intro power_int_increasing) auto
  also have "\<dots> \<le> real_of_int n * 2 powi q"
    using mult_right_mono[of 1 "real_of_int n" "2 powi q"] n1 by simp
  finally show ?thesis using sh(4) pos by auto
qed

lemma toDouble_unit:
  assumes "0 \<le> x" "x \<le> 1"
  shows "\<exists>y. toDouble x = Fin y \<and> 0 \<le> y \<and> y \<le> 1"
proof (cases "x = 0")
  case True
  then show ?thesis by (simp add: toDouble_0)
next
  case False
  define q where "q = max (binade x) (- 1022) - 52"
  define n where "n = roundHalfEven (x / 2 powi q)"
  note sh = toDouble_shape[OF False, folded q_def, folded n_def]
  have "(2::real) powi (binade x) \<le> 2 powi 0"
    using binade_bounds(1)[OF False] assms by simp
  then have "binade x \<le> 0" by (rule powi_le_cancel)
  then have q0: "q \<le> 0" unfolding q_def by simp
  have inv: "1 / (2::real) powi q = of_int (2 ^ nat (- q))"
    using q0 power_int_nonneg_exp[of "- q" "2::real"] by (simp add: power_int_minus field_simps)
  have "of_int 0 \<le> x / 2 powi q" using assms(1) by simp
  then have n0: "0 \<le> n" unfolding n_def by (rule roundHalfEven_ge)
  have "x / 2 powi q \<le> 1 / 2 powi q" using assms(2) by (simp add: field_simps)
  then have "n \<le> 2 ^ nat (- q)" unfolding n_def inv by (rule roundHalfEven_le)
  then have "real_of_int n \<le> 1 / 2 powi q" unfolding inv by (simp only: of_int_le_iff)
  then have le1: "real_of_int n * 2 powi q \<le> 1" by (simp add: field_simps)
  have ge0: "0 \<le> real_of_int n * 2 powi q" using n0 by simp
  have "\<not> (2::real) ^ 1024 \<le> \<bar>real_of_int n * 2 powi q\<bar>"
  proof -
    have "(1::real) < 2 ^ 1024" by simp
    then show ?thesis using le1 ge0 by linarith
  qed
  then show ?thesis using sh(4) le1 ge0 by simp
qed

lemma double_grid:
  assumes "isDouble a"
  shows "\<exists>m. a = real_of_int m * 2 powi (- 1074)"
proof (cases "a = 0")
  case True
  then show ?thesis by (intro exI[of _ 0]) simp
next
  case False
  define q where "q = max (binade a) (- 1022) - 52"
  define n where "n = roundHalfEven (a / 2 powi q)"
  note sh = toDouble_shape[OF False, folded q_def, folded n_def]
  have a: "a = real_of_int n * 2 powi q"
    using sh(4) assms unfolding isDouble_def by (auto split: if_splits)
  define u :: real where "u = 2 powi (- 1074)"
  have eq: "q + 1074 + (- 1074) = q" by simp
  have "(2::real) powi (q + 1074 + (- 1074)) = 2 powi (q + 1074) * 2 powi (- 1074)"
    by (rule power_int_add) simp
  then have "(2::real) powi q = 2 powi (q + 1074) * u"
    unfolding eq u_def .
  also have "2 powi (q + 1074) = (2::real) ^ nat (q + 1074)"
    using sh(1) by (simp add: power_int_nonneg_exp)
  finally have "a = real_of_int (n * 2 ^ nat (q + 1074)) * u"
    using a by simp
  then show ?thesis unfolding u_def by blast
qed

lemma double_diff:
  assumes "isDouble a" "isDouble b" "a < b"
  shows "2 powi (- 1074) \<le> b - a"
proof -
  define u :: real where "u = 2 powi (- 1074)"
  have upos: "0 < u" unfolding u_def by (rule zero_less_power_int) simp
  obtain m where m: "a = real_of_int m * u" using double_grid[OF assms(1)] unfolding u_def by blast
  obtain k where k: "b = real_of_int k * u" using double_grid[OF assms(2)] unfolding u_def by blast
  have "real_of_int m * u < real_of_int k * u"
    using assms(3) unfolding m k .
  then have "real_of_int m < real_of_int k"
    using upos by (simp only: mult_less_cancel_right_pos)
  then have "m + 1 \<le> k" by simp
  then have "real_of_int (m + 1) \<le> real_of_int k" by (simp only: of_int_le_iff)
  then have "(real_of_int m + 1) * u \<le> real_of_int k * u"
    using upos by (intro mult_right_mono) auto
  then have "u \<le> b - a" unfolding m k by (simp add: algebra_simps)
  then show ?thesis unfolding u_def .
qed


lemma toDouble_neg_numeral:
  "numeral k < (2::int) ^ 53 \<Longrightarrow> toDouble (- numeral k) = Fin (- numeral k)"
  by (simp add: toDouble_minus toDouble_numeral)

lemma isDouble_0: "isDouble 0"
  by (simp add: isDouble_def toDouble_0)

lemma isDouble_minus: "isDouble x \<Longrightarrow> isDouble (- x)"
  by (simp add: isDouble_def toDouble_minus)

lemma isNumber_toDouble: "isNumber (toDouble x)"
  by (cases "toDouble x") (simp_all add: isDouble_toDouble)

lemma isNumber_uminus: "isNumber x \<Longrightarrow> isNumber (- x)"
  by (cases x) (simp_all add: isDouble_minus)

lemma isNumber_plus: "isNumber (x + y)"
  by (cases x; cases y) (simp_all add: isNumber_toDouble)

lemma isNumber_minus: "isNumber (x - y)"
  unfolding minus_jsnum_def by (rule isNumber_plus)

lemma isNumber_times: "isNumber (x * y)"
  by (cases x; cases y) (simp_all add: isNumber_toDouble)

lemma isNumber_divide: "isNumber (x / y)"
  by (cases x; cases y) (simp_all add: isNumber_toDouble isDouble_0)

lemma isNumber_Math_max: "isNumber x \<Longrightarrow> isNumber y \<Longrightarrow> isNumber (Math_max x y)"
  by (cases x; cases y) simp_all

text \<open>Adding or subtracting 0 leaves a number as it is.\<close>

lemma plus_zero:
  assumes "isNumber x"
  shows "0 + x = x" "x + 0 = x" "x - 0 = x"
  using assms by (cases x; simp add: zero_jsnum_def minus_jsnum_def isDouble_def)+

section \<open>Evaluation of the parsers and the number model\<close>

lemmas toDouble_dyadics =
  toDouble_dyadic [of 1 1, simplified] toDouble_dyadic [of 1 2, simplified]
  toDouble_dyadic [of 3 2, simplified] toDouble_dyadic [of 5 2, simplified]

lemmas jsnum_arith =
  zero_jsnum_def one_jsnum_def minus_jsnum_def inverse_jsnum_def
  toDouble_0 toDouble_1 toDouble_numeral toDouble_neg_numeral toDouble_dyadics

lemmas parse_defs = parseAnimate_def getAttribute_def attrOr_def parseTime_def parseFloat_def
  parseInt_def unsignedDecimal_def startsWith_def isWhiteSpace_def isDigit_def isDigitOrDot_def
  digitsVal_def digitVal_def scale10_def

lemmas demo_defs = demoHost_def demoEngine_def demoDocument_def

lemmas char_defs = char_of_def bit_0

lemmas update_defs = updateAnimate_def withProgress_def getTargets_def querySelectorAll_def
  calculateProgress_def Let_def applyEasing_def setAttribute_def numToString_def nullable_def
  nonEmpty_def

text \<open>
  The roundings of numbers that are not doubles, and of the results that are not, in the
  instances below: the literals 0.1, 0.2, 0.3, 0.7, 2.8, 0.001 and 0.00001, the curve
  \<open>ease\<close> at 0, 1 and 0.1, a leaf of 0.1 s sampled at 0.3 s, a leaf of 0.7 s that starts at
  0.7 s sampled at 2.8 s, and a sequence that starts at 0.1 s.
  The decimal 0.1 is read as the double 3602879701896397 / 2 ^ 55.
\<close>

lemma rounding_1: "toDouble (1 / 1000) = Fin (1152921504606847 / 1152921504606846976)"
  using toDouble_normal [of "- 10" "1 / 1000" 4611686018427388]
  by (simp add: roundHalfEven_def Let_def)

lemma rounding_2: "toDouble (1 / 100000) = Fin (5902958103587057 / 590295810358705651712)"
  using toDouble_normal [of "- 17" "1 / 100000" 5902958103587057]
  by (simp add: roundHalfEven_def Let_def)

lemma rounding_3: "toDouble (1 / 10) = Fin (3602879701896397 / 36028797018963968)"
  using toDouble_normal [of "- 4" "1 / 10" 7205759403792794]
  by (simp add: roundHalfEven_def Let_def)

lemma rounding_4:
  "toDouble (10808639105689191 / 36028797018963968) =
     Fin (1351079888211149 / 4503599627370496)"
  using toDouble_normal [of "- 2" "10808639105689191 / 36028797018963968" 5404319552844596]
  by (simp add: roundHalfEven_def Let_def)

lemma rounding_5:
  "toDouble (32425917317067571 / 36028797018963968) =
     Fin (8106479329266893 / 9007199254740992)"
  using toDouble_normal [of "- 1" "32425917317067571 / 36028797018963968" 8106479329266893]
  by (simp add: roundHalfEven_def Let_def)

lemma rounding_6:
  "toDouble (24319437987800679 / 9007199254740992) =
     Fin (3039929748475085 / 1125899906842624)"
  using toDouble_normal [of "1" "24319437987800679 / 9007199254740992" 6079859496950170]
  by (simp add: roundHalfEven_def Let_def)

lemma rounding_7:
  "toDouble (10808639105689191 / 4503599627370496) =
     Fin (1351079888211149 / 562949953421312)"
  using toDouble_normal [of "1" "10808639105689191 / 4503599627370496" 5404319552844596]
  by (simp add: roundHalfEven_def Let_def)

lemma rounding_8:
  "toDouble (3152519739159347 / 4503599627370496) =
     Fin (3152519739159347 / 4503599627370496)"
  using toDouble_normal [of "- 1" "3152519739159347 / 4503599627370496" 6305039478318694]
  by (simp add: roundHalfEven_def Let_def)

lemma rounding_9:
  "toDouble (7656119366529845 / 4503599627370496) =
     Fin (7656119366529845 / 4503599627370496)"
  using toDouble_normal [of "0" "7656119366529845 / 4503599627370496" 7656119366529845]
  by (simp add: roundHalfEven_def Let_def)

lemma rounding_10:
  "toDouble (1351079888211149 / 562949953421312) =
     Fin (1351079888211149 / 562949953421312)"
  using toDouble_normal [of "1" "1351079888211149 / 562949953421312" 5404319552844596]
  by (simp add: roundHalfEven_def Let_def)

lemma rounding_11:
  "toDouble (1351079888211149 / 4503599627370496) =
     Fin (1351079888211149 / 4503599627370496)"
  using toDouble_normal [of "- 2" "1351079888211149 / 4503599627370496" 5404319552844596]
  by (simp add: roundHalfEven_def Let_def)

lemma rounding_12:
  "toDouble (3602879701896397 / 36028797018963968) =
     Fin (3602879701896397 / 36028797018963968)"
  using toDouble_normal [of "- 4" "3602879701896397 / 36028797018963968" 7205759403792794]
  by (simp add: roundHalfEven_def Let_def)

lemma rounding_13:
  "toDouble (23418718062326579 / 36028797018963968) =
     Fin (5854679515581645 / 9007199254740992)"
  using toDouble_normal [of "- 1" "23418718062326579 / 36028797018963968" 5854679515581645]
  by (simp add: roundHalfEven_def Let_def)

lemma rounding_14:
  "toDouble (21093705987797739132416984833065 / 324518553658426726783156020576256) =
     Fin (1170935903116329 / 18014398509481984)"
  using toDouble_normal
    [of "- 4" "21093705987797739132416984833065 / 324518553658426726783156020576256"
        4683743612465316]
  by (simp add: roundHalfEven_def Let_def)

lemma rounding_15:
  "toDouble (12339862978995159 / 18014398509481984) =
     Fin (1542482872374395 / 2251799813685248)"
  using toDouble_normal [of "- 1" "12339862978995159 / 18014398509481984" 6169931489497580]
  by (simp add: roundHalfEven_def Let_def)

lemma rounding_16:
  "toDouble (5557380231400558437003685554815 / 81129638414606681695789005144064) =
     Fin (308496574474879 / 4503599627370496)"
  using toDouble_normal
    [of "- 4" "5557380231400558437003685554815 / 81129638414606681695789005144064"
        4935945191598064]
  by (simp add: roundHalfEven_def Let_def)

lemma rounding_17:
  "toDouble (1134907106097365 / 36028797018963968) =
     Fin (1134907106097365 / 36028797018963968)"
  using toDouble_normal [of "- 5" "1134907106097365 / 36028797018963968" 4539628424389460]
  by (simp add: roundHalfEven_def Let_def)

lemma rounding_18: "toDouble (3 / 2) = Fin (3 / 2)"
  using toDouble_normal [of "0" "3 / 2" 6755399441055744]
  by (simp add: roundHalfEven_def Let_def)

lemma rounding_19:
  "toDouble (5404319552844595 / 4503599627370496) =
     Fin (5404319552844595 / 4503599627370496)"
  using toDouble_normal [of "0" "5404319552844595 / 4503599627370496" 5404319552844595]
  by (simp add: roundHalfEven_def Let_def)

lemma rounding_20:
  "toDouble (19471113219505603967277331424215 / 162259276829213363391578010288128) =
     Fin (1080863910568919 / 9007199254740992)"
  using toDouble_normal
    [of "- 4" "19471113219505603967277331424215 / 162259276829213363391578010288128"
        8646911284551352]
  by (simp add: roundHalfEven_def Let_def)

lemma rounding_21:
  "toDouble (5674535530486825 / 9007199254740992) =
     Fin (5674535530486825 / 9007199254740992)"
  using toDouble_normal [of "- 1" "5674535530486825 / 9007199254740992" 5674535530486825]
  by (simp add: roundHalfEven_def Let_def)

lemma rounding_22: "toDouble (1 / 20) = Fin (3602879701896397 / 72057594037927936)"
  using toDouble_normal [of "- 5" "1 / 20" 7205759403792794]
  by (simp add: roundHalfEven_def Let_def)

lemma rounding_23:
  "toDouble (10808639105689191 / 72057594037927936) =
     Fin (1351079888211149 / 9007199254740992)"
  using toDouble_normal [of "- 3" "10808639105689191 / 72057594037927936" 5404319552844596]
  by (simp add: roundHalfEven_def Let_def)

lemma rounding_24:
  "toDouble (1351079888211149 / 9007199254740992) =
     Fin (1351079888211149 / 9007199254740992)"
  using toDouble_normal [of "- 3" "1351079888211149 / 9007199254740992" 5404319552844596]
  by (simp add: roundHalfEven_def Let_def)

lemma rounding_25:
  "toDouble (5404319552844595 / 9007199254740992) =
     Fin (5404319552844595 / 9007199254740992)"
  using toDouble_normal [of "- 1" "5404319552844595 / 9007199254740992" 5404319552844595]
  by (simp add: roundHalfEven_def Let_def)

lemma rounding_26:
  "toDouble (7301667457314602163268943389655 / 81129638414606681695789005144064) =
     Fin (6485183463413515 / 72057594037927936)"
  using toDouble_normal
    [of "- 4" "7301667457314602163268943389655 / 81129638414606681695789005144064"
        6485183463413515]
  by (simp add: roundHalfEven_def Let_def)

lemma rounding_27:
  "toDouble (47558012065032437 / 72057594037927936) =
     Fin (5944751508129055 / 9007199254740992)"
  using toDouble_normal [of "- 1" "47558012065032437 / 72057594037927936" 5944751508129055]
  by (simp add: roundHalfEven_def Let_def)

lemma rounding_28:
  "toDouble (8031834203046063055135781834195 / 81129638414606681695789005144064) =
     Fin (7133701809754867 / 72057594037927936)"
  using toDouble_normal
    [of "- 4" "8031834203046063055135781834195 / 81129638414606681695789005144064"
        7133701809754867]
  by (simp add: roundHalfEven_def Let_def)

lemma rounding_29:
  "toDouble (72057594037927 / 72057594037927936) =
     Fin (72057594037927 / 72057594037927936)"
  using toDouble_normal [of "- 10" "72057594037927 / 72057594037927936" 4611686018427328]
  by (simp add: roundHalfEven_def Let_def)

lemma rounding_30:
  "toDouble (10344028897862355879380770241905 / 40564819207303340847894502572032) =
     Fin (1148417904979477 / 4503599627370496)"
  using toDouble_normal
    [of "- 2" "10344028897862355879380770241905 / 40564819207303340847894502572032"
        4593671619917908]
  by (simp add: roundHalfEven_def Let_def)

lemma rounding_31:
  "toDouble (9660221200709715 / 4503599627370496) =
     Fin (2415055300177429 / 1125899906842624)"
  using toDouble_normal [of "1" "9660221200709715 / 4503599627370496" 4830110600354858]
  by (simp add: roundHalfEven_def Let_def)

lemma rounding_32:
  "toDouble (3262932644987463665025115955921 / 10141204801825835211973625643008) =
     Fin (2898066360212915 / 9007199254740992)"
  using toDouble_normal
    [of "- 2" "3262932644987463665025115955921 / 10141204801825835211973625643008"
        5796132720425830]
  by (simp add: roundHalfEven_def Let_def)

lemma rounding_33:
  "toDouble (5600226136635213 / 9007199254740992) =
     Fin (5600226136635213 / 9007199254740992)"
  using toDouble_normal [of "- 1" "5600226136635213 / 9007199254740992" 5600226136635213]
  by (simp add: roundHalfEven_def Let_def)

lemma rounding_34:
  "toDouble (7566352902642258425420532589737 / 81129638414606681695789005144064) =
     Fin (6720271363962257 / 72057594037927936)"
  using toDouble_normal
    [of "- 4" "7566352902642258425420532589737 / 81129638414606681695789005144064"
        6720271363962257]
  by (simp add: roundHalfEven_def Let_def)

lemma rounding_35: "toDouble (3 / 10) = Fin (5404319552844595 / 18014398509481984)"
  using toDouble_normal [of "- 2" "3 / 10" 5404319552844595]
  by (simp add: roundHalfEven_def Let_def)

lemma rounding_36:
  "toDouble (5404319552844595 / 18014398509481984) =
     Fin (5404319552844595 / 18014398509481984)"
  using toDouble_normal [of "- 2" "5404319552844595 / 18014398509481984" 5404319552844595]
  by (simp add: roundHalfEven_def Let_def)

lemma rounding_37:
  "toDouble (10808639105689190 / 3602879701896397) =
     Fin (6755399441055743 / 2251799813685248)"
  using toDouble_normal [of "1" "10808639105689190 / 3602879701896397" 6755399441055743]
  by (simp add: roundHalfEven_def Let_def)

lemma rounding_38:
  "toDouble (3602879701896396 / 3602879701896397) =
     Fin (4503599627370495 / 4503599627370496)"
  using toDouble_normal [of "- 1" "3602879701896396 / 3602879701896397" 9007199254740990]
  by (simp add: roundHalfEven_def Let_def)

lemma rounding_39:
  "toDouble (67553994410557425 / 1125899906842624) =
     Fin (4222124650659839 / 70368744177664)"
  using toDouble_normal [of "5" "67553994410557425 / 1125899906842624" 8444249301319678]
  by (simp add: roundHalfEven_def Let_def)

lemma rounding_40:
  "toDouble (5629499534213119 / 70368744177664) =
     Fin (5629499534213119 / 70368744177664)"
  using toDouble_normal [of "6" "5629499534213119 / 70368744177664" 5629499534213119]
  by (simp add: roundHalfEven_def Let_def)

lemma rounding_41: "toDouble (7 / 10) = Fin (3152519739159347 / 4503599627370496)"
  using toDouble_normal [of "- 1" "7 / 10" 6305039478318694]
  by (simp add: roundHalfEven_def Let_def)

lemma rounding_42: "toDouble (14 / 5) = Fin (3152519739159347 / 1125899906842624)"
  using toDouble_normal [of "1" "14 / 5" 6305039478318694]
  by (simp add: roundHalfEven_def Let_def)

lemma rounding_43:
  "toDouble (9457559217478041 / 4503599627370496) =
     Fin (1182194902184755 / 562949953421312)"
  using toDouble_normal [of "1" "9457559217478041 / 4503599627370496" 4728779608739020]
  by (simp add: roundHalfEven_def Let_def)

lemma rounding_44:
  "toDouble (9457559217478040 / 3152519739159347) =
     Fin (6755399441055743 / 2251799813685248)"
  using toDouble_normal [of "1" "9457559217478040 / 3152519739159347" 6755399441055743]
  by (simp add: roundHalfEven_def Let_def)

lemma rounding_45:
  "toDouble (3152519739159346 / 3152519739159347) =
     Fin (9007199254740989 / 9007199254740992)"
  using toDouble_normal [of "- 1" "3152519739159346 / 3152519739159347" 9007199254740989]
  by (simp add: roundHalfEven_def Let_def)

lemma rounding_46: "toDouble (1 / 5) = Fin (3602879701896397 / 18014398509481984)"
  using toDouble_normal [of "- 3" "1 / 5" 7205759403792794]
  by (simp add: roundHalfEven_def Let_def)

lemma rounding_47:
  "toDouble (7205759403792795 / 36028797018963968) =
     Fin (7205759403792795 / 36028797018963968)"
  using toDouble_normal [of "- 3" "7205759403792795 / 36028797018963968" 7205759403792795]
  by (simp add: roundHalfEven_def Let_def)

lemma rounding_48:
  "toDouble (3602879701896397 / 18014398509481984) =
     Fin (3602879701896397 / 18014398509481984)"
  using toDouble_normal [of "- 3" "3602879701896397 / 18014398509481984" 7205759403792794]
  by (simp add: roundHalfEven_def Let_def)

lemmas roundings = rounding_1 rounding_2 rounding_3 rounding_4 rounding_5 rounding_6
  rounding_7 rounding_8 rounding_9 rounding_10 rounding_11 rounding_12 rounding_13
  rounding_14 rounding_15 rounding_16 rounding_17 rounding_18 rounding_19 rounding_20
  rounding_21 rounding_22 rounding_23 rounding_24 rounding_25 rounding_26 rounding_27
  rounding_28 rounding_29 rounding_30 rounding_31 rounding_32 rounding_33 rounding_34
  rounding_35 rounding_36 rounding_37 rounding_38 rounding_39 rounding_40 rounding_41
  rounding_42 rounding_43 rounding_44 rounding_45 rounding_46 rounding_47 rounding_48

lemma parseFloat_examples:
  "parseFloat ''1.25'' = Fin 1.25 \<and> parseFloat ''.'' = NaN \<and> parseFloat ''20abc'' = Fin 20
   \<and> parseFloat ''0.1'' = Fin (3602879701896397 / 36028797018963968)"
  by (simp add: parseFloat_def unsignedDecimal_def startsWith_def isWhiteSpace_def isDigit_def
      digitsVal_def digitVal_def scale10_def jsnum_arith roundings)

text \<open>Sums and quotients of doubles are rounded: \<open>0.1 + 0.2\<close> and \<open>0.3 / 0.1\<close>.\<close>

lemma jsnum_rounding_examples:
  "toDouble 0.1 + toDouble 0.2 = Fin (1351079888211149 / 4503599627370496)
   \<and> toDouble 0.1 + toDouble 0.2 \<noteq> toDouble 0.3
   \<and> Math_floor (toDouble 0.3 / toDouble 0.1) = Fin 2"
  by (simp add: jsnum_arith roundings)

lemma parseTime_examples:
  "parseTime ''250ms'' = Fin 0.25 \<and> parseTime ''2m'' = Fin 120 \<and> parseTime ''1s'' = Fin 1
   \<and> parseTime ''abc'' = 0 \<and> parseTime ''.'' = NaN"
  by (simp add: parseTime_def parseFloat_def unsignedDecimal_def startsWith_def
      isWhiteSpace_def isDigit_def isDigitOrDot_def digitsVal_def digitVal_def scale10_def
      jsnum_arith)

lemma parseInt_examples:
  "parseInt ''3'' = Fin 3 \<and> parseInt ''infinite'' = NaN \<and> parseInt ''0x1f'' = Fin 31
   \<and> StringToNumber ''3'' = Fin 3 \<and> StringToNumber ''infinite'' = NaN
   \<and> StringToNumber ''[object Object]'' = NaN \<and> StringToNumber ''1e'' = NaN"
  by (simp add: parseInt_def StringToNumber_def unsignedDecimal_def startsWith_def
      isWhiteSpace_def isDigit_def isHexDigit_def hexVal_def radixVal_def digitsVal_def
      digitVal_def scale10_def jsnum_arith)

lemma bezierMatch_examples:
  "bezierMatch ''cubic-bezier(0.1, 0.2,0.3,  1)'' = Some (''0.1'', ''0.2'', ''0.3'', ''1'')
   \<and> bezierMatch ''cubic-bezier(0.1, 0.2,0.3)'' = None"
  by (simp add: bezierAt_def matchNumber_def commaNumber_def startsWith_def isDigitOrDot_def
      isDigit_def isWhiteSpace_def)

lemma jsnum_product_example: "toDouble 0.25 * toDouble 3 = Fin 0.75"
  by (simp add: jsnum_arith)

lemma jsnum_floor_mod_example: "Math_floor (Fin 1.25 / 1) = 1 \<and> (Fin 1.25 mod 1) / 1 = Fin 0.25"
  by (simp add: jsnum_arith)

lemma jsnum_special_values: "(0 :: jsnum) / 0 = NaN \<and> (1 :: jsnum) / 0 = PInf \<and> \<not> (NaN < (0::jsnum))"
  by (simp add: jsnum_arith)

section \<open>The cubic-bezier solver\<close>

text \<open>
  In exact arithmetic \<open>curve_poly\<close> is the Bezier coordinate in Bernstein form, which is 0
  at 0 and 1 at 1, and \<open>slope_poly\<close> is its derivative.
\<close>

lemma bezier_horner: "curve_poly 3 p1 p2 u = bezier p1 p2 u"
  by (simp add: curve_poly_def bezier_def power2_eq_square power3_eq_cube algebra_simps)

lemma bezier_ends: "bezier p1 p2 0 = 0" "bezier p1 p2 1 = 1"
  by (simp_all add: bezier_def)

lemma bezier_slope:
  "((\<lambda>u. bezier p1 p2 u) has_real_derivative slope_poly 2 3 p1 p2 u) (at u)"
  unfolding bezier_def slope_poly_def
  by (auto intro!: derivative_eq_intros simp: power2_eq_square algebra_simps)

text \<open>The loop of \<open>cubicBezier\<close> is the iteration of the specification.\<close>

lemma sampleCurve_spec:
  "sampleCurve (1 - toDouble 3 * p1 - (toDouble 3 * (p2 - p1) - toDouble 3 * p1))
     (toDouble 3 * (p2 - p1) - toDouble 3 * p1) (toDouble 3 * p1) u = spec_curve p1 p2 u"
  by (simp only: sampleCurve_def spec_curve_def curve_poly_def)

lemma newtonLoop_unfold:
  "newtonLoop (1 - toDouble 3 * x1 - (toDouble 3 * (x2 - x1) - toDouble 3 * x1))
     (toDouble 3 * (x2 - x1) - toDouble 3 * x1) (toDouble 3 * x1) t i x =
     (if i < 4 then
        (if spec_stops x1 x2 t x then x
         else newtonLoop (1 - toDouble 3 * x1 - (toDouble 3 * (x2 - x1) - toDouble 3 * x1))
                (toDouble 3 * (x2 - x1) - toDouble 3 * x1) (toDouble 3 * x1) t (Suc i)
                (spec_step x1 x2 t x))
      else x)"
  by (subst newtonLoop.simps)
     (auto simp: spec_stops_def spec_step_def spec_slope_def slope_poly_def sampleCurve_spec
        Let_def)

lemma newtonLoop_spec:
  "newtonLoop (1 - toDouble 3 * x1 - (toDouble 3 * (x2 - x1) - toDouble 3 * x1))
     (toDouble 3 * (x2 - x1) - toDouble 3 * x1) (toDouble 3 * x1) t 0 t =
   spec_iterate x1 x2 t (spec_stopIndex x1 x2 t)"
proof -
  let ?loop = "newtonLoop (1 - toDouble 3 * x1 - (toDouble 3 * (x2 - x1) - toDouble 3 * x1))
     (toDouble 3 * (x2 - x1) - toDouble 3 * x1) (toDouble 3 * x1) t"
  have l4: "?loop (Suc (Suc (Suc (Suc 0)))) x = x" for x
    by (subst newtonLoop_unfold) simp
  have l3: "?loop (Suc (Suc (Suc 0))) x =
      (if spec_stops x1 x2 t x then x else spec_step x1 x2 t x)" for x
    by (subst newtonLoop_unfold) (simp add: l4)
  have l2: "?loop (Suc (Suc 0)) x =
      (if spec_stops x1 x2 t x then x
       else ?loop (Suc (Suc (Suc 0))) (spec_step x1 x2 t x))" for x
    by (subst newtonLoop_unfold) simp
  have l1: "?loop (Suc 0) x =
      (if spec_stops x1 x2 t x then x
       else ?loop (Suc (Suc 0)) (spec_step x1 x2 t x))" for x
    by (subst newtonLoop_unfold) simp
  have l0: "?loop 0 x =
      (if spec_stops x1 x2 t x then x
       else ?loop (Suc 0) (spec_step x1 x2 t x))" for x
    by (subst newtonLoop_unfold) simp
  show ?thesis
    by (simp add: l0 l1 l2 l3 spec_stopIndex_def spec_iterate_def eval_nat_numeral)
qed

lemma cubicBezier_spec: "cubicBezier x1 y1 x2 y2 t = spec_cubicBezier x1 y1 x2 y2 t"
  by (simp only: cubicBezier_def Let_def newtonLoop_spec sampleCurve_spec spec_cubicBezier_def)

lemma spec_stopIndex_le: "spec_stopIndex x1 x2 t \<le> 4"
  unfolding spec_stopIndex_def
  using length_takeWhile_le [of _ "[0, 1, 2, 3::nat]"] by simp

text \<open>The fixed points of the curve \<open>ease\<close>, \<open>cubic-bezier(0.25, 0.1, 0.25, 1)\<close>.\<close>

lemma ease_fixed_points:
  "cubicBezier (toDouble 0.25) (toDouble 0.1) (toDouble 0.25) 1 0 = 0
   \<and> cubicBezier (toDouble 0.25) (toDouble 0.1) (toDouble 0.25) 1 1 = 1"
  by (simp add: cubicBezier_def sampleCurve_def newtonLoop.simps Let_def jsnum_arith
      toDouble_minus roundings)

text \<open>
  At \<open>t = 0.1\<close> the curve \<open>ease\<close> takes one Newton step: the seed does not stop the
  iteration, the first iterate does. The value is 0.09326250000000004.
\<close>

lemma ease_tenth:
  "spec_stopIndex (toDouble 0.25) (toDouble 0.25) (toDouble 0.1) = 1
   \<and> cubicBezier (toDouble 0.25) (toDouble 0.1) (toDouble 0.25) 1 (toDouble 0.1) =
       Fin (6720271363962257 / 72057594037927936)"
  by (simp add: cubicBezier_def sampleCurve_def newtonLoop.simps Let_def jsnum_arith
      toDouble_minus roundings spec_stopIndex_def spec_stops_def spec_iterate_def
      spec_step_def spec_curve_def spec_slope_def curve_poly_def slope_poly_def)

text \<open>
  C7. \<open>cubicBezier(x1, y1, x2, y2, t)\<close> is the Y coordinate of the Bezier curve at the
  parameter that the Newton-Raphson iteration on the X coordinate reaches from the seed
  \<open>x = t\<close>: the iteration takes at most 4 steps and ends at the first iterate where
  \<open>|sampleX(x) - t| < 0.001\<close> or where the slope has magnitude below \<open>0.00001\<close>. For the
  control points (0.25, 0.1, 0.25, 1) the value at \<open>t = 0\<close> is 0 and the value at
  \<open>t = 1\<close> is 1, exactly, in double arithmetic.
\<close>

theorem C7_cubicBezier_newton:
  "cubicBezier x1 y1 x2 y2 t = spec_cubicBezier x1 y1 x2 y2 t
   \<and> spec_stopIndex x1 x2 t \<le> 4
   \<and> cubicBezier (toDouble 0.25) (toDouble 0.1) (toDouble 0.25) 1 0 = 0
   \<and> cubicBezier (toDouble 0.25) (toDouble 0.1) (toDouble 0.25) 1 1 = 1"
  using cubicBezier_spec [of x1 y1 x2 y2 t] spec_stopIndex_le [of x1 x2 t] ease_fixed_points
  by simp

section \<open>Easing names\<close>

lemma startsWith_set: "startsWith s p \<Longrightarrow> set p \<subseteq> set s"
  by (metis startsWith_def set_take_subset)

lemma bezierMatch_needs_paren: "CHR ''('' \<notin> set s \<Longrightarrow> bezierMatch s = None"
proof (induction s)
  case Nil
  show ?case by simp
next
  case (Cons c s)
  have "\<not> startsWith (c # s) ''cubic-bezier(''"
  proof
    assume "startsWith (c # s) ''cubic-bezier(''"
    then have "set ''cubic-bezier('' \<subseteq> set (c # s)"
      by (rule startsWith_set)
    then have "CHR ''('' \<in> set (c # s)"
      by auto
    with Cons.prems show False by simp
  qed
  then have "bezierAt (c # s) = None"
    by (simp add: bezierAt_def)
  with Cons show ?case by simp
qed

text \<open>
  The fallback of \<open>applyEasing\<close> where it does hold: a name that is neither an own property
  of \<open>easings\<close> nor a property of \<open>Object.prototype\<close>, and in which the pattern of
  \<open>cubic-bezier\<close> is not found, leaves \<open>t\<close> as it is.
\<close>

lemma applyEasing_fallback:
  assumes "name \<notin> set [''linear'', ''ease'', ''ease-in'', ''ease-out'', ''ease-in-out'',
                        ''bounce'', ''elastic'']"
    and "callInherited name t = None"
    and "bezierMatch name = None"
  shows "applyEasing t name = Inr (Number t)"
  using assms by (simp add: applyEasing_def)

text \<open>
  C10. For every input fraction \<open>t\<close> and every easing name that is neither a named curve
  nor a parseable \<open>cubic-bezier(x1,y1,x2,y2)\<close> form, the easing application is to return
  \<open>t\<close> unchanged and never an error. The code does not: the names \<open>toString\<close> and
  \<open>__proto__\<close> are neither, and with them \<open>applyEasing(0.5, name)\<close> returns the text
  \<open>[object Object]\<close> and throws a \<open>TypeError\<close>.
\<close>

theorem C10_applyEasing_inherited_names:
  "applyEasing (Fin 0.5) ''toString'' = Inr (String ''[object Object]'')
   \<and> applyEasing (Fin 0.5) ''__proto__'' = Inl (TypeError ''easings[easing] is not a function'')
   \<and> bezierMatch ''toString'' = None
   \<and> bezierMatch ''__proto__'' = None"
  by (simp add: applyEasing_def callInherited_def bezierAt_def startsWith_def)

section \<open>Progress of a leaf\<close>

lemma withProgress_finished:
  "calculateProgress a time = Fin 2 \<Longrightarrow> withProgress h a time body s = resolveOnly h (target a) s"
  by (auto simp: withProgress_def resolveOnly_def jsnum_arith split: prod.splits sum.splits)

lemma calculateProgress_finished:
  assumes "\<not> time - start a < 0"
    and "ToNumber (repeat a) \<le> Math_floor ((time - start a) / duration a)"
  shows "calculateProgress a time = Fin 2"
  using assms by (simp add: calculateProgress_def jsnum_arith Let_def)

lemma elements_resolveOnly: "elements (snd (resolveOnly h selector s)) = elements s"
  by (auto simp: resolveOnly_def getTargets_def split: option.splits sum.splits)

text \<open>
  What holds of the guard of the leaf updates. Before its start a leaf has the sentinel
  \<open>-1\<close> and the update only resolves the targets. For a positive duration and a sample at
  or after the start, a leaf that is not finished has a progress within [0, 1], or \<open>NaN\<close>
  when the relative time is not finite, and never the sentinel 2; with \<open>reverse\<close> and an
  odd iteration the progress is \<open>1 - raw\<close>, as at 1.25 s of a reversing leaf of one second.
\<close>

lemma calculateProgress_not_started:
  assumes "time - start a < 0"
  shows "calculateProgress a time = - 1"
  using assms by (simp add: calculateProgress_def jsnum_arith Let_def)

lemma withProgress_not_started:
  "calculateProgress a time = - 1 \<Longrightarrow> withProgress h a time body s = resolveOnly h (target a) s"
  by (auto simp: withProgress_def resolveOnly_def jsnum_arith split: prod.splits sum.splits)

lemma remainder_fraction:
  fixes r d :: real
  assumes "0 \<le> r" "0 < d"
  shows "(r - d * real_of_int \<lfloor>r / d\<rfloor>) / d = frac (r / d)"
  using assms by (simp add: frac_def field_simps)

lemma calculateProgress_unit:
  assumes "duration a = Fin d" "0 < d" "time - start a = Fin r" "0 \<le> r"
    and "\<not> ToNumber (repeat a) \<le> Math_floor ((time - start a) / duration a)"
  shows "\<exists>p. calculateProgress a time = Fin p \<and> 0 \<le> p \<and> p \<le> 1"
proof -
  have q: "0 \<le> r / d"
    using assms by simp
  have f: "0 \<le> frac (r / d)" "frac (r / d) \<le> 1"
    using frac_lt_1 [of "r / d"] by simp_all
  obtain p where p: "toDouble (frac (r / d)) = Fin p" "0 \<le> p" "p \<le> 1"
    using toDouble_unit [OF f] by blast
  have m: "(Fin r mod Fin d) / Fin d = Fin p"
    using assms q remainder_fraction [of r d] p(1) by simp
  obtain p' where p': "toDouble (1 - p) = Fin p'" "0 \<le> p'" "p' \<le> 1"
    using toDouble_unit [of "1 - p"] p(2,3) by auto
  have rev: "1 - Fin p = Fin p'"
    using p'(1) by (simp add: one_jsnum_def minus_jsnum_def)
  have nn: "\<not> Fin r < 0"
    using assms(4) by (simp add: zero_jsnum_def)
  have "calculateProgress a time = Fin p \<or> calculateProgress a time = Fin p'"
    using assms(1,3,5) nn m rev by (simp add: calculateProgress_def Let_def)
  with p p' show ?thesis by auto
qed

lemma calculateProgress_unfinished:
  assumes "duration a = Fin d" "0 < d" "\<not> time - start a < 0"
    and "\<not> ToNumber (repeat a) \<le> Math_floor ((time - start a) / duration a)"
  shows "calculateProgress a time \<noteq> Fin 2"
proof (cases "time - start a")
  case (Fin r)
  then have "0 \<le> r"
    using assms(3) by (simp add: zero_jsnum_def)
  from calculateProgress_unit [OF assms(1,2) Fin this assms(4)]
  show ?thesis by auto
next
  case PInf
  then show ?thesis
    using assms by (simp add: calculateProgress_def Let_def zero_jsnum_def one_jsnum_def
        minus_jsnum_def)
next
  case NInf
  then show ?thesis
    using assms(3) by (simp add: zero_jsnum_def)
next
  case NaN
  then show ?thesis
    using assms by (simp add: calculateProgress_def Let_def zero_jsnum_def one_jsnum_def
        minus_jsnum_def)
qed

lemma calculateProgress_range:
  assumes "duration a = Fin d" "0 < d" "time - start a = Fin r" "0 \<le> r"
  shows "calculateProgress a time = Fin 2
    \<or> (\<exists>p. calculateProgress a time = Fin p \<and> 0 \<le> p \<and> p \<le> 1)"
proof (cases "ToNumber (repeat a) \<le> Math_floor ((time - start a) / duration a)")
  case True
  have "\<not> time - start a < 0"
    using assms(3,4) by (simp add: zero_jsnum_def)
  then show ?thesis
    using True calculateProgress_finished by blast
next
  case False
  then show ?thesis
    using calculateProgress_unit [OF assms] by blast
qed

text \<open>
  C1, as the code has it. For an \<open>animate\<close> leaf with a finite repeat count \<open>n\<close>, at a sample
  at or after its start, the leaf is finished when the iteration index that the code
  computes, \<open>floor((time - start) / duration)\<close> in double arithmetic, is at least \<open>n\<close>:
  then \<open>calculateProgress\<close> returns the sentinel 2, \<open>updateAnimate\<close> does nothing but
  resolve the targets, and no attribute is written, whatever the fill policy of the leaf.
  With a positive duration the leaf is finished only then: while the index is below \<open>n\<close>
  the progress is not the sentinel 2.
\<close>

theorem C1_finished_leaf_writes_nothing:
  fixes a :: animate
  assumes "ToNumber (repeat a) = Fin n"
    and "\<not> time - start a < 0"
  shows "(Fin n \<le> Math_floor ((time - start a) / duration a) \<longrightarrow>
            calculateProgress a time = Fin 2
            \<and> updateAnimate h a time s = resolveOnly h (target a) s
            \<and> elements (snd (updateAnimate h a time s)) = elements s)
    \<and> (duration a = Fin d \<and> 0 < d \<and> \<not> Fin n \<le> Math_floor ((time - start a) / duration a) \<longrightarrow>
            calculateProgress a time \<noteq> Fin 2)"
proof (intro conjI impI)
  assume idx: "Fin n \<le> Math_floor ((time - start a) / duration a)"
  show fin: "calculateProgress a time = Fin 2"
    using assms idx by (intro calculateProgress_finished) simp_all
  then show upd: "updateAnimate h a time s = resolveOnly h (target a) s"
    unfolding updateAnimate_def by (rule withProgress_finished)
  show "elements (snd (updateAnimate h a time s)) = elements s"
    unfolding upd by (rule elements_resolveOnly)
next
  assume c: "duration a = Fin d \<and> 0 < d
      \<and> \<not> Fin n \<le> Math_floor ((time - start a) / duration a)"
  then have c1: "duration a = Fin d" and c2: "0 < d"
    and c3: "\<not> Fin n \<le> Math_floor ((time - start a) / duration a)"
    by blast+
  have "\<not> ToNumber (repeat a) \<le> Math_floor ((time - start a) / duration a)"
    using c3 unfolding assms(1) .
  with c1 c2 assms(2) show "calculateProgress a time \<noteq> Fin 2"
    by (rule calculateProgress_unfinished)
qed

lemma freeze_leaf_parsed:
  "parseAnimate (radiusElement [(''duration'', ''1s''), (''fill'', ''freeze'')]) 0 =
     \<lparr> target = Some ''#circle'', start = Fin 0, duration = Fin 1, easing = ''linear'',
       repeat = Number (Fin 1), reverse = Boolean False, ident = None,
       attribute = Some ''r'', from_value = Some ''20'', to_value = Some ''80'',
       by_value = None, fill = ''freeze'' \<rparr>"
  by (simp add: radiusElement_def parse_defs jsnum_arith)

text \<open>
  The iteration index is the one of double arithmetic. The leaf \<open>tenthLeaf\<close> has a
  duration of 0.1 s and 3 repetitions; the tick at 300 ms (origin 0, rate 1) samples it at
  \<open>300 / 1000 * 1\<close>, where \<open>0.3 / 0.1\<close> is 2.9999999999999996: the index is 2, the leaf is
  not finished, and its progress is 0.9999999999999998.
\<close>

lemma tenthLeaf_parsed:
  "tenthLeaf =
     \<lparr> target = Some ''#circle'', start = Fin 0,
       duration = Fin (3602879701896397 / 36028797018963968), easing = ''linear'',
       repeat = Number (Fin 3), reverse = Boolean False, ident = None,
       attribute = Some ''r'', from_value = Some ''20'', to_value = Some ''80'',
       by_value = None, fill = ''none'' \<rparr>"
  by (simp add: tenthLeaf_def radiusElement_def parse_defs jsnum_arith roundings)

lemma tenthLeaf_at_boundary:
  "(Fin 300 - 0) / toDouble 1000 * 1 = Fin (5404319552844595 / 18014398509481984)
   \<and> Math_floor (((Fin 300 - 0) / toDouble 1000 * 1 - start tenthLeaf) / duration tenthLeaf)
       = Fin 2
   \<and> calculateProgress tenthLeaf ((Fin 300 - 0) / toDouble 1000 * 1) =
       Fin (4503599627370495 / 4503599627370496)"
  unfolding tenthLeaf_parsed
  by (simp add: calculateProgress_def Let_def jsnum_arith roundings)

text \<open>
  The same at the sample 2.8 s of the leaf \<open>lateLeaf\<close>, which lasts 0.7 s, starts at
  0.7 s and repeats 3 times: the quotient of the reals is 3, the quotient of the doubles
  is 2.9999999999999996, so the index is 2 and the progress 0.9999999999999997.
\<close>

lemma lateLeaf_parsed:
  "lateLeaf =
     \<lparr> target = Some ''#circle'', start = Fin (3152519739159347 / 4503599627370496),
       duration = Fin (3152519739159347 / 4503599627370496), easing = ''linear'',
       repeat = Number (Fin 3), reverse = Boolean False, ident = None,
       attribute = Some ''r'', from_value = Some ''20'', to_value = Some ''80'',
       by_value = None, fill = ''none'' \<rparr>"
  by (simp add: lateLeaf_def radiusElement_def parse_defs jsnum_arith roundings)

lemma lateLeaf_at_boundary:
  "Math_floor ((toDouble 2.8 - start lateLeaf) / duration lateLeaf) = Fin 2
   \<and> calculateProgress lateLeaf (toDouble 2.8) = Fin (9007199254740989 / 9007199254740992)"
  unfolding lateLeaf_parsed
  by (simp add: calculateProgress_def Let_def jsnum_arith roundings)

text \<open>
  Two instances: the leaf with \<open>fill = freeze\<close>, duration 1 s and repeat count 1, sampled
  at 2 s, has the index 2 and is finished; the leaf \<open>tenthLeaf\<close> at the tick of 300 ms
  has the index 2, below its repeat count 3, and is not finished.
\<close>

theorem C1_finished_leaf_witness:
  "calculateProgress
     (parseAnimate (radiusElement [(''duration'', ''1s''), (''fill'', ''freeze'')]) 0) (Fin 2)
     = Fin 2
   \<and> elements (snd (updateAnimate demoHost
        (parseAnimate (radiusElement [(''duration'', ''1s''), (''fill'', ''freeze'')]) 0)
        (Fin 2) demoEngine)) = elements demoEngine
   \<and> Math_floor (((Fin 300 - 0) / toDouble 1000 * 1 - start tenthLeaf) / duration tenthLeaf)
       = Fin 2
   \<and> calculateProgress tenthLeaf ((Fin 300 - 0) / toDouble 1000 * 1) \<noteq> Fin 2"
  using C1_finished_leaf_writes_nothing
    [of "parseAnimate (radiusElement [(''duration'', ''1s''), (''fill'', ''freeze'')]) 0"
        1 "Fin 2" demoHost demoEngine 1]
    C1_finished_leaf_writes_nothing
    [of tenthLeaf 3 "(Fin 300 - 0) / toDouble 1000 * 1" demoHost demoEngine
        "3602879701896397 / 36028797018963968"]
  unfolding freeze_leaf_parsed tenthLeaf_parsed
  by (simp add: jsnum_arith roundings elements_resolveOnly)

text \<open>
  The claim C1 fails for the fill policy \<open>freeze\<close>: the leaf below has \<open>fill = freeze\<close>,
  duration 1s and repeat count 1; at time 2 it is finished, and the sample leaves the
  radius at 20 instead of writing the final value 80.
\<close>

theorem C1_freeze_counterexample:
  "fill (parseAnimate (radiusElement [(''duration'', ''1s''), (''fill'', ''freeze'')]) 0) = ''freeze''
   \<and> elements (snd (updateAnimate demoHost
        (parseAnimate (radiusElement [(''duration'', ''1s''), (''fill'', ''freeze'')]) 0)
        (Fin 2) demoEngine)) 1 ''r'' = Some ''20''"
  unfolding freeze_leaf_parsed
  by (simp add: update_defs demo_defs jsnum_arith)

lemma calculateProgress_zero_duration:
  assumes "duration a = 0" "0 < time - start a" "ToNumber (repeat a) \<noteq> NaN"
  shows "calculateProgress a time = Fin 2"
proof -
  have nn: "\<not> time - start a < 0"
    using assms(2) by (cases "time - start a") (simp_all add: zero_jsnum_def)
  have "(time - start a) / duration a = PInf"
    using assms(1,2) by (cases "time - start a") (simp_all add: zero_jsnum_def)
  then have "ToNumber (repeat a) \<le> Math_floor ((time - start a) / duration a)"
    using assms(3) by (cases "ToNumber (repeat a)") simp_all
  with nn show ?thesis
    by (rule calculateProgress_finished)
qed

text \<open>The difference of two doubles has the sign of their order: it does not round to 0.\<close>

lemma double_minus_pos:
  assumes "isDouble st" "isDouble t" "st < t"
  shows "0 < Fin t - Fin st"
proof -
  have "2 powi (- 1074) \<le> t - st"
    using assms by (rule double_diff)
  then have "toDouble (t - st) = PInf
      \<or> (\<exists>y. toDouble (t - st) = Fin y \<and> 2 powi (- 1074) \<le> y)"
    by (rule toDouble_pos)
  moreover have "(0::real) < 2 powi (- 1074)"
    by (rule zero_less_power_int) simp
  ultimately have "0 < toDouble (t - st)"
    by (auto simp: zero_jsnum_def)
  then show ?thesis
    by (simp add: minus_jsnum_def)
qed

text \<open>
  C2, as the code has it. For an \<open>animate\<close> leaf whose duration is 0 and whose repeat count
  is a number, at a sample time after its start the quotient \<open>relative / 0\<close> is
  \<open>+Infinity\<close>, so the leaf is finished: \<open>calculateProgress\<close> returns the sentinel 2,
  \<open>updateAnimate\<close> does nothing but resolve the targets, and no attribute is written. The
  start and the sample time are doubles.
\<close>

theorem C2_zero_duration_finished:
  fixes a :: animate
  assumes "duration a = 0" "start a = Fin st" "st < t" "ToNumber (repeat a) \<noteq> NaN"
    and "isDouble st" "isDouble t"
  shows "calculateProgress a (Fin t) = Fin 2
    \<and> updateAnimate h a (Fin t) s = resolveOnly h (target a) s
    \<and> elements (snd (updateAnimate h a (Fin t) s)) = elements s"
proof -
  have "0 < Fin t - start a"
    using assms by (simp add: double_minus_pos)
  then have fin: "calculateProgress a (Fin t) = Fin 2"
    using assms(1,4) by (intro calculateProgress_zero_duration)
  then have "updateAnimate h a (Fin t) s = resolveOnly h (target a) s"
    unfolding updateAnimate_def by (rule withProgress_finished)
  with fin show ?thesis
    by (simp add: elements_resolveOnly)
qed

lemma zero_leaf_parsed:
  "parseAnimate (radiusElement []) 0 =
     \<lparr> target = Some ''#circle'', start = Fin 0, duration = Fin 0, easing = ''linear'',
       repeat = Number (Fin 1), reverse = Boolean False, ident = None,
       attribute = Some ''r'', from_value = Some ''20'', to_value = Some ''80'',
       by_value = None, fill = ''none'' \<rparr>"
  by (simp add: radiusElement_def parse_defs jsnum_arith)

theorem C2_zero_duration_witness:
  "calculateProgress (parseAnimate (radiusElement []) 0) (Fin 1) = Fin 2
   \<and> elements (snd (updateAnimate demoHost (parseAnimate (radiusElement []) 0) (Fin 1)
        demoEngine)) = elements demoEngine"
  using C2_zero_duration_finished [of "parseAnimate (radiusElement []) 0" 0 1 demoHost demoEngine]
  unfolding zero_leaf_parsed
  by (simp add: elements_resolveOnly jsnum_arith isDouble_def)

text \<open>
  The claim C2 fails: the leaf below has no \<open>duration\<close> attribute, so its duration is 0;
  at time 1, after its start, the progress is the sentinel 2 and not 1, and the radius
  stays 20 instead of taking the value 80 of progress 1.
\<close>

theorem C2_zero_duration_counterexample:
  "duration (parseAnimate (radiusElement []) 0) = 0
   \<and> calculateProgress (parseAnimate (radiusElement []) 0) (Fin 1) = Fin 2
   \<and> elements (snd (updateAnimate demoHost (parseAnimate (radiusElement []) 0) (Fin 1)
        demoEngine)) 1 ''r'' = Some ''20''"
  unfolding zero_leaf_parsed
  by (simp add: update_defs demo_defs jsnum_arith)

lemma reverse_parity_example:
  "calculateProgress
     (parseAnimate (radiusElement [(''duration'', ''1s''), (''reverse'', ''true''),
        (''repeat'', ''infinite'')]) 0) (Fin 1.25) = Fin 0.75"
  by (simp add: radiusElement_def parse_defs calculateProgress_def Let_def jsnum_arith)

text \<open>
  C8. For every leaf, a sample before its start writes nothing, and whenever interpolation
  is performed the progress passed into the easing lies within [0, 1]. The code breaks the
  second part: the leaf below has no \<open>duration\<close> attribute (duration 0) and starts at 0;
  sampled at time 0 its progress is \<open>0 / 0 = NaN\<close>, which is neither below 0 nor above 1,
  so it passes the guard of \<open>updateAnimate\<close>, goes through the easing, and the radius is
  written as \<open>NaN\<close>.
\<close>

theorem C8_nan_progress_is_interpolated:
  "calculateProgress (parseAnimate (radiusElement []) 0) 0 = NaN
   \<and> (NaN < (0 :: jsnum)) = False
   \<and> ((1 :: jsnum) < NaN) = False
   \<and> applyEasing NaN (easing (parseAnimate (radiusElement []) 0)) = Inr (Number NaN)
   \<and> updateAnimate demoHost (parseAnimate (radiusElement []) 0) 0 demoEngine =
       (None, demoEngine\<lparr>targetCache := [''#circle'' \<mapsto> [1]],
          elements := (elements demoEngine)(1 := [''r'' \<mapsto> ''NaN''])\<rparr>)"
  unfolding zero_leaf_parsed
  by (simp add: update_defs demo_defs parse_defs jsnum_arith)

section \<open>What a sample leaves unchanged\<close>

lemma sampled_refl: "sampled s s"
  unfolding sampled_def
  by (rule exI [of _ "targetCache s"], rule exI [of _ "elements s"]) simp

lemma sampled_trans:
  assumes "sampled s s1" "sampled s1 s2"
  shows "sampled s s2"
proof -
  from assms(1) obtain c e where 1: "s1 = s\<lparr>targetCache := c, elements := e\<rparr>"
    and c: "targetCache s \<subseteq>\<^sub>m c"
    unfolding sampled_def by blast
  from assms(2) obtain c' e' where 2: "s2 = s1\<lparr>targetCache := c', elements := e'\<rparr>"
    and c': "targetCache s1 \<subseteq>\<^sub>m c'"
    unfolding sampled_def by blast
  have "s2 = s\<lparr>targetCache := c', elements := e'\<rparr>"
    using 1 2 by simp
  moreover have "targetCache s \<subseteq>\<^sub>m c'"
    using c c' 1 by (auto intro: map_le_trans)
  ultimately show ?thesis
    unfolding sampled_def by blast
qed

lemma sampled_getTargets: "sampled s (snd (getTargets h selector s))"
proof -
  have "sampled s (s\<lparr>targetCache := (targetCache s)(sel \<mapsto> ts)\<rparr>)"
    if "targetCache s sel = None" for sel ts
    unfolding sampled_def using that
    by (intro exI [of _ "(targetCache s)(sel \<mapsto> ts)"] exI [of _ "elements s"])
       (auto simp: map_le_def)
  then show ?thesis
    by (auto simp: getTargets_def sampled_refl split: option.splits sum.splits)
qed

lemma sampled_setAttribute: "sampled s (snd (setAttribute h node name val s))"
proof (cases "validName h name")
  case True
  then show ?thesis
    unfolding sampled_def setAttribute_def
    by (auto intro!: exI [of _ "targetCache s"])
next
  case False
  then show ?thesis
    by (simp add: setAttribute_def sampled_refl)
qed

lemma sampled_forEach:
  assumes "\<And>x s. sampled s (snd (f x s))"
  shows "sampled s (snd (forEach f xs s))"
proof (induction xs arbitrary: s)
  case Nil
  show ?case by (simp add: sampled_refl)
next
  case (Cons x xs)
  show ?case
  proof (cases "f x s")
    case (Pair r s')
    then have step: "sampled s s'"
      using assms [of s x] by simp
    show ?thesis
    proof (cases r)
      case None
      with Pair step Cons.IH [of s'] show ?thesis
        by (auto intro: sampled_trans)
    next
      case (Some e)
      with Pair step show ?thesis by simp
    qed
  qed
qed

lemma sampled_withProgress:
  assumes "\<And>targets eased s. sampled s (snd (body targets eased s))"
  shows "sampled s (snd (withProgress h a time body s))"
proof (cases "getTargets h (target a) s")
  case (Pair r s1)
  then have s1: "sampled s s1"
    using sampled_getTargets [of s h "target a"] by simp
  show ?thesis
    using Pair s1 assms
    by (auto simp: withProgress_def Let_def split: sum.splits intro: sampled_trans)
qed

lemma sampled_updateAnimate: "sampled s (snd (updateAnimate h a time s))"
  unfolding updateAnimate_def
  by (intro sampled_withProgress sampled_forEach) (simp add: Let_def sampled_setAttribute)

lemma sampled_updateAnimateTransform: "sampled s (snd (updateAnimateTransform h a time s))"
  unfolding updateAnimateTransform_def
  by (intro sampled_withProgress sampled_forEach)
     (auto simp: Let_def sampled_setAttribute sampled_refl split: sum.splits)

lemma sampled_updateAnimatePath: "sampled s (snd (updateAnimatePath h a time s))"
  unfolding updateAnimatePath_def
  by (intro sampled_withProgress)
     (auto simp: Let_def sampled_setAttribute sampled_refl sampled_forEach
           split: sum.splits option.splits)

lemma sampled_updateAnimateColor: "sampled s (snd (updateAnimateColor h a time s))"
  unfolding updateAnimateColor_def
  by (intro sampled_withProgress)
     (auto simp: Let_def sampled_setAttribute sampled_refl sampled_forEach
           split: sum.splits option.splits)

lemma sampled_updateMorph: "sampled s (snd (updateMorph h a time s))"
  unfolding updateMorph_def
  by (intro sampled_withProgress)
     (auto simp: Let_def sampled_setAttribute sampled_refl
           intro!: sampled_forEach split: sum.splits option.splits)

lemma sampled_updateAnim:
  "sampled s (snd (updateAnim h time a parentTime s))"
  "sampled s (snd (updateList h time as parentTime s))"
proof (induction h time a parentTime s and h time as parentTime s
       rule: updateAnim_updateList.induct)
  case (10 h time child rest parentTime s)
  show ?case
  proof (cases "updateAnim h time child parentTime s")
    case (Pair r s')
    then have step: "sampled s s'"
      using "10.IH"(1) by simp
    show ?thesis
    proof (cases r)
      case None
      with Pair step "10.IH"(2) show ?thesis
        by (auto intro: sampled_trans)
    next
      case (Some e)
      with Pair step show ?thesis by simp
    qed
  qed
qed (simp_all add: sampled_updateAnimate sampled_updateAnimateTransform
       sampled_updateAnimatePath sampled_updateAnimateColor sampled_updateMorph sampled_refl)

lemma sampled_updateAnimations: "sampled s (snd (updateAnimations h time s))"
  by (auto simp: updateAnimations_def sampled_updateAnim sampled_refl split: option.splits)


lemma sampled_fields:
  assumes "sampled s s'"
  shows "playing s' = playing s" "options_loop s' = options_loop s"
    "playbackRate s' = playbackRate s" "currentTime s' = currentTime s"
    "startTime s' = startTime s" "events s' = events s"
    "pendingFrames s' = pendingFrames s" "animationFrame s' = animationFrame s"
    "frameCounter s' = frameCounter s" "state_duration s' = state_duration s"
    "timeline s' = timeline s" "svgContent s' = svgContent s"
    "targetCache s \<subseteq>\<^sub>m targetCache s'"
  using assms unfolding sampled_def by auto

lemma sampled_eq:
  "sampled s s' \<Longrightarrow> s' = s\<lparr>targetCache := targetCache s', elements := elements s'\<rparr>"
  unfolding sampled_def by auto

text \<open>The outcome of \<open>seek\<close> in terms of the sample it runs.\<close>

lemma seek_outcome:
  assumes "c = Math_max 0 (Math_min time (state_duration s))"
    and "s2 = s\<lparr>currentTime := c, startTime := now - c * toDouble 1000\<rparr>"
    and "u = updateAnimations h c s2"
  shows "seek h now time s =
     (fst u,
      s\<lparr>currentTime := c, startTime := now - c * toDouble 1000,
        targetCache := targetCache (snd u), elements := elements (snd u),
        events := (if fst u = None then events s @ [(''seek'', TimeDetail c)] else events s)\<rparr>)"
    and "targetCache s \<subseteq>\<^sub>m targetCache (snd u)"
proof -
  obtain r s3 where u: "u = (r, s3)"
    by (cases u)
  have u': "updateAnimations h c s2 = (r, s3)"
    using assms(3) u by simp
  have smp: "sampled s2 s3"
    using sampled_updateAnimations [of s2 h c] u' by simp
  then have s3: "s3 = s2\<lparr>targetCache := targetCache s3, elements := elements s3\<rparr>"
    by (rule sampled_eq)
  have ct: "currentTime s3 = c"
    using sampled_fields(4) [OF smp] assms(2) by simp
  have seek: "seek h now time s =
      (case r of None \<Rightarrow> (None, emit ''seek'' (TimeDetail (currentTime s3)) s3)
       | Some e \<Rightarrow> (Some e, s3))"
    using u' assms(1,2) by (simp add: seek_def Let_def split: option.splits)
  show "seek h now time s =
     (fst u,
      s\<lparr>currentTime := c, startTime := now - c * toDouble 1000,
        targetCache := targetCache (snd u), elements := elements (snd u),
        events := (if fst u = None then events s @ [(''seek'', TimeDetail c)] else events s)\<rparr>)"
    unfolding seek u
    by (cases r) (subst s3, simp add: emit_def assms(2) ct)+
  show "targetCache s \<subseteq>\<^sub>m targetCache (snd u)"
    using sampled_fields(13) [OF smp] assms(2) u by simp
qed

text \<open>
  C9, as the code has it. \<open>seek(t)\<close> sets \<open>currentTime\<close> to the clamped time \<open>c\<close> and the
  clock origin to \<open>now - c * 1000\<close>, and samples the timeline at \<open>c\<close>. It never changes the
  playing flag, the loop option or the playback rate: the engine after \<open>seek\<close> is the
  engine before it except for \<open>currentTime\<close>, the clock origin, the attribute values and
  the target cache as the sample leaves them (the cache keeps the entries it had), and
  the record of events. When the sample returns, \<open>seek\<close> returns and has emitted the
  event \<open>seek\<close> with the time \<open>c\<close>, and nothing else; when the sample throws, \<open>seek\<close> throws
  the same exception and has emitted nothing.
\<close>

theorem C9_seek_frame:
  "(let c = Math_max 0 (Math_min time (state_duration s));
        u = updateAnimations h c (s\<lparr>currentTime := c, startTime := now - c * toDouble 1000\<rparr>)
    in seek h now time s =
         (fst u,
          s\<lparr>currentTime := c, startTime := now - c * toDouble 1000,
            targetCache := targetCache (snd u), elements := elements (snd u),
            events := (if fst u = None then events s @ [(''seek'', TimeDetail c)]
                       else events s)\<rparr>)
       \<and> targetCache s \<subseteq>\<^sub>m targetCache (snd u))
   \<and> playing (snd (seek h now time s)) = playing s
   \<and> options_loop (snd (seek h now time s)) = options_loop s
   \<and> playbackRate (snd (seek h now time s)) = playbackRate s"
proof -
  define c where "c = Math_max 0 (Math_min time (state_duration s))"
  define u where
    "u = updateAnimations h c (s\<lparr>currentTime := c, startTime := now - c * toDouble 1000\<rparr>)"
  note o = seek_outcome [OF c_def refl u_def]
  show ?thesis
    unfolding Let_def c_def [symmetric] u_def [symmetric]
    using o(2) by (simp add: o(1))
qed

lemma radiusLeaf_parsed:
  "radiusLeaf =
     \<lparr> target = Some ''#circle'', start = Fin 0, duration = Fin 1, easing = ''linear'',
       repeat = Number (Fin 1), reverse = Boolean False, ident = None,
       attribute = Some ''r'', from_value = Some ''20'', to_value = Some ''80'',
       by_value = None, fill = ''none'' \<rparr>"
  by (simp add: radiusLeaf_def radiusElement_def parse_defs jsnum_arith)

lemma radiusLeaf_at_0:
  "updateAnimate demoHost radiusLeaf (Fin 0) (demoEngine\<lparr>timeline := Some [Animate radiusLeaf]\<rparr>) =
     (None, demoEngine\<lparr>timeline := Some [Animate radiusLeaf],
        targetCache := [''#circle'' \<mapsto> [1]],
        elements := (elements demoEngine)(1 := [''r'' \<mapsto> ''20''])\<rparr>)"
  apply (simp only: radiusLeaf_parsed)
  apply (simp add: update_defs demo_defs parse_defs jsnum_arith natToString.simps char_of_def bit_0)
  done


text \<open>
  The claim C9 says that only \<open>currentTime\<close>, the clock origin and the attribute values
  are mutated. On an engine whose timeline holds the radius animation and whose target
  cache is empty, \<open>seek(0)\<close> also fills the cache entry of \<open>#circle\<close>.
\<close>

theorem C9_seek_fills_cache_counterexample:
  "targetCache (demoEngine\<lparr>timeline := Some [Animate radiusLeaf]\<rparr>) ''#circle'' = None
   \<and> targetCache (snd (seek demoHost 0 0 (demoEngine\<lparr>timeline := Some [Animate radiusLeaf]\<rparr>)))
        ''#circle'' = Some [1]"
proof -
  have e: "demoEngine\<lparr>timeline := Some [Animate radiusLeaf], currentTime := Fin 0,
      startTime := Fin 0\<rparr> = demoEngine\<lparr>timeline := Some [Animate radiusLeaf]\<rparr>"
    by (simp add: demoEngine_def jsnum_arith)
  have d: "state_duration demoEngine = Fin 10" "svgContent demoEngine = Some demoDocument"
    "targetCache demoEngine = Map.empty" "currentTime demoEngine = Fin 0"
    by (simp_all add: demoEngine_def jsnum_arith)
  have "seek demoHost 0 0 (demoEngine\<lparr>timeline := Some [Animate radiusLeaf]\<rparr>) =
     (None, emit ''seek'' (TimeDetail (Fin 0))
        (demoEngine\<lparr>timeline := Some [Animate radiusLeaf],
          targetCache := [''#circle'' \<mapsto> [1]],
          elements := (elements demoEngine)(1 := [''r'' \<mapsto> ''20''])\<rparr>))"
    by (simp add: seek_def updateAnimations_def d e jsnum_arith radiusLeaf_at_0)
  then show ?thesis
    by (simp add: emit_def d)
qed

section \<open>Ticks\<close>

lemma sampleAndSchedule_throws:
  assumes "updateAnimations h (currentTime s) s = (Some e, s')"
  shows "sampleAndSchedule h s = (Some e, s')" "sampled s s'"
  using assms sampled_updateAnimations [of s h "currentTime s"]
  by (simp_all add: sampleAndSchedule_def)

lemma sampleAndSchedule_currentTime:
  "currentTime (snd (sampleAndSchedule h s)) = currentTime s"
proof -
  obtain r s' where u: "updateAnimations h (currentTime s) s = (r, s')"
    by (cases "updateAnimations h (currentTime s) s")
  then have "sampled s s'"
    using sampled_updateAnimations [of s h "currentTime s"] by simp
  then have "currentTime s' = currentTime s"
    by (rule sampled_fields)
  with u show ?thesis
    by (cases r) (simp_all add: sampleAndSchedule_def requestAnimationFrame_def emit_def)
qed

text \<open>
  C5, as the code has it. \<open>animate\<close> has no handler. On a playing engine, a tick that
  reaches the update (the end of the timeline is not reached, or the loop option is set)
  samples the engine \<open>s2\<close>: the engine with \<open>currentTime\<close> set to the elapsed time, or
  rewound when the end is reached. When that update of the timeline throws an exception
  \<open>e\<close>, whatever its kind, \<open>animate\<close> throws \<open>e\<close> (it is the first component of the
  outcome) and leaves the engine as the update left it: no event is emitted, so no
  \<open>error\<close> event either, \<open>playing\<close> stays true, and the tick schedules no further frame,
  since \<open>requestAnimationFrame\<close> comes after the update.
\<close>

theorem C5_tick_exception_propagates:
  assumes "playing s"
    and "elapsed = (now - startTime s) / toDouble 1000 * playbackRate s"
    and "state_duration s \<le> elapsed \<longrightarrow> options_loop s"
    and "s2 = (if state_duration s \<le> elapsed then s\<lparr>currentTime := 0, startTime := now\<rparr>
               else s\<lparr>currentTime := elapsed\<rparr>)"
    and "updateAnimations h (currentTime s2) s2 = (Some e, s3)"
  shows "animate h now s = (Some e, s3)
    \<and> playing s3
    \<and> events s3 = events s
    \<and> pendingFrames s3 = pendingFrames s
    \<and> animationFrame s3 = animationFrame s"
proof -
  have a: "animate h now s = sampleAndSchedule h s2"
    using assms(1-4) by (auto simp: animate_def Let_def)
  note t = sampleAndSchedule_throws [OF assms(5)]
  have "playing s3 = playing s2" "events s3 = events s2"
    "pendingFrames s3 = pendingFrames s2" "animationFrame s3 = animationFrame s2"
    using t(2) by (rule sampled_fields)+
  then show ?thesis
    using a t(1) assms(1,4) by simp
qed

lemma spinLeaf_parsed:
  "parseAnimateTransform spinElement 0 =
     \<lparr> target = Some ''#circle'', start = Fin 0, duration = Fin 1, easing = ''linear'',
       repeat = String ''1'', reverse = Boolean False, ident = None,
       transformType = Some ''rotate'', transform_from = None, transform_to = Some ''360'',
       additive = ''replace'' \<rparr>"
  by (simp add: spinElement_def parseAnimateTransform_def parse_defs jsnum_arith)

lemma demoEngine_fields:
  "state_duration demoEngine = Fin 10" "svgContent demoEngine = Some demoDocument"
  "targetCache demoEngine = Map.empty" "currentTime demoEngine = Fin 0"
  "startTime demoEngine = Fin 0" "playbackRate demoEngine = Fin 1"
  "options_loop demoEngine = False" "events demoEngine = []" "timeline demoEngine = None"
  "pendingFrames demoEngine = []" "animationFrame demoEngine = None"
  "playing demoEngine = False"
  by (simp_all add: demoEngine_def jsnum_arith)

text \<open>
  Two updates that throw, on the playing demo engine at 0.5 s: the rotation without
  \<open>from\<close> throws the \<open>TypeError\<close> of \<open>from.split\<close>, and on a host that rejects the selector
  the radius animation throws the \<open>DOMException\<close> of \<open>querySelectorAll\<close>.
\<close>

lemma spin_sample:
  "updateAnimations demoHost (Fin 0.5)
     ((playingEngine [AnimateTransform (parseAnimateTransform spinElement 0)])
        \<lparr>currentTime := Fin 0.5\<rparr>) =
   (Some (TypeError (readingNull ''split'')),
    (playingEngine [AnimateTransform (parseAnimateTransform spinElement 0)])
      \<lparr>currentTime := Fin 0.5, targetCache := [''#circle'' \<mapsto> [1]]\<rparr>)"
  unfolding spinLeaf_parsed
  by (simp add: updateAnimations_def updateAnimateTransform_def withProgress_def getTargets_def
      querySelectorAll_def calculateProgress_def Let_def applyEasing_def interpolateTransform_def
      playingEngine_def demoEngine_fields demoHost_def demoDocument_def
      StringToNumber_def unsignedDecimal_def startsWith_def isWhiteSpace_def isDigit_def
      digitsVal_def digitVal_def scale10_def jsnum_arith)

lemma strict_sample:
  "updateAnimations strictHost (Fin 0.5) ((playingEngine [Animate radiusLeaf])\<lparr>currentTime := Fin 0.5\<rparr>) =
   (Some (DOMException ''SyntaxError''),
    (playingEngine [Animate radiusLeaf])\<lparr>currentTime := Fin 0.5\<rparr>)"
  unfolding radiusLeaf_parsed
  by (simp add: updateAnimations_def updateAnimate_def withProgress_def getTargets_def
      querySelectorAll_def playingEngine_def demoEngine_fields strictHost_def demoHost_def
      jsnum_arith)

lemma half_second: "(Fin 500 - Fin 0) / toDouble 1000 * Fin 1 = Fin 0.5"
  by (simp add: jsnum_arith)

theorem C5_tick_exception_witness:
  "playing (playingEngine [AnimateTransform (parseAnimateTransform spinElement 0)])
   \<and> animate demoHost (Fin 500)
        (playingEngine [AnimateTransform (parseAnimateTransform spinElement 0)]) =
      (Some (TypeError (readingNull ''split'')),
       (playingEngine [AnimateTransform (parseAnimateTransform spinElement 0)])
         \<lparr>currentTime := Fin 0.5, targetCache := [''#circle'' \<mapsto> [1]]\<rparr>)
   \<and> events ((playingEngine [AnimateTransform (parseAnimateTransform spinElement 0)])
         \<lparr>currentTime := Fin 0.5, targetCache := [''#circle'' \<mapsto> [1]]\<rparr>) = []
   \<and> animate strictHost (Fin 500) (playingEngine [Animate radiusLeaf]) =
      (Some (DOMException ''SyntaxError''),
       (playingEngine [Animate radiusLeaf])\<lparr>currentTime := Fin 0.5\<rparr>)"
  using C5_tick_exception_propagates
    [of "playingEngine [AnimateTransform (parseAnimateTransform spinElement 0)]"
        "Fin 0.5" "Fin 500"
        "(playingEngine [AnimateTransform (parseAnimateTransform spinElement 0)])
           \<lparr>currentTime := Fin 0.5\<rparr>"
        demoHost "TypeError (readingNull ''split'')"
        "(playingEngine [AnimateTransform (parseAnimateTransform spinElement 0)])
           \<lparr>currentTime := Fin 0.5, targetCache := [''#circle'' \<mapsto> [1]]\<rparr>"]
    C5_tick_exception_propagates
    [of "playingEngine [Animate radiusLeaf]" "Fin 0.5" "Fin 500"
        "(playingEngine [Animate radiusLeaf])\<lparr>currentTime := Fin 0.5\<rparr>"
        strictHost "DOMException ''SyntaxError''"
        "(playingEngine [Animate radiusLeaf])\<lparr>currentTime := Fin 0.5\<rparr>"]
    spin_sample strict_sample
  by (simp add: playingEngine_def demoEngine_fields half_second)

lemma spin_tick:
  "animate demoHost (Fin 500)
     (playingEngine [AnimateTransform (parseAnimateTransform spinElement 0)]) =
   (Some (TypeError (readingNull ''split'')),
    (playingEngine [AnimateTransform (parseAnimateTransform spinElement 0)])
      \<lparr>currentTime := Fin 0.5, targetCache := [''#circle'' \<mapsto> [1]]\<rparr>)"
  using spin_sample
  by (simp add: animate_def sampleAndSchedule_def Let_def playingEngine_def
      demoEngine_fields jsnum_arith)

text \<open>
  The claim C5 fails on a playing engine whose timeline is the rotation without \<open>from\<close>:
  the tick at 500 ms throws the \<open>TypeError\<close> of \<open>from.split\<close> to its caller, the engine
  is still playing afterwards and has emitted nothing.
\<close>

theorem C5_uncaught_counterexample:
  "fst (animate demoHost (Fin 500)
          (playingEngine [AnimateTransform (parseAnimateTransform spinElement 0)])) =
     Some (TypeError (readingNull ''split''))
   \<and> playing (snd (animate demoHost (Fin 500)
          (playingEngine [AnimateTransform (parseAnimateTransform spinElement 0)]))) = True
   \<and> events (snd (animate demoHost (Fin 500)
          (playingEngine [AnimateTransform (parseAnimateTransform spinElement 0)]))) = []"
  unfolding spin_tick
  by (simp add: playingEngine_def demoEngine_fields)

text \<open>
  The same for a frame callback that the browser runs from its queue, and for \<open>seek\<close>:
  the callback is consumed and none is added; \<open>seek(0.5)\<close> on the same timeline throws and
  emits no \<open>seek\<close> event.
\<close>

lemma tick_runs_animate:
  "pendingFrames s = k # ks \<Longrightarrow> tick h now s = animate h now (s\<lparr>pendingFrames := ks\<rparr>)"
  by (simp add: tick_def)

lemma seek_throws_example:
  "seek demoHost (Fin 500) (Fin 0.5)
     ((playingEngine [AnimateTransform (parseAnimateTransform spinElement 0)])
        \<lparr>currentTime := Fin 0.5\<rparr>) =
   (Some (TypeError (readingNull ''split'')),
    (playingEngine [AnimateTransform (parseAnimateTransform spinElement 0)])
      \<lparr>currentTime := Fin 0.5, targetCache := [''#circle'' \<mapsto> [1]]\<rparr>)"
proof -
  let ?s = "(playingEngine [AnimateTransform (parseAnimateTransform spinElement 0)])
        \<lparr>currentTime := Fin 0.5\<rparr>"
  have c: "Fin 0.5 = Math_max 0 (Math_min (Fin 0.5) (state_duration ?s))"
    by (simp add: playingEngine_def demoEngine_fields jsnum_arith)
  have s2: "?s = ?s\<lparr>currentTime := Fin 0.5, startTime := Fin 500 - Fin 0.5 * toDouble 1000\<rparr>"
    by (simp add: playingEngine_def demoEngine_def jsnum_arith)
  show ?thesis
    using seek_outcome(1) [OF c s2 refl, of demoHost]
    unfolding spin_sample
    by (simp add: playingEngine_def demoEngine_def jsnum_arith)
qed

section \<open>The playback rate\<close>

text \<open>
  C3, as the code has it. The setter of \<open>playbackRate\<close> stores the new rate and nothing
  else: the clock origin and the stored \<open>currentTime\<close> are as before. The next tick of a
  playing engine, at the clock reading \<open>now\<close>, sets \<open>currentTime\<close> to
  \<open>(now - origin) / 1000 * rate\<close> with the new rate (when that is below the duration):
  the time already elapsed is scaled by the new rate.
\<close>

theorem C3_setRate_rescales_elapsed:
  assumes "playing s" and "\<not> state_duration s \<le> (now - startTime s) / toDouble 1000 * rate"
  shows "startTime (set_playbackRate rate s) = startTime s
    \<and> currentTime (set_playbackRate rate s) = currentTime s
    \<and> currentTime (snd (animate h now (set_playbackRate rate s))) =
        (now - startTime s) / toDouble 1000 * rate"
  using assms
  by (simp add: set_playbackRate_def animate_def Let_def sampleAndSchedule_currentTime)

lemma rate_tick:
  assumes "isDouble r"
  shows "animate demoHost (Fin 1000) (demoEngine\<lparr>playing := True, playbackRate := Fin r\<rparr>) =
     (if 10 \<le> r
      then (None, emit ''end'' NoDetail
              (pause (demoEngine\<lparr>playing := True, playbackRate := Fin r, currentTime := Fin 10\<rparr>)))
      else (None, requestAnimationFrame (emit ''update'' (TimeDetail (Fin r))
              (demoEngine\<lparr>playing := True, playbackRate := Fin r, currentTime := Fin r\<rparr>))))"
  using assms
  by (simp add: animate_def sampleAndSchedule_def updateAnimations_def Let_def
      demoEngine_fields jsnum_arith isDouble_def)

theorem C3_setRate_witness:
  "playing (demoEngine\<lparr>playing := True\<rparr>)
   \<and> currentTime (snd (animate demoHost (Fin 1000)
        (set_playbackRate (Fin 2) (demoEngine\<lparr>playing := True\<rparr>)))) = Fin 2"
  using C3_setRate_rescales_elapsed
    [of "demoEngine\<lparr>playing := True\<rparr>" "Fin 1000" "Fin 2" demoHost]
  by (simp add: demoEngine_fields jsnum_arith)

text \<open>
  The claim C3 fails: on a playing engine with origin 0 and rate 1, the tick at the clock
  reading 1000 ms observes \<open>currentTime = 1\<close>; after the rate is set to 2, the tick at the
  same reading observes \<open>currentTime = 2\<close>, and the origin has not moved.
\<close>

theorem C3_setRate_counterexample:
  "currentTime (snd (animate demoHost (Fin 1000) (demoEngine\<lparr>playing := True\<rparr>))) = Fin 1
   \<and> currentTime (snd (animate demoHost (Fin 1000)
        (set_playbackRate (Fin 2) (demoEngine\<lparr>playing := True\<rparr>)))) = Fin 2
   \<and> startTime (set_playbackRate (Fin 2) (demoEngine\<lparr>playing := True\<rparr>)) =
        startTime (demoEngine\<lparr>playing := True\<rparr>)"
proof -
  have 1: "demoEngine\<lparr>playing := True\<rparr> = demoEngine\<lparr>playing := True, playbackRate := Fin 1\<rparr>"
    by (simp add: demoEngine_def jsnum_arith)
  have 2: "set_playbackRate (Fin 2) (demoEngine\<lparr>playing := True\<rparr>) =
      demoEngine\<lparr>playing := True, playbackRate := Fin 2\<rparr>"
    by (simp add: set_playbackRate_def jsnum_arith)
  have d: "isDouble 1" "isDouble 2"
    by (simp_all add: isDouble_def jsnum_arith)
  show ?thesis
    unfolding 2
    apply (subst 1)
    unfolding rate_tick [OF d(1)] rate_tick [OF d(2)]
    by (simp add: requestAnimationFrame_def emit_def demoEngine_fields jsnum_arith)
qed

section \<open>Durations of groups and of the timeline\<close>

lemma sequenceLoop_sum:
  "sequenceLoop cs acc cur = (acc', cur') \<Longrightarrow>
     \<exists>new. acc' = acc @ new \<and> cur' = foldl (+) cur (map anim_duration new)"
proof (induction cs arbitrary: acc cur)
  case Nil
  then show ?case by simp
next
  case (Cons c cs)
  show ?case
  proof (cases "parseAnimation c cur")
    case None
    with Cons show ?thesis by simp
  next
    case (Some a)
    with Cons.prems have "sequenceLoop cs (acc @ [a]) (cur + anim_duration a) = (acc', cur')"
      by simp
    from Cons.IH [OF this] obtain new where
      "acc' = (acc @ [a]) @ new"
      "cur' = foldl (+) (cur + anim_duration a) (map anim_duration new)"
      by blast
    then have "acc' = acc @ (a # new) \<and> cur' = foldl (+) cur (map anim_duration (a # new))"
      by simp
    then show ?thesis by blast
  qed
qed

lemma parallelLoop_max:
  "parallelLoop cs p acc m = (acc', m') \<Longrightarrow>
     \<exists>new. acc' = acc @ new \<and> m' = foldl Math_max m (map anim_duration new)"
proof (induction cs arbitrary: acc m)
  case Nil
  then show ?case by simp
next
  case (Cons c cs)
  show ?case
  proof (cases "parseAnimation c p")
    case None
    with Cons show ?thesis by simp
  next
    case (Some a)
    with Cons.prems have
      "parallelLoop cs p (acc @ [a]) (Math_max m (anim_duration a)) = (acc', m')"
      by simp
    from Cons.IH [OF this] obtain new where
      "acc' = (acc @ [a]) @ new"
      "m' = foldl Math_max (Math_max m (anim_duration a)) (map anim_duration new)"
      by blast
    then have "acc' = acc @ (a # new) \<and> m' = foldl Math_max m (map anim_duration (a # new))"
      by simp
    then show ?thesis by blast
  qed
qed

lemma anim_duration_set_target: "anim_duration (set_target t a) = anim_duration a"
  by (cases a) simp_all

lemma setLoop_max:
  "setLoop cs p tgt acc m = (acc', m') \<Longrightarrow>
     \<exists>new. acc' = acc @ new \<and> m' = foldl Math_max m (map anim_duration new)"
proof (induction cs arbitrary: acc m)
  case Nil
  then show ?case by simp
next
  case (Cons c cs)
  show ?case
  proof (cases "parseAnimation c p")
    case None
    with Cons show ?thesis by simp
  next
    case (Some a)
    with Cons.prems have
      "setLoop cs p tgt (acc @ [set_target tgt a]) (Math_max m (anim_duration a)) = (acc', m')"
      by simp
    from Cons.IH [OF this] obtain new where
      "acc' = (acc @ [set_target tgt a]) @ new"
      "m' = foldl Math_max (Math_max m (anim_duration a)) (map anim_duration new)"
      by blast
    then have "acc' = acc @ (set_target tgt a # new)
        \<and> m' = foldl Math_max m (map anim_duration (set_target tgt a # new))"
      by (simp add: anim_duration_set_target)
    then show ?thesis by blast
  qed
qed

lemma parseLeaf_not_group:
  "parseLeaf el p \<noteq> Some (Sequence as r i d)"
  "parseLeaf el p \<noteq> Some (Parallel as i d)"
  "parseLeaf el p \<noteq> Some (AnimateSet as t i d)"
  by (simp_all add: parseLeaf_def Let_def)

lemma parseAnimation_sequence:
  assumes "parseAnimation el p = Some (Sequence as r i d)"
  shows "d = foldl (+) p (map anim_duration as) - p"
proof -
  obtain tag atts cs where el: "el = Element tag atts cs"
    by (cases el)
  obtain acc' cur' where l: "sequenceLoop cs [] p = (acc', cur')"
    by (cases "sequenceLoop cs [] p")
  from sequenceLoop_sum [OF l] have acc: "cur' = foldl (+) p (map anim_duration acc')"
    by simp
  have "as = acc' \<and> d = cur' - p"
    using assms l unfolding el
    by (simp add: mkSequence_def mkParallel_def mkAnimateSet_def parseLeaf_not_group
             split: if_splits prod.splits)
  then show ?thesis
    by (simp add: acc)
qed

text \<open>A sum from 0 is a number, so subtracting the start 0 leaves it as it is.\<close>

lemma isNumber_spec_sum: "isNumber (spec_sum ds)"
  unfolding spec_sum_def
  by (induction ds rule: rev_induct) (simp_all add: zero_jsnum_def isDouble_0 isNumber_plus)

lemma parseAnimation_sequence_top:
  assumes "parseAnimation el 0 = Some (Sequence as r i d)"
  shows "d = spec_sum (map anim_duration as)"
  using parseAnimation_sequence [OF assms] plus_zero(3) [OF isNumber_spec_sum]
  by (simp add: spec_sum_def)

lemma parseAnimation_parallel:
  assumes "parseAnimation el p = Some (Parallel as i d)"
  shows "d = spec_max (map anim_duration as)"
proof -
  obtain tag atts cs where el: "el = Element tag atts cs"
    by (cases el)
  obtain acc' m' where l: "parallelLoop cs p [] 0 = (acc', m')"
    by (cases "parallelLoop cs p [] 0")
  from parallelLoop_max [OF l] have acc: "m' = foldl Math_max 0 (map anim_duration acc')"
    by simp
  have "as = acc' \<and> d = m'"
    using assms l unfolding el
    by (simp add: mkSequence_def mkParallel_def mkAnimateSet_def parseLeaf_not_group
             split: if_splits prod.splits)
  then show ?thesis
    by (simp add: acc spec_max_def)
qed

lemma parseAnimation_animateSet:
  assumes "parseAnimation el p = Some (AnimateSet as t i d)"
  shows "d = spec_max (map anim_duration as)"
proof -
  obtain tag atts cs where el: "el = Element tag atts cs"
    by (cases el)
  obtain acc' m' where l: "setLoop cs p (map_of atts ''target'') [] 0 = (acc', m')"
    by (cases "setLoop cs p (map_of atts ''target'') [] 0")
  from setLoop_max [OF l] have acc: "m' = foldl Math_max 0 (map anim_duration acc')"
    by simp
  have "as = acc' \<and> d = m'"
    using assms l unfolding el
    by (simp add: mkSequence_def mkParallel_def mkAnimateSet_def parseLeaf_not_group
             split: if_splits prod.splits)
  then show ?thesis
    by (simp add: acc spec_max_def)
qed

lemma calcAnimDuration_maxEnd:
  "snd (calcAnimDuration h a m) = foldl Math_max m (leafEnds h a)"
  "snd (childrenLoop h sq as sd m) = foldl Math_max m (concat (map (leafEnds h) as))"
proof (induction h a m and h sq as sd m rule: calcAnimDuration_childrenLoop.induct)
  case (10 h sq child rest seqDuration maxEnd)
  obtain cd m' where c: "calcAnimDuration h child maxEnd = (cd, m')"
    by (cases "calcAnimDuration h child maxEnd")
  have m': "m' = foldl Math_max maxEnd (leafEnds h child)"
    using "10.IH"(1) c by simp
  have "snd (childrenLoop h sq rest
          (if sq then seqDuration + cd else Math_max seqDuration cd) m') =
        foldl Math_max m' (concat (map (leafEnds h) rest))"
    using "10.IH"(2) c by simp
  then show ?case
    using c m' by simp
qed (simp_all add: leafDuration_def leafEnd_def Let_def)

lemma timeline_fold_maxEnd:
  "fold (\<lambda>anim m. snd (calcAnimDuration h anim m)) anims m =
     foldl Math_max m (concat (map (leafEnds h) anims))"
  by (induction anims arbitrary: m) (simp_all add: calcAnimDuration_maxEnd)

lemma calculateDuration_spec:
  "calculateDuration h s = spec_totalDuration h (options_duration s) (timeline s)"
  by (cases "timeline s")
     (simp_all add: calculateDuration_def spec_totalDuration_def spec_max_def or_num_def
        timeline_fold_maxEnd zero_jsnum_def)

lemma foldl_Math_max_Fin:
  "foldl Math_max (Fin m) (map Fin rs) = Fin (fold max rs m)"
proof (induction rs arbitrary: m)
  case Nil
  show ?case by simp
next
  case (Cons r rs)
  have "Math_max (Fin m) (Fin r) = Fin (max r m)"
    by (simp add: max_def)
  then show ?case
    using Cons.IH [of "max r m"] by simp
qed

lemma spec_max_finite:
  "spec_max (map Fin rs) = Fin (Max (set (0 # rs)))"
  unfolding spec_max_def zero_jsnum_def foldl_Math_max_Fin
  by (simp only: Max.set_eq_fold)

text \<open>
  The iteration count of a leaf. The decimal digits of a natural number are read back as
  that number, so a repeat count \<open>n\<close> from 1 to \<open>2 ^ 53 - 1\<close>, held as a number or as
  its text, counts \<open>n\<close> iterations; the unbounded markers count one, and so does a repeat
  that is missing.
\<close>

lemma digit_char:
  assumes "d < 10"
  shows "isDigit (char_of (48 + d))" "digitVal (char_of (48 + d)) = d"
  using assms by (simp_all add: isDigit_def digitVal_def)

lemma natToString_digits: "list_all isDigit (natToString n) \<and> natToString n \<noteq> []"
proof (induction n rule: natToString.induct)
  case (1 n)
  show ?case
  proof (cases "n < 10")
    case True
    then show ?thesis
      by (subst (1 2) natToString.simps) (simp add: digit_char)
  next
    case False
    then show ?thesis
      using 1 by (subst (1 2) natToString.simps) (simp add: digit_char)
  qed
qed

lemma digitsVal_append: "digitsVal (ds @ [c]) = 10 * digitsVal ds + digitVal c"
  by (simp add: digitsVal_def)

lemma digitsVal_natToString: "digitsVal (natToString n) = n"
proof (induction n rule: natToString.induct)
  case (1 n)
  show ?case
  proof (cases "n < 10")
    case True
    then show ?thesis
      by (subst natToString.simps) (simp add: digitsVal_def digit_char)
  next
    case False
    then have "digitsVal (natToString n) = 10 * (n div 10) + n mod 10"
      using 1 by (subst natToString.simps) (simp add: digitsVal_append digit_char)
    then show ?thesis by simp
  qed
qed

lemma parseInt_natToString: "parseInt (natToString n) = toDouble (real n)"
proof -
  obtain c cs where s: "natToString n = c # cs"
    using natToString_digits [of n] by (cases "natToString n") auto
  have all: "list_all isDigit (c # cs)"
    using natToString_digits [of n] s by simp
  then have c: "isDigit c" "\<not> isWhiteSpace c" "c \<noteq> CHR ''-''" "c \<noteq> CHR ''+''"
    by (auto simp: isDigit_def isWhiteSpace_def)
  have x: "\<not> startsWith (c # cs) ''0x''" "\<not> startsWith (c # cs) ''0X''"
    using all by (cases cs; auto simp: startsWith_def isDigit_def)+
  have t: "takeWhile isDigit cs = cs"
    using all by (simp add: takeWhile_eq_all_conv list_all_iff)
  have "parseInt (c # cs) = toDouble (real (digitsVal (c # cs)))"
    using c x by (simp add: parseInt_def Let_def t)
  then show ?thesis
    using digitsVal_natToString [of n] by (simp add: s)
qed

lemma iterationsOf_count:
  assumes "0 < n" "n < 2 ^ 53"
  shows "iterationsOf h (Number (Fin (real n))) = Fin (real n)"
    and "iterationsOf h (String (natToString n)) = Fin (real n)"
proof -
  have "\<bar>int n\<bar> < 2 ^ 53"
    using assms(2) by (metis abs_of_nat of_nat_less_iff of_nat_numeral of_nat_power)
  then have r: "toDouble (real n) = Fin (real n)"
    using toDouble_of_int [of "int n"] by simp
  have "real n < 2 ^ 53"
    using assms(2) by (metis of_nat_less_iff of_nat_numeral of_nat_power)
  then have s: "numToString h (Fin (real n)) = natToString n"
    by (simp add: numToString_def)
  have i: "natToString n \<noteq> ''infinite''"
    using natToString_digits [of n] by (auto simp: isDigit_def)
  show "iterationsOf h (Number (Fin (real n))) = Fin (real n)"
    using assms(1) by (simp add: iterationsOf_def s parseInt_natToString r or_num_def truthy_num_def)
  show "iterationsOf h (String (natToString n)) = Fin (real n)"
    using assms(1) i
    by (simp add: iterationsOf_def parseInt_natToString r or_num_def truthy_num_def)
qed

lemma iterationsOf_unbounded:
  "iterationsOf h (Number PInf) = 1" "iterationsOf h (String ''infinite'') = 1"
  "iterationsOf h Undefined = 1"
  by (simp_all add: iterationsOf_def parseInt_def startsWith_def isWhiteSpace_def isDigit_def
      or_num_def truthy_num_def)

text \<open>
  C6, as the code has it. A sequence parsed at the start \<open>p\<close> has the duration
  \<open>(p + d1 + \<dots> + dn) - p\<close>, where \<open>d1\<close> to \<open>dn\<close> are the durations of its children in
  order and every operation is rounded; for a sequence that starts at 0, as every sequence
  at the top of the timeline does, that is the sum \<open>d1 + \<dots> + dn\<close> (\<open>spec_sum\<close>). A
  parallel group and an animate-set have the maximum of the durations of their children
  (\<open>spec_max\<close>, which on finite durations is the greatest of them and 0). The total
  duration of the timeline is the override when one is given, else the maximum over all
  leaves of \<open>start + duration * iterations\<close>, where a repeat count \<open>n\<close> counts \<open>n\<close>
  iterations and an unbounded or missing repeat counts one.
\<close>

theorem C6_durations_aggregate:
  "(parseAnimation el1 p1 = Some (Sequence as1 r1 i1 d1)
      \<longrightarrow> d1 = foldl (+) p1 (map anim_duration as1) - p1)
   \<and> (parseAnimation el0 0 = Some (Sequence as0 r0 i0 d0)
      \<longrightarrow> d0 = spec_sum (map anim_duration as0))
   \<and> (parseAnimation el2 p2 = Some (Parallel as2 i2 d2)
      \<longrightarrow> d2 = spec_max (map anim_duration as2))
   \<and> (parseAnimation el3 p3 = Some (AnimateSet as3 t3 i3 d3)
      \<longrightarrow> d3 = spec_max (map anim_duration as3))
   \<and> spec_max (map Fin rs) = Fin (Max (set (0 # rs)))
   \<and> calculateDuration h s = spec_totalDuration h (options_duration s) (timeline s)
   \<and> (0 < n \<and> n < 2 ^ 53
      \<longrightarrow> iterationsOf h (Number (Fin (real n))) = Fin (real n)
        \<and> iterationsOf h (String (natToString n)) = Fin (real n))
   \<and> iterationsOf h (Number PInf) = 1
   \<and> iterationsOf h (String ''infinite'') = 1
   \<and> iterationsOf h Undefined = 1"
  using parseAnimation_sequence [of el1 p1 as1 r1 i1 d1]
    parseAnimation_sequence_top [of el0 as0 r0 i0 d0]
    parseAnimation_parallel [of el2 p2 as2 i2 d2]
    parseAnimation_animateSet [of el3 p3 as3 t3 i3 d3]
    spec_max_finite [of rs] calculateDuration_spec [of h s]
    iterationsOf_count [of n h] iterationsOf_unbounded [of h]
  by blast

lemma radius_child:
  assumes "isDouble st"
  shows "parseAnimation (radiusElement [(''duration'', ''1s'')]) (Fin st) = Some (radiusAt 1 st)"
    "parseAnimation (radiusElement [(''duration'', ''2s'')]) (Fin st) = Some (radiusAt 2 st)"
    "parseAnimation (radiusElement [(''duration'', ''3s'')]) (Fin st) = Some (radiusAt 3 st)"
  using assms
  by (simp_all add: radiusElement_def radiusAt_def isSequence_def isParallel_def
      isAnimateSet_def parseLeaf_def toLowerCase_def isUpperCase_def parse_defs jsnum_arith
      isDouble_def)

lemma isDouble_small: "isDouble 0" "isDouble 1" "isDouble 2" "isDouble 3"
  by (simp_all add: isDouble_def jsnum_arith)

lemma group_parsed:
  "parseAnimation (groupElement ''sequence'') (Fin 0) =
     Some (Sequence [radiusAt 1 0, radiusAt 2 1, radiusAt 3 3] ''1'' None (Fin 6))"
  "parseAnimation (groupElement ''parallel'') (Fin 0) =
     Some (Parallel [radiusAt 1 0, radiusAt 2 0, radiusAt 3 0] None (Fin 3))"
  "parseAnimation (groupElement ''animate-set'') (Fin 0) =
     Some (AnimateSet (map (set_target None) [radiusAt 1 0, radiusAt 2 0, radiusAt 3 0])
             None None (Fin 3))"
  by (simp_all add: groupElement_def radius_child isDouble_small isSequence_def isParallel_def
      isAnimateSet_def toLowerCase_def isUpperCase_def mkSequence_def mkParallel_def
      mkAnimateSet_def attrOr_def getAttribute_def radiusAt_def jsnum_arith)

lemma group_total:
  "calculateDuration demoHost (demoEngine\<lparr>timeline := Some
      [Sequence [radiusAt 1 0, radiusAt 2 1, radiusAt 3 3] ''1'' None (Fin 6)]\<rparr>)
     = Fin 6"
  "calculateDuration demoHost (demoEngine\<lparr>timeline := Some
      [Parallel [radiusAt 1 0, radiusAt 2 0, radiusAt 3 0] None (Fin 3)]\<rparr>)
     = Fin 3"
  by (simp_all add: calculateDuration_def leafDuration_def iterationsOf_def numToString_def
      natToString.simps char_defs parse_defs or_num_def truthy_num_def radiusAt_def
      demoEngine_def Let_def jsnum_arith)

lemma repeat_leaf_parsed:
  "parseAnimate (radiusElement [(''duration'', ''2s''), (''repeat'', ''3'')]) 0 =
     \<lparr> target = Some ''#circle'', start = Fin 0, duration = Fin 2, easing = ''linear'',
       repeat = Number (Fin 3), reverse = Boolean False, ident = None,
       attribute = Some ''r'', from_value = Some ''20'', to_value = Some ''80'',
       by_value = None, fill = ''none'' \<rparr>"
  by (simp add: radiusElement_def parse_defs jsnum_arith)

lemma repeat_leaf_total:
  "calculateDuration demoHost (demoEngine\<lparr>timeline := Some
      [Animate (parseAnimate (radiusElement [(''duration'', ''2s''), (''repeat'', ''3'')]) 0)]\<rparr>)
     = Fin 6"
  unfolding repeat_leaf_parsed
  by (simp add: calculateDuration_def leafDuration_def iterationsOf_def numToString_def
      natToString.simps char_defs parse_defs or_num_def truthy_num_def
      demoEngine_def Let_def jsnum_arith)

lemma group_values:
  "spec_sum (map anim_duration [radiusAt 1 0, radiusAt 2 1, radiusAt 3 3]) = Fin 6"
  "spec_max (map anim_duration [radiusAt 1 0, radiusAt 2 0, radiusAt 3 0]) = Fin 3"
  "spec_max (map anim_duration
     (map (set_target None) [radiusAt 1 0, radiusAt 2 0, radiusAt 3 0])) = Fin 3"
  "iterationsOf demoHost (Number (Fin 3)) = Fin 3"
  "iterationsOf demoHost (String ''3'') = Fin 3"
  by (simp_all add: spec_sum_def spec_max_def radiusAt_def iterationsOf_def numToString_def
      natToString.simps char_defs parse_defs or_num_def truthy_num_def jsnum_arith)

text \<open>
  The instance of the specification: children of 1, 2 and 3 seconds give a sequence of 6
  seconds, a parallel group and an animate-set of 3 seconds, and these are the totals of
  the timeline; a leaf of 2 seconds that repeats 3 times gives a total of 6 seconds.
\<close>

theorem C6_durations_witness:
  "parseAnimation (groupElement ''sequence'') 0 =
     Some (Sequence [radiusAt 1 0, radiusAt 2 1, radiusAt 3 3] ''1'' None (Fin 6))
   \<and> spec_sum (map anim_duration [radiusAt 1 0, radiusAt 2 1, radiusAt 3 3]) = Fin 6
   \<and> parseAnimation (groupElement ''parallel'') 0 =
     Some (Parallel [radiusAt 1 0, radiusAt 2 0, radiusAt 3 0] None (Fin 3))
   \<and> spec_max (map anim_duration [radiusAt 1 0, radiusAt 2 0, radiusAt 3 0]) = Fin 3
   \<and> parseAnimation (groupElement ''animate-set'') 0 =
     Some (AnimateSet (map (set_target None) [radiusAt 1 0, radiusAt 2 0, radiusAt 3 0])
             None None (Fin 3))
   \<and> spec_max (map anim_duration
        (map (set_target None) [radiusAt 1 0, radiusAt 2 0, radiusAt 3 0])) = Fin 3
   \<and> calculateDuration demoHost (demoEngine\<lparr>timeline := Some
        [Sequence [radiusAt 1 0, radiusAt 2 1, radiusAt 3 3] ''1'' None (Fin 6)]\<rparr>)
      = Fin 6
   \<and> calculateDuration demoHost (demoEngine\<lparr>timeline := Some
        [Parallel [radiusAt 1 0, radiusAt 2 0, radiusAt 3 0] None (Fin 3)]\<rparr>)
      = Fin 3
   \<and> iterationsOf demoHost (Number (Fin 3)) = Fin 3
   \<and> iterationsOf demoHost (String ''3'') = Fin 3
   \<and> calculateDuration demoHost (demoEngine\<lparr>timeline := Some
        [Animate (parseAnimate (radiusElement [(''duration'', ''2s''), (''repeat'', ''3'')]) 0)]\<rparr>)
      = Fin 6"
  using C6_durations_aggregate
    [of "groupElement ''sequence''" 0
        "[radiusAt 1 0, radiusAt 2 1, radiusAt 3 3]" "''1''" None "Fin 6"
        "groupElement ''sequence''"
        "[radiusAt 1 0, radiusAt 2 1, radiusAt 3 3]" "''1''" None "Fin 6"
        "groupElement ''parallel''" 0
        "[radiusAt 1 0, radiusAt 2 0, radiusAt 3 0]" None "Fin 3"
        "groupElement ''animate-set''" 0
        "map (set_target None) [radiusAt 1 0, radiusAt 2 0, radiusAt 3 0]" None None "Fin 3"
        "[1, 2, 3]" demoHost
        "demoEngine\<lparr>timeline := Some
           [Sequence [radiusAt 1 0, radiusAt 2 1, radiusAt 3 3] ''1'' None (Fin 6)]\<rparr>"
        3]
    group_parsed group_total repeat_leaf_total group_values
  by (simp add: zero_jsnum_def)

text \<open>
  The claim C6 fails for a sequence that does not start at 0. In \<open>nestedElement\<close> a leaf
  of 0.1 s is followed by a sequence whose only child lasts 0.2 s. The inner sequence
  starts at 0.1 s and its duration is \<open>(0.1 + 0.2) - 0.1\<close>, which in double arithmetic is
  0.20000000000000004, not the sum 0.2 of the durations of its children.
\<close>

theorem C6_nested_sequence_counterexample:
  "parseAnimation nestedElement 0 =
     Some (Sequence
       [radiusAt (3602879701896397 / 36028797018963968) 0,
        Sequence
          [radiusAt (3602879701896397 / 18014398509481984)
             (3602879701896397 / 36028797018963968)]
          ''1'' None (Fin (7205759403792795 / 36028797018963968))]
       ''1'' None (Fin (1351079888211149 / 4503599627370496)))
   \<and> spec_sum (map anim_duration
        [radiusAt (3602879701896397 / 18014398509481984)
           (3602879701896397 / 36028797018963968)])
      = Fin (3602879701896397 / 18014398509481984)
   \<and> Fin (7205759403792795 / 36028797018963968) \<noteq> Fin (3602879701896397 / 18014398509481984)"
  by (simp add: nestedElement_def radiusElement_def radiusAt_def isSequence_def isParallel_def
      isAnimateSet_def parseLeaf_def toLowerCase_def isUpperCase_def parse_defs mkSequence_def
      spec_sum_def jsnum_arith roundings)

text \<open>
  A sequence that starts at \<open>NaN\<close> has the duration \<open>NaN\<close>, whatever its children: in
  \<open>nanElement\<close> the first child has the duration \<open>.\<close>, which \<open>parseFloat\<close> reads as \<open>NaN\<close>.
\<close>

lemma nan_start_sequence:
  "\<exists>a b. parseAnimation nanElement 0 =
     Some (Sequence [a, Sequence [b] ''1'' None NaN] ''1'' None NaN)
     \<and> anim_duration b = Fin 1"
  by (simp add: nanElement_def radiusElement_def isSequence_def isParallel_def
      isAnimateSet_def parseLeaf_def toLowerCase_def isUpperCase_def parse_defs mkSequence_def
      jsnum_arith)

section \<open>The target cache\<close>














lemma cached_resolve:
  assumes "targetCache s sel = Some cached" "sel \<noteq> []" "svgContent s = Some d"
  shows "getTargets h (Some sel) s = (Inr cached, s)"
  using assms by (simp add: getTargets_def)









end
